theory Spec2Isabelle
  imports Complex_Main "HOL-Library.Sublist"
begin

section \<open>Settings provider\<close>

text \<open>
  Modelled from the spec: the settings provider \<^verbatim>\<open>DataManager.get_setting(key, default)\<close>
  (its class is not part of the sources). The spec describes typed accessors that
  return the stored value of a key, or the caller's default when the key is not stored.
  The store is split by the type of the value, one finite map per type.
\<close>

record settings =
  bool_settings :: "string \<rightharpoonup> bool"
  int_settings :: "string \<rightharpoonup> int"
  num_settings :: "string \<rightharpoonup> rat"
  str_settings :: "string \<rightharpoonup> string"

definition get_setting_bool :: "settings \<Rightarrow> string \<Rightarrow> bool \<Rightarrow> bool" where
  "get_setting_bool dm key dflt = (case bool_settings dm key of Some v \<Rightarrow> v | None \<Rightarrow> dflt)"

definition get_setting_int :: "settings \<Rightarrow> string \<Rightarrow> int \<Rightarrow> int" where
  "get_setting_int dm key dflt = (case int_settings dm key of Some v \<Rightarrow> v | None \<Rightarrow> dflt)"

definition get_setting_num :: "settings \<Rightarrow> string \<Rightarrow> rat \<Rightarrow> rat" where
  "get_setting_num dm key dflt = (case num_settings dm key of Some v \<Rightarrow> v | None \<Rightarrow> dflt)"

definition get_setting_str :: "settings \<Rightarrow> string \<Rightarrow> string \<Rightarrow> string" where
  "get_setting_str dm key dflt = (case str_settings dm key of Some v \<Rightarrow> v | None \<Rightarrow> dflt)"

definition no_settings :: settings where
  "no_settings = \<lparr>bool_settings = Map.empty, int_settings = Map.empty,
     num_settings = Map.empty, str_settings = Map.empty\<rparr>"

section \<open>Trading-hours gate (trading\_app\_main.py, is\_trading\_time\_allowed)\<close>

text \<open>
  A \<^verbatim>\<open>datetime.time\<close> value. Python compares two naive times field by field, hour first.
\<close>

record time_of_day =
  hour :: nat
  minute :: nat
  second :: nat
  microsecond :: nat

definition time_le :: "time_of_day \<Rightarrow> time_of_day \<Rightarrow> bool" where
  "time_le a b =
     (hour a < hour b \<or> (hour a = hour b \<and>
       (minute a < minute b \<or> (minute a = minute b \<and>
         (second a < second b \<or> (second a = second b \<and>
           microsecond a \<le> microsecond b))))))"

definition hm :: "nat \<Rightarrow> nat \<Rightarrow> time_of_day" where
  "hm h m = \<lparr>hour = h, minute = m, second = 0, microsecond = 0\<rparr>"

definition is_digit :: "char \<Rightarrow> bool" where
  "is_digit c = (c \<in> set ''0123456789'')"

definition digit_val :: "char \<Rightarrow> nat" where
  "digit_val c = of_char c - 48"

text \<open>
  \<^verbatim>\<open>datetime.strptime(s, "%H:%M").time()\<close> on ASCII text. The library matches
  \<^verbatim>\<open>(2[0-3]|[0-1]\d|\d):([0-5]\d|\d)\<close> at the start of the text and raises
  \<^verbatim>\<open>ValueError\<close> when there is no match or when text remains after it; \<open>None\<close>
  stands for the raise.
\<close>

fun parse_minute :: "string \<Rightarrow> nat option" where
  "parse_minute [d] = (if is_digit d then Some (digit_val d) else None)"
| "parse_minute [d1, d2] =
     (if d1 \<in> set ''012345'' \<and> is_digit d2 then Some (10 * digit_val d1 + digit_val d2)
      else None)"
| "parse_minute _ = None"

fun strptime_HM :: "string \<Rightarrow> time_of_day option" where
  "strptime_HM (d1 # d2 # c # rest) =
     (if d2 = CHR '':'' then
        (if is_digit d1 then map_option (hm (digit_val d1)) (parse_minute (c # rest)) else None)
      else if c = CHR '':'' \<and>
              ((d1 = CHR ''2'' \<and> d2 \<in> set ''0123'') \<or> (d1 \<in> set ''01'' \<and> is_digit d2)) then
        map_option (hm (10 * digit_val d1 + digit_val d2)) (parse_minute rest)
      else None)"
| "strptime_HM _ = None"

text \<open>
  The gate. \<open>now_utc\<close> is the value of \<^verbatim>\<open>datetime.now(timezone.utc).time()\<close>. The
  \<^verbatim>\<open>except Exception\<close> branch, which returns \<^verbatim>\<open>True\<close>, is taken when either
  configured time does not parse.
\<close>

definition is_trading_time_allowed :: "settings \<Rightarrow> time_of_day \<Rightarrow> bool" where
  "is_trading_time_allowed dm now_utc =
     (if \<not> get_setting_bool dm ''time_filter_enabled'' False then True
      else
        (case strptime_HM (get_setting_str dm ''trade_start_time'' ''00:00'') of
           None \<Rightarrow> True
         | Some start_trade_time \<Rightarrow>
             (case strptime_HM (get_setting_str dm ''trade_end_time'' ''23:59'') of
                None \<Rightarrow> True
              | Some end_trade_time \<Rightarrow>
                  (if time_le start_trade_time end_trade_time then
                     (if time_le start_trade_time now_utc \<and> time_le now_utc end_trade_time
                      then True else False)
                   else
                     (if time_le start_trade_time now_utc \<or> time_le now_utc end_trade_time
                      then True else False)))))"

text \<open>
  The window as the specification words it: half-open \<open>[start, end)\<close>, wrapping past
  midnight when \<open>start > end\<close>.
\<close>

definition time_lt :: "time_of_day \<Rightarrow> time_of_day \<Rightarrow> bool" where
  "time_lt a b = (time_le a b \<and> \<not> time_le b a)"

definition in_half_open_window :: "time_of_day \<Rightarrow> time_of_day \<Rightarrow> time_of_day \<Rightarrow> bool" where
  "in_half_open_window start_t end_t now =
     (if time_le start_t end_t then time_le start_t now \<and> time_lt now end_t
      else time_le start_t now \<or> time_lt now end_t)"

definition time_filter_settings :: "string \<Rightarrow> string \<Rightarrow> settings" where
  "time_filter_settings start_s end_s =
     no_settings\<lparr>bool_settings := [''time_filter_enabled'' \<mapsto> True],
                  str_settings := [''trade_start_time'' \<mapsto> start_s, ''trade_end_time'' \<mapsto> end_s]\<rparr>"

section \<open>Text formatting\<close>

text \<open>Python's \<^verbatim>\<open>str\<close> of an integer, as the f-strings of the sources use it.\<close>

definition digit_char :: "nat \<Rightarrow> char" where
  "digit_char n = ''0123456789'' ! n"

fun str_nat :: "nat \<Rightarrow> string" where
  "str_nat n = (if n < 10 then [digit_char n] else str_nat (n div 10) @ [digit_char (n mod 10)])"

declare str_nat.simps [simp del]

definition str_int :: "int \<Rightarrow> string" where
  "str_int i = (if i < 0 then CHR ''-'' # str_nat (nat (- i)) else str_nat (nat i))"

text \<open>\<^verbatim>\<open>sep.join(xs)\<close>\<close>

fun join :: "string \<Rightarrow> string list \<Rightarrow> string" where
  "join sep [] = []"
| "join sep [x] = x"
| "join sep (x # y # ys) = x @ sep @ join sep (y # ys)"

section \<open>The venue and its manager (mt5\_manager.py)\<close>

text \<open>
  Constants of the MetaTrader5 package, which the sources import: the two market order
  types and the two result codes that \<^verbatim>\<open>send_order\<close> accepts.
\<close>

definition ORDER_TYPE_BUY :: int where "ORDER_TYPE_BUY = 0"
definition ORDER_TYPE_SELL :: int where "ORDER_TYPE_SELL = 1"
definition TRADE_RETCODE_PLACED :: int where "TRADE_RETCODE_PLACED = 10008"
definition TRADE_RETCODE_DONE :: int where "TRADE_RETCODE_DONE = 10009"

record tick =
  bid :: rat
  ask :: rat
  tick_spread :: "int option"

record position =
  ticket :: int
  pos_symbol :: string
  pos_volume :: rat
  pos_type :: int
  pos_magic :: int

record order_result =
  retcode :: int
  deal :: int
  order :: int
  result_comment :: string

record account_info =
  balance :: rat
  currency :: string

text \<open>
  The attributes of a symbol that the sources read with \<^verbatim>\<open>getattr(info, name, default)\<close>
  or guard with \<^verbatim>\<open>hasattr\<close> are optional: \<open>None\<close> is a missing attribute. The
  precision \<open>volume_digits\<close> and the spread are integers when they are present.
\<close>

record symbol_info =
  volume_min :: "rat option"
  volume_max :: "rat option"
  volume_step :: "rat option"
  trade_contract_size :: "rat option"
  point :: "rat option"
  currency_profit :: "string option"
  volume_digits :: "int option"
  info_spread :: "int option"

text \<open>
  The answers of the venue (the \<^verbatim>\<open>mt5\<close> module) during one call of the manager. A
  request dictionary is built and handed to the venue but never read back, so the
  venue's answer to the request of the attempt is an input: \<open>order_check\<close> and
  \<open>order_send\<close> for \<^verbatim>\<open>send_order\<close>, \<open>order_send_close\<close> for the closing request of a
  position. \<open>None\<close> is the Python \<^verbatim>\<open>None\<close>. Within one call the venue gives the
  same answer to the same lookup.
\<close>

record mt5_venue =
  venue_account_info :: "account_info option"
  venue_symbol_info :: "string \<Rightarrow> symbol_info option"
  symbol_info_tick :: "string \<Rightarrow> tick option"
  positions_get :: "position list option"
  last_error :: "int \<times> string"
  order_check :: "order_result option"
  order_send :: "order_result option"
  order_send_close :: "position \<Rightarrow> order_result option"

text \<open>
  The manager: its connection flag, the last error text, the settings provider it was
  built with (\<open>None\<close> when it was built without one) and the configuration that
  \<^verbatim>\<open>_load_config\<close> copies from it.
\<close>

record mt5_manager =
  connected :: bool
  last_raw_error_message :: string
  data_manager :: "settings option"
  login :: "string option"
  password :: "string option"
  server :: "string option"
  path :: "string option"
  magic_number :: int
  retries :: int
  retry_delay :: rat
  timeout_ms :: int

definition is_connected :: "mt5_manager \<Rightarrow> bool" where
  "is_connected mgr = connected mgr"

text \<open>
  \<^verbatim>\<open>_get_retcode_description\<close>. The dictionary literal lists 10008 twice (the second
  time as \<^verbatim>\<open>mt5.TRADE_RETCODE_PLACED\<close>); in a Python dictionary the later entry wins,
  so the table is read from its end.
\<close>

definition retcode_table :: "(int \<times> string) list" where
  "retcode_table =
    [(10004, ''Requote''), (10006, ''Request rejected''), (10007, ''Request canceled by trader''),
     (10008, ''Order placed''), (10009, ''Request completed (TRADE_RETCODE_DONE)''),
     (10010, ''Request partially completed''),
     (10011, ''Request processing error''), (10012, ''Request timed out''), (10013, ''Invalid request''),
     (10014, ''Invalid volume''), (10015, ''Invalid price''), (10016, ''Invalid stops''),
     (10017, ''Trade is disabled''), (10018, ''Market is closed''), (10019, ''Not enough money''),
     (10020, ''Price changed''), (10021, ''No quotes''), (10022, ''Invalid expiration''),
     (10023, ''Order state changed''), (10024, ''Too frequent requests''), (10025, ''No changes''),
     (10026, ''Autotrading disabled by server''), (10027, ''Autotrading disabled by client''),
     (10028, ''Request locked for processing''), (10030, ''No connection''), (10031, ''Operation canceled''),
     (10032, ''SL is too close to market''), (10033, ''TP is too close to market''),
     (10034, ''Order is closed''), (10035, ''Position is closed''), (10036, ''Too many requests''),
     (10038, ''Position not found''), (10039, ''Volume is too large''), (10040, ''Volume is too small''),
     (10041, ''Invalid SL''), (10042, ''Invalid TP''), (10043, ''History request failed''),
     (10044, ''Trading disabled for symbol''), (10045, ''Closing order only allowed''),
     (10046, ''Order is being processed''),
     (TRADE_RETCODE_PLACED, ''Order placed (pending or part of market execution)'')]"

definition get_retcode_description :: "int \<Rightarrow> string" where
  "get_retcode_description code =
     (case map_of (rev retcode_table) code of
        Some d \<Rightarrow> d
      | None \<Rightarrow> ''Unknown retcode: '' @ str_int code)"

subsection \<open>get\_open\_positions and close\_all\_trades\<close>

definition get_open_positions :: "mt5_manager \<Rightarrow> mt5_venue \<Rightarrow> int option \<Rightarrow> position list" where
  "get_open_positions mgr v magic =
     (if \<not> is_connected mgr then []
      else case positions_get v of
             None \<Rightarrow> []
           | Some positions \<Rightarrow>
               (case magic of
                  Some m \<Rightarrow> filter (\<lambda>p. pos_magic p = m) positions
                | None \<Rightarrow> positions))"

definition magic_text :: "int option \<Rightarrow> string" where
  "magic_text magic = (case magic of Some m \<Rightarrow> str_int m | None \<Rightarrow> ''Any'')"

definition pos_label :: "position \<Rightarrow> string" where
  "pos_label p = ''Pos '' @ str_int (ticket p) @ ''('' @ pos_symbol p @ '')''"

text \<open>
  One iteration of the loop over \<^verbatim>\<open>positions_to_close\<close>; the accumulator holds
  \<^verbatim>\<open>closed_count\<close>, \<^verbatim>\<open>failed_count\<close> and \<^verbatim>\<open>summary_messages\<close>.
\<close>

definition close_position :: "mt5_venue \<Rightarrow> nat \<times> nat \<times> string list \<Rightarrow> position \<Rightarrow> nat \<times> nat \<times> string list" where
  "close_position v acc p =
     (case acc of (closed_count, failed_count, summary_messages) \<Rightarrow>
        (let order_type_to_close =
               (if pos_type p = ORDER_TYPE_BUY then ORDER_TYPE_SELL else ORDER_TYPE_BUY)
         in case symbol_info_tick v (pos_symbol p) of
              None \<Rightarrow>
                (closed_count, failed_count + 1,
                 summary_messages @ [pos_label p @ '': Price error.''])
            | Some current_tick_close \<Rightarrow>
                (let price_to_close =
                       (if order_type_to_close = ORDER_TYPE_SELL then bid current_tick_close
                        else ask current_tick_close)
                 in if price_to_close \<le> 0 then
                      (closed_count, failed_count + 1,
                       summary_messages @ [pos_label p @ '': Invalid close price.''])
                    else
                      (case order_send_close v p of
                         Some result \<Rightarrow>
                           (if retcode result = TRADE_RETCODE_DONE then
                              (closed_count + 1, failed_count,
                               summary_messages @ [pos_label p @ '': Closed.''])
                            else
                              (closed_count, failed_count + 1,
                               summary_messages @ [pos_label p @ '': Fail - '' @ result_comment result]))
                       | None \<Rightarrow>
                           (closed_count, failed_count + 1,
                            summary_messages @
                              [pos_label p @ '': Fail - '' @ ''MT5 Error Code: ''
                                 @ str_int (fst (last_error v)) @ '' - '' @ snd (last_error v)])))))"

definition close_loop :: "mt5_venue \<Rightarrow> position list \<Rightarrow> nat \<times> nat \<times> string list" where
  "close_loop v positions_to_close = foldl (close_position v) (0, 0, []) positions_to_close"

definition summary_line :: "int option \<Rightarrow> nat \<Rightarrow> nat \<Rightarrow> string" where
  "summary_line magic closed_count failed_count =
     ''Close All Summary (Magic: '' @ magic_text magic @ ''): Closed '' @ str_nat closed_count
       @ '', Failed '' @ str_nat failed_count @ ''.''"

text \<open>
  \<^verbatim>\<open>close_all_trades(magic, comment)\<close>; the comment only enters the closing requests.
\<close>

definition close_all_trades ::
  "mt5_manager \<Rightarrow> mt5_venue \<Rightarrow> int option \<Rightarrow> (bool \<times> string) \<times> mt5_manager" where
  "close_all_trades mgr v magic =
     (if \<not> is_connected mgr then
        ((False, ''Not connected to MT5''), mgr\<lparr>last_raw_error_message := ''Not connected to MT5''\<rparr>)
      else
        (let positions_to_close = get_open_positions mgr v magic
         in if positions_to_close = [] then
              ((True, ''No open positions found to close (Magic: '' @ magic_text magic @ '').''), mgr)
            else
              (case close_loop v positions_to_close of
                 (closed_count, failed_count, summary_messages) \<Rightarrow>
                   (let final_status_message =
                          summary_line magic closed_count failed_count
                            @ (if summary_messages \<noteq> [] then '' Details: '' @ join ''; '' summary_messages
                               else [])
                    in ((failed_count = 0, final_status_message),
                        mgr\<lparr>last_raw_error_message :=
                              (if failed_count > 0 then final_status_message else [])\<rparr>)))))"

subsection \<open>A venue with three open positions\<close>

definition pos_a :: position where
  "pos_a = \<lparr>ticket = 101, pos_symbol = ''XAUUSD'', pos_volume = 1, pos_type = 0, pos_magic = 234000\<rparr>"

definition pos_b :: position where
  "pos_b = \<lparr>ticket = 102, pos_symbol = ''BTCUSD'', pos_volume = 1, pos_type = 1, pos_magic = 234000\<rparr>"

definition pos_c :: position where
  "pos_c = \<lparr>ticket = 103, pos_symbol = ''XAUUSD'', pos_volume = 2, pos_type = 0, pos_magic = 7\<rparr>"

definition close_venue :: mt5_venue where
  "close_venue = \<lparr>venue_account_info = None, venue_symbol_info = (\<lambda>_. None),
     symbol_info_tick = (\<lambda>s. if s = ''XAUUSD'' then Some \<lparr>bid = 2000, ask = 2001, tick_spread = None\<rparr> else None),
     positions_get = Some [pos_a, pos_c, pos_b], last_error = (1, ''ok''),
     order_check = None, order_send = None,
     order_send_close = (\<lambda>p. Some \<lparr>retcode = 10009, deal = 7, order = 8, result_comment = ''done''\<rparr>)\<rparr>"

definition mgr_on :: mt5_manager where
  "mgr_on = \<lparr>connected = True, last_raw_error_message = [], data_manager = None,
     login = None, password = None, server = None, path = None, magic_number = 234000,
     retries = 3, retry_delay = 2, timeout_ms = 20000\<rparr>"

subsection \<open>connect\<close>

text \<open>
  \<^verbatim>\<open>int(text)\<close> on ASCII text: blanks around the number are dropped, a sign may
  precede the digits, and single underscores may separate digits. \<open>None\<close> stands for
  the \<^verbatim>\<open>ValueError\<close> that Python raises on any other text.
\<close>

definition is_py_space :: "char \<Rightarrow> bool" where
  "is_py_space c = ((of_char c :: nat) \<in> {9, 10, 11, 12, 13, 28, 29, 30, 31, 32})"

definition strip :: "string \<Rightarrow> string" where
  "strip s = rev (dropWhile is_py_space (rev (dropWhile is_py_space s)))"







definition truthy :: "string option \<Rightarrow> bool" where
  "truthy x = (case x of None \<Rightarrow> False | Some s \<Rightarrow> s \<noteq> [])"
















subsection \<open>Managers and a venue that refuses every attempt\<close>




section \<open>Position sizing (trading\_app\_main.py, calculate\_lot\_size\_advanced)\<close>

text \<open>
  The sources hold prices, volumes and balances in binary floating point (Python
  \<^verbatim>\<open>float\<close>, IEEE 754 binary64). Such a value is written here as the rational number
  it denotes. \<^verbatim>\<open>round(x)\<close> rounds the value to the nearest integer, ties to the even
  one.
\<close>

definition py_round :: "rat \<Rightarrow> int" where
  "py_round x =
     (let f = \<lfloor>x\<rfloor>; d = x - of_int f
      in if d < 1 / 2 then f
         else if 1 / 2 < d then f + 1
         else if even f then f else f + 1)"

text \<open>
  An arithmetic operation on floats yields the binary64 value nearest to the exact
  result, ties to the even significand. \<open>float_of x\<close> is that value for the exact result
  \<open>x\<close>: with \<open>e\<close> the binary exponent of \<open>x\<close> (\<open>2 ^ e \<le> \<bar>x\<bar> < 2 ^ (e + 1)\<close>), \<open>x\<close> is
  rounded to a multiple of \<open>2 ^ (e - 52)\<close>, so that 53 significant bits remain, and to a
  multiple of \<open>2 ^ - 1074\<close> when \<open>e < - 1022\<close> (the subnormal range, where a result
  below half of the least positive float becomes 0). The exponent has no upper bound
  here: the model covers the runs whose intermediate results stay below \<open>2 ^ 1024\<close> in
  magnitude, where the sources do not produce an infinity.
\<close>

function bit_length :: "int \<Rightarrow> int" where
  "bit_length n = (if n \<le> 0 then 0 else 1 + bit_length (n div 2))"
  by pat_completeness auto
termination by (relation "measure nat") auto

declare bit_length.simps [simp del]

definition floor_log2 :: "rat \<Rightarrow> int" where
  "floor_log2 x = (if 1 \<le> x then bit_length \<lfloor>x\<rfloor> - 1 else - bit_length (\<lceil>1 / x\<rceil> - 1))"

definition pow2 :: "int \<Rightarrow> rat" where
  "pow2 e = (if 0 \<le> e then 2 ^ nat e else 1 / 2 ^ nat (- e))"

definition float_of :: "rat \<Rightarrow> rat" where
  "float_of x =
     (if x = 0 then 0
      else (let quantum = pow2 (max (floor_log2 \<bar>x\<bar> - 52) (- 1074))
            in of_int (py_round (x / quantum)) * quantum))"

text \<open>
  \<^verbatim>\<open>a * b\<close> and \<^verbatim>\<open>a / b\<close> on floats (the sources divide by a value they have checked to
  be non-zero), and the decimal literal \<^verbatim>\<open>0.01\<close>, which denotes the float nearest to one
  hundredth.
\<close>

definition float_mul :: "rat \<Rightarrow> rat \<Rightarrow> rat" where
  "float_mul a b = float_of (a * b)"

definition float_truediv :: "rat \<Rightarrow> rat \<Rightarrow> rat" where
  "float_truediv a b = float_of (a / b)"

definition lit_0_01 :: rat where
  "lit_0_01 = float_of (1 / 100)"

text \<open>
  \<^verbatim>\<open>round(x, n)\<close> on a float: the exact value of \<open>x\<close> is rounded at \<open>n\<close> decimal digits, ties
  to the even digit, and the float nearest to that decimal is the result.
\<close>

definition py_round_n :: "rat \<Rightarrow> int \<Rightarrow> rat" where
  "py_round_n x n =
     float_of
       (if 0 \<le> n then of_int (py_round (x * 10 ^ nat n)) / 10 ^ nat n
        else of_int (py_round (x / 10 ^ nat (- n))) * 10 ^ nat (- n))"

text \<open>
  The precision that the sources derive from the step when the symbol has no usable
  \<^verbatim>\<open>volume_digits\<close>: the step is printed with ten decimals, trailing zeros are
  stripped, and the decimals that remain are counted; when none remains the
  precision is 2. \<open>strip_zeros k r\<close> counts the decimals left of a \<open>k\<close>-digit fraction
  \<open>r\<close>.
\<close>

fun strip_zeros :: "nat \<Rightarrow> int \<Rightarrow> nat" where
  "strip_zeros 0 r = 0"
| "strip_zeros (Suc k) r = (if r mod 10 = 0 then strip_zeros k (r div 10) else Suc k)"

definition step_digits :: "rat \<Rightarrow> int" where
  "step_digits step =
     (let decimals = strip_zeros 10 (py_round (\<bar>step\<bar> * 10 ^ 10) mod 10 ^ 10)
      in if 0 < decimals then int decimals else 2)"

definition get_account_info :: "mt5_manager \<Rightarrow> mt5_venue \<Rightarrow> account_info option" where
  "get_account_info mgr v = (if \<not> is_connected mgr then None else venue_account_info v)"

definition get_symbol_info :: "mt5_manager \<Rightarrow> mt5_venue \<Rightarrow> string \<Rightarrow> symbol_info option" where
  "get_symbol_info mgr v symbol = (if \<not> is_connected mgr then None else venue_symbol_info v symbol)"

definition get_tick :: "mt5_manager \<Rightarrow> mt5_venue \<Rightarrow> string \<Rightarrow> tick option" where
  "get_tick mgr v symbol = (if \<not> is_connected mgr then None else symbol_info_tick v symbol)"

text \<open>
  \<^verbatim>\<open>s.volume_min if s and hasattr(s, 'volume_min') and s.volume_min > 0 else 0.01\<close>
\<close>

definition min_lot_fallback :: "symbol_info option \<Rightarrow> rat" where
  "min_lot_fallback s_info_min_fallback =
     (case s_info_min_fallback of
        None \<Rightarrow> lit_0_01
      | Some s \<Rightarrow> (case volume_min s of
                     None \<Rightarrow> lit_0_01
                   | Some vm \<Rightarrow> if 0 < vm then vm else lit_0_01))"

definition getattr :: "'a option \<Rightarrow> 'a \<Rightarrow> 'a" where
  "getattr attribute dflt = (case attribute of Some x \<Rightarrow> x | None \<Rightarrow> dflt)"

text \<open>The rate that converts the profit currency of the symbol into the account currency.\<close>

definition conversion_rate :: "mt5_manager \<Rightarrow> mt5_venue \<Rightarrow> string \<Rightarrow> string \<Rightarrow> rat" where
  "conversion_rate mgr v symbol_profit_currency account_currency =
     (case get_tick mgr v (symbol_profit_currency @ account_currency) of
        Some tick1 \<Rightarrow>
          if 0 < bid tick1 then bid tick1
          else (case get_tick mgr v (account_currency @ symbol_profit_currency) of
                  Some tick2 \<Rightarrow> if 0 < ask tick2 then float_truediv 1 (ask tick2) else 1
                | None \<Rightarrow> 1)
      | None \<Rightarrow>
          (case get_tick mgr v (account_currency @ symbol_profit_currency) of
             Some tick2 \<Rightarrow> if 0 < ask tick2 then float_truediv 1 (ask tick2) else 1
           | None \<Rightarrow> 1))"

text \<open>The adjusted minimum volume, step and precision of a symbol.\<close>

definition lot_volume_min :: "symbol_info \<Rightarrow> rat" where
  "lot_volume_min symbol_info =
     (if getattr (volume_min symbol_info) lit_0_01 \<le> 0 then lit_0_01
      else getattr (volume_min symbol_info) lit_0_01)"

definition lot_volume_step :: "symbol_info \<Rightarrow> rat" where
  "lot_volume_step symbol_info =
     (if getattr (volume_step symbol_info) lit_0_01 \<le> 0 then lit_0_01
      else getattr (volume_step symbol_info) lit_0_01)"

definition volume_digits_precision :: "symbol_info \<Rightarrow> int" where
  "volume_digits_precision symbol_info =
     (case volume_digits symbol_info of
        Some d \<Rightarrow> if 0 \<le> d then d else step_digits (getattr (volume_step symbol_info) lit_0_01)
      | None \<Rightarrow> step_digits (getattr (volume_step symbol_info) lit_0_01))"

text \<open>\<^verbatim>\<open>round(max(volume_min, 0.01), volume_digits_precision)\<close>, the value of every fallback exit.\<close>

definition min_lot :: "symbol_info \<Rightarrow> rat" where
  "min_lot symbol_info =
     py_round_n (max (lot_volume_min symbol_info) lit_0_01) (volume_digits_precision symbol_info)"

text \<open>The part of the function after the fallback exits: from the raw lot to the final lot.\<close>

definition adjust_lot :: "symbol_info \<Rightarrow> rat \<Rightarrow> rat" where
  "adjust_lot symbol_info calculated_lot =
     (let vol_min = lot_volume_min symbol_info;
          vol_step = lot_volume_step symbol_info;
          lot_adjusted = max calculated_lot vol_min;
          lot_adjusted = (case volume_max symbol_info of
                            Some vol_max \<Rightarrow> min lot_adjusted vol_max
                          | None \<Rightarrow> lot_adjusted);
          lot_adjusted = (if 0 < vol_step
                          then float_mul
                                 (float_of (of_int (py_round (float_truediv lot_adjusted vol_step))))
                                 vol_step
                          else lot_adjusted);
          final_lot = py_round_n lot_adjusted (volume_digits_precision symbol_info);
          final_lot = (if final_lot < vol_min then vol_min else final_lot);
          final_lot = (if final_lot = 0 \<and> 0 < vol_min then vol_min else final_lot)
      in final_lot)"

definition calculate_lot_size_advanced ::
  "mt5_manager option \<Rightarrow> mt5_venue \<Rightarrow> string \<Rightarrow> rat \<Rightarrow> rat \<Rightarrow> rat" where
  "calculate_lot_size_advanced mt5_manager v symbol risk_percent sl_pips_for_lot_calc =
     (case mt5_manager of
        None \<Rightarrow> min_lot_fallback None
      | Some mgr \<Rightarrow>
          if \<not> is_connected mgr then min_lot_fallback None
          else if risk_percent \<le> 0 then min_lot_fallback (get_symbol_info mgr v symbol)
          else
            (case get_account_info mgr v of
               None \<Rightarrow> min_lot_fallback (get_symbol_info mgr v symbol)
             | Some account_info \<Rightarrow>
                 (case get_symbol_info mgr v symbol of
                    None \<Rightarrow> lit_0_01
                  | Some symbol_info \<Rightarrow>
                      (let contract_size = getattr (trade_contract_size symbol_info) 0;
                           point_val = getattr (point symbol_info) 0;
                           symbol_profit_currency =
                             getattr (currency_profit symbol_info) (currency account_info)
                       in if sl_pips_for_lot_calc \<le> 0 then min_lot symbol_info
                          else if contract_size = 0 \<or> point_val = 0 then min_lot symbol_info
                          else if float_mul contract_size point_val = 0 then min_lot symbol_info
                          else
                            (let risk_amount_in_account_currency =
                                   float_truediv (float_mul (balance account_info) risk_percent) 100;
                                 value_one_lot_one_point_account_curr =
                                   (if symbol_profit_currency \<noteq> currency account_info
                                    then float_mul (float_mul contract_size point_val)
                                           (conversion_rate mgr v symbol_profit_currency
                                              (currency account_info))
                                    else float_mul contract_size point_val)
                             in if value_one_lot_one_point_account_curr = 0 then min_lot symbol_info
                                else if float_mul sl_pips_for_lot_calc
                                          value_one_lot_one_point_account_curr = 0
                                then min_lot symbol_info
                                else adjust_lot symbol_info
                                       (float_truediv risk_amount_in_account_currency
                                          (float_mul sl_pips_for_lot_calc
                                             value_one_lot_one_point_account_curr)))))))"

subsection \<open>Two symbols\<close>

definition account_usd :: account_info where
  "account_usd = \<lparr>balance = 1000000, currency = ''USD''\<rparr>"

definition symbol_of :: "rat \<Rightarrow> rat \<Rightarrow> rat \<Rightarrow> symbol_info" where
  "symbol_of vmin vmax vstep =
     \<lparr>volume_min = Some vmin, volume_max = Some vmax, volume_step = Some vstep,
      trade_contract_size = Some 1, point = Some 1, currency_profit = Some ''USD'',
      volume_digits = None, info_spread = Some 5\<rparr>"

text \<open>The decimal literal \<^verbatim>\<open>0.001\<close>, a minimum volume and step that brokers quote.\<close>

definition lit_0_001 :: rat where
  "lit_0_001 = float_of (1 / 1000)"

definition sizing_venue :: "symbol_info \<Rightarrow> mt5_venue" where
  "sizing_venue info =
     \<lparr>venue_account_info = Some account_usd, venue_symbol_info = (\<lambda>_. Some info),
      symbol_info_tick = (\<lambda>_. None), positions_get = None, last_error = (1, ''ok''),
      order_check = None, order_send = None, order_send_close = (\<lambda>_. None)\<rparr>"

section \<open>Order submission (mt5\_manager.py, send\_order)\<close>

text \<open>\<^verbatim>\<open>str.lower\<close> and \<^verbatim>\<open>str.replace\<close> of one character, on ASCII text.\<close>

definition lower_char :: "char \<Rightarrow> char" where
  "lower_char c =
     (case map_of (zip ''ABCDEFGHIJKLMNOPQRSTUVWXYZ'' ''abcdefghijklmnopqrstuvwxyz'') c of
        Some l \<Rightarrow> l
      | None \<Rightarrow> c)"

definition lower :: "string \<Rightarrow> string" where
  "lower s = map lower_char s"

definition replace_char :: "char \<Rightarrow> char \<Rightarrow> string \<Rightarrow> string" where
  "replace_char old new s = map (\<lambda>c. if c = old then new else c) s"

text \<open>
  What a call returns besides its flag: a text, or the result object of the venue.
\<close>

datatype outcome = Message string | Result order_result

text \<open>
  \<^verbatim>\<open>send_order\<close>. The volume, the stop-loss and take-profit prices and the comment
  only enter the request; \<open>order_check v\<close> and \<open>order_send v\<close> are the answers of the
  venue to that request. \<open>float_str\<close> is Python's text of a float, used in one
  message.
\<close>

definition send_order ::
  "mt5_manager \<Rightarrow> mt5_venue \<Rightarrow> (rat \<Rightarrow> string) \<Rightarrow> string \<Rightarrow> string \<Rightarrow> rat \<Rightarrow> rat option
     \<Rightarrow> (bool \<times> outcome) \<times> mt5_manager" where
  "send_order mgr v float_str symbol order_type volume price =
     (if \<not> is_connected mgr then
        ((False, Message ''Not connected to MT5''),
         mgr\<lparr>last_raw_error_message := ''Not connected to MT5''\<rparr>)
      else
        (case symbol_info_tick v symbol of
           None \<Rightarrow>
             ((False, Message (''Failed to get tick for '' @ symbol @ '' to determine price.'')),
              mgr\<lparr>last_raw_error_message :=
                    ''Failed to get tick for '' @ symbol @ '' to determine price.''\<rparr>)
         | Some current_tick \<Rightarrow>
             if lower order_type \<noteq> ''buy'' \<and> lower order_type \<noteq> ''sell'' then
               ((False, Message ''Invalid order type specified''),
                mgr\<lparr>last_raw_error_message := ''Invalid order type specified''\<rparr>)
             else
               (let order_price =
                      (case price of
                         Some p \<Rightarrow> p
                       | None \<Rightarrow> if lower order_type = ''buy'' then ask current_tick
                                 else bid current_tick)
                in if order_price \<le> 0 then
                     ((False,
                       Message (''Order price for '' @ symbol @ '' is invalid ('' @ float_str order_price
                                  @ ''). Tick Ask: '' @ float_str (ask current_tick)
                                  @ '', Bid: '' @ float_str (bid current_tick))),
                      mgr\<lparr>last_raw_error_message :=
                            ''Order price for '' @ symbol @ '' is invalid ('' @ float_str order_price
                              @ ''). Tick Ask: '' @ float_str (ask current_tick)
                              @ '', Bid: '' @ float_str (bid current_tick)\<rparr>)
                   else
                     (case order_check v of
                        None \<Rightarrow>
                          ((False,
                            Message (''Order check failed: ''
                                       @ get_retcode_description (fst (last_error v))
                                       @ '' ('' @ snd (last_error v) @ '')'')),
                           mgr\<lparr>last_raw_error_message :=
                                 ''order_check failed, returned None. Code: ''
                                   @ str_int (fst (last_error v)) @ '', Desc: ''
                                   @ snd (last_error v)\<rparr>)
                      | Some check_result \<Rightarrow>
                          if retcode check_result \<noteq> TRADE_RETCODE_DONE then
                            ((False,
                              Message (''Order check failed: '' @ result_comment check_result
                                         @ '' ('' @ get_retcode_description (retcode check_result)
                                         @ '')'')),
                             mgr\<lparr>last_raw_error_message :=
                                   ''Order check failed. Retcode: '' @ str_int (retcode check_result)
                                     @ '' - '' @ get_retcode_description (retcode check_result)
                                     @ ''. Comment: '' @ result_comment check_result\<rparr>)
                          else
                            (case order_send v of
                               None \<Rightarrow>
                                 ((False,
                                   Message (''Order send failed: ''
                                              @ get_retcode_description (fst (last_error v))
                                              @ '' ('' @ snd (last_error v) @ '')'')),
                                  mgr\<lparr>last_raw_error_message :=
                                        ''order_send failed, returned None. Code: ''
                                          @ str_int (fst (last_error v)) @ '', Desc: ''
                                          @ snd (last_error v)\<rparr>)
                             | Some result \<Rightarrow>
                                 if retcode result = TRADE_RETCODE_DONE
                                    \<or> retcode result = TRADE_RETCODE_PLACED then
                                   ((True, Result result), mgr\<lparr>last_raw_error_message := []\<rparr>)
                                 else
                                   ((False,
                                     Message (''Order send failed: '' @ result_comment result
                                                @ '' (Code: '' @ str_int (retcode result) @ '' - ''
                                                @ get_retcode_description (retcode result) @ '')'')),
                                    mgr\<lparr>last_raw_error_message :=
                                          ''Order send failed: '' @ result_comment result
                                            @ '' (Code: '' @ str_int (retcode result) @ '' - ''
                                            @ get_retcode_description (retcode result)
                                            @ '')''\<rparr>))))))"

text \<open>
  The request has passed every check that precedes \<^verbatim>\<open>mt5.order_send\<close>: the manager
  is connected, the venue has a tick, the order type is buy or sell, the price is
  positive and the dry run answered "done".
\<close>

definition preflight_ok ::
  "mt5_manager \<Rightarrow> mt5_venue \<Rightarrow> string \<Rightarrow> string \<Rightarrow> rat option \<Rightarrow> bool" where
  "preflight_ok mgr v symbol order_type price =
     (is_connected mgr
      \<and> (case symbol_info_tick v symbol of
            None \<Rightarrow> False
          | Some current_tick \<Rightarrow>
              (lower order_type = ''buy'' \<or> lower order_type = ''sell'')
              \<and> 0 < (case price of
                        Some p \<Rightarrow> p
                      | None \<Rightarrow> if lower order_type = ''buy'' then ask current_tick
                                else bid current_tick))
      \<and> (case order_check v of
            None \<Rightarrow> False
          | Some check_result \<Rightarrow> retcode check_result = TRADE_RETCODE_DONE))"

definition get_current_spread :: "mt5_manager \<Rightarrow> mt5_venue \<Rightarrow> string \<Rightarrow> int option" where
  "get_current_spread mgr v symbol =
     (if \<not> is_connected mgr then None
      else
        (let from_symbol_info =
               (case get_symbol_info mgr v symbol of
                  None \<Rightarrow> None
                | Some symbol_info \<Rightarrow>
                    (case info_spread symbol_info of
                       None \<Rightarrow> None
                     | Some sp \<Rightarrow> if 0 \<le> sp then Some sp else None))
         in case get_tick mgr v symbol of
              None \<Rightarrow> from_symbol_info
            | Some tick \<Rightarrow>
                (case tick_spread tick of
                   None \<Rightarrow> from_symbol_info
                 | Some sp \<Rightarrow> if 0 \<le> sp then Some sp else from_symbol_info)))"

section \<open>Execution of a signal (trading\_app\_main.py)\<close>

text \<open>
  A signal: a pandas series, or a row of the ledger \<^verbatim>\<open>df_signals\<close>. Times are UTC
  instants in microseconds. \<open>None\<close> is a missing or unparsable value (\<^verbatim>\<open>None\<close>,
  \<^verbatim>\<open>NaT\<close>, or the \<^verbatim>\<open>NaN\<close> that \<^verbatim>\<open>pd.to_numeric(..., errors='coerce')\<close> yields);
  \<open>sig_signal\<close> is the text \<^verbatim>\<open>str(signal_data.get("signal", ""))\<close>, and the spread is
  in whole points.
\<close>

record signal =
  sig_time :: "int option"
  sig_symbol :: "string option"
  sig_signal :: string
  sig_confidence :: "rat option"
  sig_spread_pips :: "int option"
  sig_stop_loss_pips :: "rat option"
  sig_take_profit_pips :: "rat option"
  sig_close :: "rat option"
  sig_executed :: bool
  sig_notes :: string

text \<open>
  The state of the application that an execution attempt reads or writes;
  \<open>saved_signals\<close> is the ledger as \<^verbatim>\<open>data_manager.save_signals\<close> last wrote it.
\<close>

record app =
  app_data_manager :: settings
  app_mt5_manager :: "mt5_manager option"
  trading_allowed_by_news :: bool
  last_trade_time :: "string \<rightharpoonup> int"
  df_signals :: "signal list"
  saved_signals :: "signal list"

text \<open>
  What an attempt takes from outside the application: the venue, the clock (read by
  the time gate, by the interval gate and when a success is recorded), the selection
  and the confidence slider of the signals table, the user's answer to the
  confirmation dialog, and Python's text of a float (\<open>float_str\<close>, and \<open>float_2f\<close> for
  the format \<^verbatim>\<open>.2f\<close>, which also prints a \<^verbatim>\<open>NaN\<close>).
\<close>

record attempt_env =
  venue :: mt5_venue
  now_utc_time :: time_of_day
  now_utc_interval :: int
  now_utc_executed :: int
  selected_rows :: "nat list"
  confidence_slider :: rat
  confirm_yes :: bool
  float_str :: "rat \<Rightarrow> string"
  float_2f :: "rat option \<Rightarrow> string"

text \<open>The steps of an attempt that the ordering claims are about, logged when they run.\<close>

datatype exec_event =
  TimeGate | NewsGate | ConnectionGate | ValidityGate | IntervalGate | SpreadGate | Sizing | Submit

definition MAX_SIGNALS_TO_SHOW_IN_TABLE :: nat where
  "MAX_SIGNALS_TO_SHOW_IN_TABLE = 50"

text \<open>
  \<^verbatim>\<open>_update_signal_status_in_df\<close>: every row of the ledger with the given time and
  symbol gets the flag and the note; a time that is missing leaves the ledger as it
  is, and so does a time or symbol that no row has.
\<close>

definition update_signal_status_in_df ::
  "signal list \<Rightarrow> int option \<Rightarrow> string option \<Rightarrow> bool \<Rightarrow> string \<Rightarrow> signal list" where
  "update_signal_status_in_df df signal_time_identifier signal_symbol executed_status note_text =
     (case signal_time_identifier of
        None \<Rightarrow> df
      | Some signal_time_dt \<Rightarrow>
          map (\<lambda>row. if sig_time row = Some signal_time_dt \<and> signal_symbol \<noteq> None
                        \<and> sig_symbol row = signal_symbol
                     then row\<lparr>sig_executed := executed_status, sig_notes := note_text\<rparr>
                     else row) df)"

text \<open>The update as the first three gates call it: only when the caller passed a signal.\<close>

definition update_if_given :: "app \<Rightarrow> signal option \<Rightarrow> string \<Rightarrow> app" where
  "update_if_given a signal_data current_note =
     (case signal_data of
        None \<Rightarrow> a
      | Some sd \<Rightarrow>
          a\<lparr>df_signals :=
               update_signal_status_in_df (df_signals a) (sig_time sd) (sig_symbol sd) False current_note\<rparr>)"

text \<open>
  The update as every later step calls it:
  \<^verbatim>\<open>if signal_time_for_update and signal_symbol_for_update: ...\<close>
\<close>

definition update_if_keyed :: "app \<Rightarrow> signal \<Rightarrow> bool \<Rightarrow> string \<Rightarrow> app" where
  "update_if_keyed a sd executed_status current_note =
     (if sig_time sd \<noteq> None \<and> truthy (sig_symbol sd) then
        a\<lparr>df_signals :=
             update_signal_status_in_df (df_signals a) (sig_time sd) (sig_symbol sd)
               executed_status current_note\<rparr>
      else a)"

definition source_log_prefix :: "bool \<Rightarrow> string" where
  "source_log_prefix is_auto_trade = (if is_auto_trade then ''AutoTrade'' else ''ManualTrade'')"

definition symbol_text :: "string option \<Rightarrow> string" where
  "symbol_text symbol = (case symbol of Some s \<Rightarrow> s | None \<Rightarrow> ''None'')"

subsection \<open>The rows of the signals table, for a manual attempt\<close>

text \<open>
  The displayed table: the rows whose confidence reaches the slider, sorted by time
  and then confidence, both descending and stable, rows without a time last; the
  first \<open>MAX_SIGNALS_TO_SHOW_IN_TABLE\<close> of them.
\<close>

definition displayed_signals :: "app \<Rightarrow> attempt_env \<Rightarrow> signal list" where
  "displayed_signals a env =
     (let conf = (\<lambda>row. getattr (sig_confidence row) 0);
          temp_df_for_selection = filter (\<lambda>row. confidence_slider env \<le> conf row) (df_signals a);
          by_confidence = sort_key (\<lambda>row. - conf row) temp_df_for_selection;
          timed = filter (\<lambda>row. sig_time row \<noteq> None) by_confidence;
          untimed = filter (\<lambda>row. sig_time row = None) by_confidence
      in take MAX_SIGNALS_TO_SHOW_IN_TABLE
           (sort_key (\<lambda>row. - getattr (sig_time row) 0) timed @ untimed))"

text \<open>
  Step 4: the signal of the attempt. A manual attempt passes no signal and takes the
  first selected row of the table; \<open>Inl\<close> is the text of an early return.
\<close>

definition resolve_signal_data :: "app \<Rightarrow> attempt_env \<Rightarrow> signal option \<Rightarrow> string + signal" where
  "resolve_signal_data a env signal_data =
     (case signal_data of
        Some sd \<Rightarrow> Inr sd
      | None \<Rightarrow>
          (case selected_rows env of
             [] \<Rightarrow> Inl ''No signal selected from table''
           | selected_table_row_index # _ \<Rightarrow>
               if length (displayed_signals a env) \<le> selected_table_row_index then
                 Inl ''Selected row index out of bounds for displayed signals''
               else Inr (displayed_signals a env ! selected_table_row_index)))"

subsection \<open>The gates\<close>

definition final_order_type_str :: "signal \<Rightarrow> string option \<Rightarrow> string" where
  "final_order_type_str sd order_type_override =
     (if truthy order_type_override then lower (symbol_text order_type_override)
      else lower (sig_signal sd))"

definition symbol_missing :: "string option \<Rightarrow> bool" where
  "symbol_missing symbol =
     (\<not> truthy symbol \<or> strip (symbol_text symbol) = [] \<or> lower (symbol_text symbol) = ''n/a'')"

definition min_trade_interval_minutes :: "settings \<Rightarrow> string \<Rightarrow> int" where
  "min_trade_interval_minutes dm symbol =
     get_setting_int dm
       (''min_trade_interval_minutes_'' @ replace_char (CHR ''/'') (CHR ''_'') (lower symbol))
       (get_setting_int dm ''default_min_trade_interval_minutes'' 15)"

definition minutes :: "int \<Rightarrow> int" where
  "minutes m = m * 60 * 1000000"

text \<open>
  Step 6, the re-entry interval: \<open>Some wait_sec\<close> when the gate blocks, with the
  remaining whole seconds.
\<close>

definition min_interval_wait :: "app \<Rightarrow> attempt_env \<Rightarrow> string \<Rightarrow> int option" where
  "min_interval_wait a env symbol =
     (case last_trade_time a symbol of
        None \<Rightarrow> None
      | Some last_time \<Rightarrow>
          if 0 < min_trade_interval_minutes (app_data_manager a) symbol then
            (let time_since_last = now_utc_interval env - last_time
             in if time_since_last < minutes (min_trade_interval_minutes (app_data_manager a) symbol)
                then Some ((minutes (min_trade_interval_minutes (app_data_manager a) symbol)
                              - time_since_last) div 1000000)
                else None)
          else None)"

definition min_interval_note :: "bool \<Rightarrow> settings \<Rightarrow> string \<Rightarrow> int \<Rightarrow> string" where
  "min_interval_note is_auto_trade dm symbol wait_sec =
     source_log_prefix is_auto_trade @ '': Min interval for '' @ symbol @ '' (''
       @ str_int (min_trade_interval_minutes dm symbol) @ ''m) not met. Wait ''
       @ str_int (wait_sec div 60) @ ''m '' @ str_int (wait_sec mod 60) @ ''s.''"

text \<open>Step 8, the spread: the live spread, or else the spread recorded in the signal.\<close>

definition current_market_spread_points :: "mt5_manager \<Rightarrow> mt5_venue \<Rightarrow> string \<Rightarrow> signal \<Rightarrow> int option" where
  "current_market_spread_points mgr v symbol sd =
     (case get_current_spread mgr v symbol of
        Some sp \<Rightarrow> Some sp
      | None \<Rightarrow> sig_spread_pips sd)"

definition max_allowed_spread :: "settings \<Rightarrow> string \<Rightarrow> int" where
  "max_allowed_spread dm symbol =
     (if symbol = get_setting_str dm ''gold_symbol'' ''XAUUSD''
      then get_setting_int dm ''max_allowed_spread_points_gold'' 30
      else if symbol = get_setting_str dm ''bitcoin_symbol'' ''BTCUSD''
      then get_setting_int dm ''max_allowed_spread_points_bitcoin'' 1000
      else get_setting_int dm ''max_allowed_spread_points_other'' 0)"

definition spread_note :: "bool \<Rightarrow> string \<Rightarrow> int \<Rightarrow> int \<Rightarrow> string" where
  "spread_note is_auto_trade symbol spread_points max_spread =
     source_log_prefix is_auto_trade @ '': Spread for '' @ symbol @ '' ('' @ str_int spread_points
       @ '' pts) > Max allowed ('' @ str_int max_spread @ '' pts).''"

subsection \<open>Sizing, submission and the result\<close>

text \<open>Step 9: the stop-loss distance for the sizing, and the lot.\<close>

definition effective_sl_pips_for_lot :: "settings \<Rightarrow> string \<Rightarrow> signal \<Rightarrow> rat" where
  "effective_sl_pips_for_lot dm symbol sd =
     (let default_sl_pips_global = get_setting_num dm ''default_sl_pips'' 50;
          from_settings =
            (if symbol = get_setting_str dm ''gold_symbol'' ''XAUUSD''
             then get_setting_num dm ''gold_sl_pips'' default_sl_pips_global
             else if symbol = get_setting_str dm ''bitcoin_symbol'' ''BTCUSD''
             then get_setting_num dm ''btc_sl_pips'' default_sl_pips_global
             else default_sl_pips_global)
      in case sig_stop_loss_pips sd of
           Some sl \<Rightarrow> if 0 < sl then sl else from_settings
         | None \<Rightarrow> from_settings)"

definition lot_for_order :: "mt5_manager \<Rightarrow> mt5_venue \<Rightarrow> settings \<Rightarrow> string \<Rightarrow> signal \<Rightarrow> symbol_info \<Rightarrow> rat" where
  "lot_for_order mgr v dm symbol sd symbol_info =
     (let risk_percent = get_setting_num dm ''risk_percent_per_trade'' 1;
          lot = calculate_lot_size_advanced (Some mgr) v symbol risk_percent
                  (effective_sl_pips_for_lot dm symbol sd);
          min_vol_trade = (if getattr (volume_min symbol_info) lit_0_01 \<le> 0 then lit_0_01
                           else getattr (volume_min symbol_info) lit_0_01);
          lot = (if lot \<le> 0 \<or> lot < min_vol_trade then min_vol_trade else lot)
      in py_round_n lot (getattr (volume_digits symbol_info) 2))"

text \<open>
  Step 13: the result of \<^verbatim>\<open>send_order\<close>. A success with a positive order number
  records the time of the trade for the symbol, marks the signal as executed and
  saves the ledger; everything else marks the signal as failed.
\<close>

definition process_result ::
  "app \<Rightarrow> attempt_env \<Rightarrow> bool \<Rightarrow> signal \<Rightarrow> string \<Rightarrow> bool \<times> outcome \<Rightarrow> (bool \<times> outcome) \<times> app" where
  "process_result a env is_auto_trade sd symbol sent =
     (case sent of
        (True, Result result_obj) \<Rightarrow>
          if 0 < order result_obj then
            (let current_note = source_log_prefix is_auto_trade @ '': Executed. Order ID: ''
                                  @ str_int (order result_obj);
                 a1 = a\<lparr>last_trade_time := (last_trade_time a)(symbol \<mapsto> now_utc_executed env)\<rparr>;
                 a2 = update_if_keyed a1 sd True current_note
             in ((True, Result result_obj), a2\<lparr>saved_signals := df_signals a2\<rparr>))
          else
            (let error_message =
                   (if result_comment result_obj \<noteq> []
                    then ''Unknown order send error (Broker: '' @ result_comment result_obj @ '')''
                    else ''Unknown order send error'')
             in ((False, Message error_message),
                 update_if_keyed a sd False
                   (source_log_prefix is_auto_trade @ '': Failed - '' @ error_message)))
      | (_, Result result_obj) \<Rightarrow>
          (let error_message =
                 (if result_comment result_obj \<noteq> []
                  then ''Unknown order send error (Broker: '' @ result_comment result_obj @ '')''
                  else ''Unknown order send error'')
           in ((False, Message error_message),
               update_if_keyed a sd False
                 (source_log_prefix is_auto_trade @ '': Failed - '' @ error_message)))
      | (_, Message error_message) \<Rightarrow>
          ((False, Message error_message),
           update_if_keyed a sd False
             (source_log_prefix is_auto_trade @ '': Failed - '' @ error_message)))"

text \<open>
  Steps 10 to 13, after the sizing. Between the tick and the confirmation the sources
  compute the stop-loss and take-profit prices and the comment of the request, which
  only enter the request.
\<close>

definition submit_order ::
  "app \<Rightarrow> attempt_env \<Rightarrow> mt5_manager \<Rightarrow> bool \<Rightarrow> signal \<Rightarrow> string \<Rightarrow> string \<Rightarrow> rat \<Rightarrow> exec_event list
     \<Rightarrow> (bool \<times> outcome) \<times> app \<times> exec_event list" where
  "submit_order a env mgr is_auto_trade sd symbol order_type lot tr =
     (case get_tick mgr (venue env) symbol of
        None \<Rightarrow>
          (let current_note = source_log_prefix is_auto_trade @ '': No market tick for '' @ symbol
                                @ '' available before sending order.''
           in ((False, Message current_note), update_if_keyed a sd False current_note, tr))
      | Some tick_for_order \<Rightarrow>
          (let market_price_for_sl_tp_calc =
                 (if order_type = ''buy'' then ask tick_for_order else bid tick_for_order);
               price_for_sl_tp_calc_final =
                 (case sig_close sd of
                    Some p \<Rightarrow> if p \<le> 0 then market_price_for_sl_tp_calc else p
                  | None \<Rightarrow> market_price_for_sl_tp_calc)
           in if price_for_sl_tp_calc_final \<le> 0 then
                (let current_note = source_log_prefix is_auto_trade @ '': Market price for '' @ symbol
                                      @ '' is invalid ('' @ float_str env price_for_sl_tp_calc_final
                                      @ ''). Cannot set SL/TP.''
                 in ((False, Message current_note), update_if_keyed a sd False current_note, tr))
              else if \<not> is_auto_trade \<and> \<not> confirm_yes env then
                (let current_note = source_log_prefix is_auto_trade
                                      @ '': User cancelled manual trade for '' @ symbol @ ''.''
                 in ((False, Message current_note), update_if_keyed a sd False current_note, tr))
              else
                (case send_order mgr (venue env) (float_str env) symbol order_type lot None of
                   (sent, mgr') \<Rightarrow>
                     (case process_result (a\<lparr>app_mt5_manager := Some mgr'\<rparr>) env is_auto_trade
                             sd symbol sent of
                        (res, a') \<Rightarrow> (res, a', tr @ [Submit])))))"

subsection \<open>execute\_trade\_from\_signal\_data\<close>

text \<open>Steps 7 to 9: the symbol, the spread gate and the sizing.\<close>

definition execute_after_interval ::
  "app \<Rightarrow> attempt_env \<Rightarrow> mt5_manager \<Rightarrow> bool \<Rightarrow> signal \<Rightarrow> string \<Rightarrow> string \<Rightarrow> exec_event list
     \<Rightarrow> (bool \<times> outcome) \<times> app \<times> exec_event list" where
  "execute_after_interval a env mgr is_auto_trade sd symbol order_type tr =
     (case get_symbol_info mgr (venue env) symbol of
        None \<Rightarrow>
          (let current_note = source_log_prefix is_auto_trade @ '': No symbol info for '' @ symbol
                                @ '' from MT5''
           in ((False, Message current_note), update_if_keyed a sd False current_note, tr))
      | Some symbol_info \<Rightarrow>
          (case current_market_spread_points mgr (venue env) symbol sd of
             None \<Rightarrow>
               (let current_note = source_log_prefix is_auto_trade
                                     @ '': Cannot determine current market spread for '' @ symbol
                                     @ '' (MT5 or signal). Blocking trade.''
                in ((False, Message current_note), update_if_keyed a sd False current_note,
                    tr @ [SpreadGate]))
           | Some spread_points \<Rightarrow>
               if 0 < max_allowed_spread (app_data_manager a) symbol
                  \<and> max_allowed_spread (app_data_manager a) symbol < spread_points then
                 (let current_note = spread_note is_auto_trade symbol spread_points
                                       (max_allowed_spread (app_data_manager a) symbol)
                  in ((False, Message current_note), update_if_keyed a sd False current_note,
                      tr @ [SpreadGate]))
               else
                 submit_order a env mgr is_auto_trade sd symbol order_type
                   (lot_for_order mgr (venue env) (app_data_manager a) symbol sd symbol_info)
                   (tr @ [SpreadGate, Sizing])))"

text \<open>Steps 5 and 6: the validity of the signal and the re-entry interval.\<close>

definition execute_resolved_signal ::
  "app \<Rightarrow> attempt_env \<Rightarrow> mt5_manager \<Rightarrow> bool \<Rightarrow> signal \<Rightarrow> string option \<Rightarrow> exec_event list
     \<Rightarrow> (bool \<times> outcome) \<times> app \<times> exec_event list" where
  "execute_resolved_signal a env mgr is_auto_trade sd order_type_override tr =
     (let symbol = sig_symbol sd;
          order_type = final_order_type_str sd order_type_override
      in if order_type \<noteq> ''buy'' \<and> order_type \<noteq> ''sell'' then
           (let current_note = source_log_prefix is_auto_trade @ '': Invalid signal type ''
                                 @ [CHR 0x27] @ order_type @ [CHR 0x27] @ '' for ''
                                 @ symbol_text symbol
            in ((False, Message current_note), update_if_keyed a sd False current_note,
                tr @ [ValidityGate]))
         else if symbol_missing symbol then
           (let current_note = source_log_prefix is_auto_trade @ '': Missing symbol in signal data''
            in ((False, Message current_note), update_if_keyed a sd False current_note,
                tr @ [ValidityGate]))
         else
           (case min_interval_wait a env (symbol_text symbol) of
              Some wait_sec \<Rightarrow>
                (let current_note = min_interval_note is_auto_trade (app_data_manager a)
                                      (symbol_text symbol) wait_sec
                 in ((False, Message current_note), update_if_keyed a sd False current_note,
                     tr @ [ValidityGate, IntervalGate]))
            | None \<Rightarrow>
                execute_after_interval a env mgr is_auto_trade sd (symbol_text symbol) order_type
                  (tr @ [ValidityGate, IntervalGate])))"

text \<open>
  The whole attempt. The result is what the function returns, the application state
  after it, and the steps that ran.
\<close>

definition execute_trade_from_signal_data ::
  "app \<Rightarrow> attempt_env \<Rightarrow> signal option \<Rightarrow> string option \<Rightarrow> bool
     \<Rightarrow> (bool \<times> outcome) \<times> app \<times> exec_event list" where
  "execute_trade_from_signal_data a env signal_data order_type_override is_auto_trade =
     (if \<not> is_trading_time_allowed (app_data_manager a) (now_utc_time env) then
        (let current_note = source_log_prefix is_auto_trade @ '': Blocked by time filter''
         in ((False, Message current_note), update_if_given a signal_data current_note, [TimeGate]))
      else if \<not> trading_allowed_by_news a
              \<and> get_setting_bool (app_data_manager a) ''halt_trades_on_news'' True then
        (let current_note = source_log_prefix is_auto_trade @ '': Blocked by news event''
         in ((False, Message current_note), update_if_given a signal_data current_note,
             [TimeGate, NewsGate]))
      else
        (case app_mt5_manager a of
           None \<Rightarrow>
             (let current_note = source_log_prefix is_auto_trade @ '': MT5 not connected''
              in ((False, Message current_note), update_if_given a signal_data current_note,
                  [TimeGate, NewsGate, ConnectionGate]))
         | Some mgr \<Rightarrow>
             if \<not> is_connected mgr then
               (let current_note = source_log_prefix is_auto_trade @ '': MT5 not connected''
                in ((False, Message current_note), update_if_given a signal_data current_note,
                    [TimeGate, NewsGate, ConnectionGate]))
             else
               (case resolve_signal_data a env signal_data of
                  Inl text \<Rightarrow> ((False, Message text), a, [TimeGate, NewsGate, ConnectionGate])
                | Inr sd \<Rightarrow>
                    execute_resolved_signal a env mgr is_auto_trade sd order_type_override
                      [TimeGate, NewsGate, ConnectionGate])))"

definition gate_order :: "exec_event list" where
  "gate_order =
     [TimeGate, NewsGate, ConnectionGate, ValidityGate, IntervalGate, SpreadGate, Sizing, Submit]"

subsection \<open>auto\_execute\_model\_signal\_if\_conditions\_met and the lock\<close>

definition lock_active_note :: string where
  "lock_active_note =
     ''AutoTrade: Lock active (another auto-trade in progress). Skipping current signal to prevent overlap.''"

definition set_note :: "app \<Rightarrow> signal \<Rightarrow> string \<Rightarrow> app" where
  "set_note a sd note_to_set =
     a\<lparr>df_signals :=
          update_signal_status_in_df (df_signals a) (sig_time sd) (sig_symbol sd) False note_to_set\<rparr>"

definition mt5_connected :: "app \<Rightarrow> bool" where
  "mt5_connected a = (case app_mt5_manager a of None \<Rightarrow> False | Some mgr \<Rightarrow> is_connected mgr)"

definition confident :: "app \<Rightarrow> signal \<Rightarrow> bool" where
  "confident a sd =
     (case sig_confidence sd of
        None \<Rightarrow> False
      | Some signal_confidence \<Rightarrow>
          of_int (get_setting_int (app_data_manager a) ''auto_trade_min_confidence'' 70)
            \<le> signal_confidence)"

text \<open>
  One call, run to its end. \<open>locked\<close> is the value of \<^verbatim>\<open>AUTO_TRADE_LOCK.locked()\<close>
  when the call tests it. When the lock is free the call takes it, runs the attempt
  and releases it.
\<close>

definition auto_execute_model_signal_if_conditions_met ::
  "app \<Rightarrow> attempt_env \<Rightarrow> bool \<Rightarrow> signal \<Rightarrow> app \<times> exec_event list" where
  "auto_execute_model_signal_if_conditions_met a env locked model_signal_series =
     (if \<not> get_setting_bool (app_data_manager a) ''auto_trade_enabled'' False then
        (set_note a model_signal_series ''AutoTrade: Disabled in settings.'', [])
      else if \<not> mt5_connected a then
        (set_note a model_signal_series
           (''AutoTrade: MT5 not connected for '' @ symbol_text (sig_symbol model_signal_series)
              @ '' at signal time.''), [])
      else if confident a model_signal_series then
        (if locked then (set_note a model_signal_series lock_active_note, [])
         else
           (case execute_trade_from_signal_data a env (Some model_signal_series) None True of
              (res, a', tr) \<Rightarrow> (a', tr)))
      else
        (set_note a model_signal_series
           (''AutoTrade: Confidence '' @ float_2f env (sig_confidence model_signal_series)
              @ ''% for '' @ symbol_text (sig_symbol model_signal_series) @ '' < threshold ''
              @ str_int (get_setting_int (app_data_manager a) ''auto_trade_min_confidence'' 70)
              @ ''%. Not executed.''), []))"

text \<open>
  Calls that run at the same time. Each call is at one of these points: an automatic
  call before its test of \<^verbatim>\<open>AUTO_TRADE_LOCK.locked()\<close>, after a test that found the
  lock taken (it has returned), after a test that found it free (it is about to enter
  \<^verbatim>\<open>with AUTO_TRADE_LOCK\<close>), inside the \<^verbatim>\<open>with\<close> block (the attempt is in flight), or
  past it; a manual call before, inside or past its attempt.
\<close>

datatype call_point =
  Arrived | Rejected | Checked | InFlight | Finished
  | ManualArrived | ManualInFlight | ManualFinished

record calls =
  AUTO_TRADE_LOCK :: bool
  point_of :: "nat \<Rightarrow> call_point"

text \<open>
  One step of one call. Entering the \<^verbatim>\<open>with\<close> block takes the lock and is possible
  only while the lock is free; leaving it frees the lock. A manual call never reads
  or writes the lock.
\<close>

inductive step :: "calls \<Rightarrow> calls \<Rightarrow> bool" where
  skip: "point_of s t = Arrived \<Longrightarrow> AUTO_TRADE_LOCK s \<Longrightarrow> step s (s\<lparr>point_of := (point_of s)(t := Rejected)\<rparr>)"
| pass: "point_of s t = Arrived \<Longrightarrow> \<not> AUTO_TRADE_LOCK s \<Longrightarrow> step s (s\<lparr>point_of := (point_of s)(t := Checked)\<rparr>)"
| enter: "point_of s t = Checked \<Longrightarrow> \<not> AUTO_TRADE_LOCK s \<Longrightarrow>
          step s (s\<lparr>AUTO_TRADE_LOCK := True, point_of := (point_of s)(t := InFlight)\<rparr>)"
| leave: "point_of s t = InFlight \<Longrightarrow>
          step s (s\<lparr>AUTO_TRADE_LOCK := False, point_of := (point_of s)(t := Finished)\<rparr>)"
| manual_enter: "point_of s t = ManualArrived \<Longrightarrow> step s (s\<lparr>point_of := (point_of s)(t := ManualInFlight)\<rparr>)"
| manual_leave: "point_of s t = ManualInFlight \<Longrightarrow> step s (s\<lparr>point_of := (point_of s)(t := ManualFinished)\<rparr>)"

definition initial :: "calls \<Rightarrow> bool" where
  "initial s = (\<not> AUTO_TRADE_LOCK s \<and> (\<forall>t. point_of s t = Arrived \<or> point_of s t = ManualArrived))"

inductive reachable :: "calls \<Rightarrow> bool" where
  reach_start: "initial s \<Longrightarrow> reachable s"
| reach_step: "reachable s \<Longrightarrow> step s s' \<Longrightarrow> reachable s'"

subsection \<open>The guard pipeline as the specification words it\<close>

text \<open>
  The specification describes the admission checks as a chain of gates, each with a
  verdict of its own (\<open>None\<close> passes, \<open>Some reason\<close> blocks), evaluated in a fixed order
  until the first one blocks. The verdicts below state each gate by itself;
  \<open>first_failing\<close> walks the chain and returns the gates it evaluated together with
  the reason of the gate that blocked.
\<close>

definition time_gate_verdict :: "app \<Rightarrow> attempt_env \<Rightarrow> bool \<Rightarrow> string option" where
  "time_gate_verdict a env is_auto_trade =
     (if is_trading_time_allowed (app_data_manager a) (now_utc_time env) then None
      else Some (source_log_prefix is_auto_trade @ '': Blocked by time filter''))"

definition news_gate_verdict :: "app \<Rightarrow> bool \<Rightarrow> string option" where
  "news_gate_verdict a is_auto_trade =
     (if \<not> trading_allowed_by_news a
         \<and> get_setting_bool (app_data_manager a) ''halt_trades_on_news'' True
      then Some (source_log_prefix is_auto_trade @ '': Blocked by news event'')
      else None)"

definition connection_gate_verdict :: "app \<Rightarrow> bool \<Rightarrow> string option" where
  "connection_gate_verdict a is_auto_trade =
     (if mt5_connected a then None
      else Some (source_log_prefix is_auto_trade @ '': MT5 not connected''))"

definition validity_gate_verdict :: "signal \<Rightarrow> string option \<Rightarrow> bool \<Rightarrow> string option" where
  "validity_gate_verdict sd order_type_override is_auto_trade =
     (if final_order_type_str sd order_type_override \<noteq> ''buy''
         \<and> final_order_type_str sd order_type_override \<noteq> ''sell''
      then Some (source_log_prefix is_auto_trade @ '': Invalid signal type '' @ [CHR 0x27]
                   @ final_order_type_str sd order_type_override @ [CHR 0x27] @ '' for ''
                   @ symbol_text (sig_symbol sd))
      else if symbol_missing (sig_symbol sd)
      then Some (source_log_prefix is_auto_trade @ '': Missing symbol in signal data'')
      else None)"

definition interval_gate_verdict :: "app \<Rightarrow> attempt_env \<Rightarrow> signal \<Rightarrow> bool \<Rightarrow> string option" where
  "interval_gate_verdict a env sd is_auto_trade =
     map_option
       (min_interval_note is_auto_trade (app_data_manager a) (symbol_text (sig_symbol sd)))
       (min_interval_wait a env (symbol_text (sig_symbol sd)))"

definition spread_gate_verdict :: "app \<Rightarrow> attempt_env \<Rightarrow> signal \<Rightarrow> bool \<Rightarrow> string option" where
  "spread_gate_verdict a env sd is_auto_trade =
     (case app_mt5_manager a of
        None \<Rightarrow> None
      | Some mgr \<Rightarrow>
          (case current_market_spread_points mgr (venue env) (symbol_text (sig_symbol sd)) sd of
             None \<Rightarrow>
               Some (source_log_prefix is_auto_trade
                       @ '': Cannot determine current market spread for ''
                       @ symbol_text (sig_symbol sd) @ '' (MT5 or signal). Blocking trade.'')
           | Some spread_points \<Rightarrow>
               if 0 < max_allowed_spread (app_data_manager a) (symbol_text (sig_symbol sd))
                  \<and> max_allowed_spread (app_data_manager a) (symbol_text (sig_symbol sd))
                      < spread_points
               then Some (spread_note is_auto_trade (symbol_text (sig_symbol sd)) spread_points
                            (max_allowed_spread (app_data_manager a) (symbol_text (sig_symbol sd))))
               else None))"

definition guard_pipeline ::
  "app \<Rightarrow> attempt_env \<Rightarrow> signal \<Rightarrow> string option \<Rightarrow> bool \<Rightarrow> (exec_event \<times> string option) list" where
  "guard_pipeline a env sd order_type_override is_auto_trade =
     [(TimeGate, time_gate_verdict a env is_auto_trade),
      (NewsGate, news_gate_verdict a is_auto_trade),
      (ConnectionGate, connection_gate_verdict a is_auto_trade),
      (ValidityGate, validity_gate_verdict sd order_type_override is_auto_trade),
      (IntervalGate, interval_gate_verdict a env sd is_auto_trade),
      (SpreadGate, spread_gate_verdict a env sd is_auto_trade)]"

fun first_failing ::
  "(exec_event \<times> string option) list \<Rightarrow> exec_event list \<Rightarrow> (exec_event list \<times> string) option" where
  "first_failing [] seen = None"
| "first_failing ((gate, None) # rest) seen = first_failing rest (seen @ [gate])"
| "first_failing ((gate, Some reason) # rest) seen = Some (seen @ [gate], reason)"

text \<open>The venue knows the symbol of the signal (step 7 of the attempt).\<close>

definition symbol_info_known :: "app \<Rightarrow> attempt_env \<Rightarrow> signal \<Rightarrow> bool" where
  "symbol_info_known a env sd =
     (case app_mt5_manager a of
        None \<Rightarrow> False
      | Some mgr \<Rightarrow> get_symbol_info mgr (venue env) (symbol_text (sig_symbol sd)) \<noteq> None)"

text \<open>The key of a ledger row, and a signal that has one.\<close>

definition signal_key :: "signal \<Rightarrow> int option \<times> string option" where
  "signal_key row = (sig_time row, sig_symbol row)"

definition keyed :: "signal \<Rightarrow> bool" where
  "keyed sd = (sig_time sd \<noteq> None \<and> truthy (sig_symbol sd))"

subsection \<open>A signal, a venue and an application\<close>

definition example_signal :: signal where
  "example_signal =
     \<lparr>sig_time = Some 1700000000000000, sig_symbol = Some ''XAUUSD'', sig_signal = ''BUY'',
      sig_confidence = Some 90, sig_spread_pips = Some 12, sig_stop_loss_pips = Some 50,
      sig_take_profit_pips = Some 100, sig_close = Some 2000, sig_executed = False,
      sig_notes = []\<rparr>"

definition trading_venue :: "order_result option \<Rightarrow> mt5_venue" where
  "trading_venue answer =
     \<lparr>venue_account_info = Some account_usd,
      venue_symbol_info =
        (\<lambda>s. if s = ''XAUUSD'' then Some (symbol_of lit_0_01 100 lit_0_01) else None),
      symbol_info_tick =
        (\<lambda>s. if s = ''XAUUSD'' then Some \<lparr>bid = 2000, ask = 2001, tick_spread = None\<rparr> else None),
      positions_get = Some [], last_error = (1, ''Success''),
      order_check = Some \<lparr>retcode = 10009, deal = 0, order = 0, result_comment = ''Done''\<rparr>,
      order_send = answer, order_send_close = (\<lambda>_. None)\<rparr>"

definition example_app :: "settings \<Rightarrow> app" where
  "example_app dm =
     \<lparr>app_data_manager = dm, app_mt5_manager = Some mgr_on, trading_allowed_by_news = True,
      last_trade_time = Map.empty, df_signals = [example_signal], saved_signals = []\<rparr>"

definition example_env :: "mt5_venue \<Rightarrow> int \<Rightarrow> attempt_env" where
  "example_env v now =
     \<lparr>venue = v, now_utc_time = hm 20 0, now_utc_interval = now, now_utc_executed = now + 2000000,
      selected_rows = [0], confidence_slider = 0, confirm_yes = True,
      float_str = (\<lambda>_. ''0.0''), float_2f = (\<lambda>_. ''0.00'')\<rparr>"

definition accepted :: "int \<Rightarrow> order_result" where
  "accepted order_number =
     \<lparr>retcode = 10009, deal = 7001, order = order_number, result_comment = ''Request executed''\<rparr>"

definition blocked_app :: app where
  "blocked_app = example_app (time_filter_settings ''09:00'' ''17:00'')"

definition open_app :: app where
  "open_app = example_app no_settings"

definition calm_env :: attempt_env where
  "calm_env = example_env (trading_venue (Some (accepted 555))) 1700000001000000"

definition traded_app :: app where
  "traded_app = open_app\<lparr>last_trade_time := [''XAUUSD'' \<mapsto> 1700000003000000]\<rparr>"

definition later_env :: "int \<Rightarrow> attempt_env" where
  "later_env seconds =
     example_env (trading_venue (Some (accepted 556))) (1700000003000000 + seconds * 1000000)"

definition zero_order_env :: attempt_env where
  "zero_order_env = example_env (trading_venue (Some (accepted 0))) 1700000001000000"

definition rejected :: order_result where
  "rejected = \<lparr>retcode = 10019, deal = 0, order = 0, result_comment = ''No money''\<rparr>"

definition auto_app :: app where
  "auto_app = example_app (no_settings\<lparr>bool_settings := [''auto_trade_enabled'' \<mapsto> True]\<rparr>)"

definition calls_at_start :: calls where
  "calls_at_start =
     \<lparr>AUTO_TRADE_LOCK = False, point_of = (\<lambda>t. if t = 2 then ManualArrived else Arrived)\<rparr>"

definition first_in_flight :: calls where
  "first_in_flight =
     \<lparr>AUTO_TRADE_LOCK = True,
      point_of = (\<lambda>t. if t = 0 then InFlight else if t = 2 then ManualArrived else Arrived)\<rparr>"

section \<open>Properties of the trading-hours gate\<close>

lemma strptime_examples:
  "strptime_HM ''22:00'' = Some (hm 22 0)"
  "strptime_HM ''05:00'' = Some (hm 5 0)"
  "strptime_HM ''09:00'' = Some (hm 9 0)"
  "strptime_HM ''17:00'' = Some (hm 17 0)"
  "strptime_HM ''25:00'' = None"
  by (simp_all add: is_digit_def digit_val_def)

lemma time_filter_settings_get:
  "get_setting_bool (time_filter_settings s e) ''time_filter_enabled'' d = True"
  "get_setting_str (time_filter_settings s e) ''trade_start_time'' d' = s"
  "get_setting_str (time_filter_settings s e) ''trade_end_time'' d' = e"
  by (simp_all add: time_filter_settings_def no_settings_def get_setting_bool_def
        get_setting_str_def)

lemma time_gate_parsed:
  assumes "get_setting_bool dm ''time_filter_enabled'' False"
    and "strptime_HM (get_setting_str dm ''trade_start_time'' ''00:00'') = Some s"
    and "strptime_HM (get_setting_str dm ''trade_end_time'' ''23:59'') = Some e"
  shows "is_trading_time_allowed dm now =
           (if time_le s e then time_le s now \<and> time_le now e
            else time_le s now \<or> time_le now e)"
  using assms by (simp add: is_trading_time_allowed_def)

text \<open>
  C9 (as stated): the window is half-open, so a time equal to the configured end is
  outside. On the window 09:00--17:00 the gate admits 17:00:00 exactly, which the
  half-open window excludes.
\<close>

theorem C9_half_open_counterexample:
  "is_trading_time_allowed (time_filter_settings ''09:00'' ''17:00'') (hm 17 0) = True
   \<and> in_half_open_window (hm 9 0) (hm 17 0) (hm 17 0) = False"
proof -
  let ?dm = "time_filter_settings ''09:00'' ''17:00''"
  have en: "get_setting_bool ?dm ''time_filter_enabled'' False"
    by (simp add: time_filter_settings_get)
  have st: "strptime_HM (get_setting_str ?dm ''trade_start_time'' ''00:00'') = Some (hm 9 0)"
    by (simp only: time_filter_settings_get strptime_examples)
  have et: "strptime_HM (get_setting_str ?dm ''trade_end_time'' ''23:59'') = Some (hm 17 0)"
    by (simp only: time_filter_settings_get strptime_examples)
  have "is_trading_time_allowed ?dm (hm 17 0) = True"
    by (simp only: time_gate_parsed [OF en st et]) (simp add: time_le_def hm_def)
  moreover have "in_half_open_window (hm 9 0) (hm 17 0) (hm 17 0) = False"
    by (simp add: in_half_open_window_def time_lt_def time_le_def hm_def)
  ultimately show ?thesis by simp
qed

text \<open>
  C9 (amended): with the filter enabled and both configured times parsed, the gate
  passes exactly when the current UTC time of day lies in the closed window
  \<open>[start, end]\<close>; when \<open>start > end\<close> the window wraps past midnight, that is the gate
  passes when \<open>now \<ge> start\<close> or \<open>now \<le> end\<close>.
\<close>

theorem C9_closed_window:
  assumes "get_setting_bool dm ''time_filter_enabled'' False"
    and "strptime_HM (get_setting_str dm ''trade_start_time'' ''00:00'') = Some s"
    and "strptime_HM (get_setting_str dm ''trade_end_time'' ''23:59'') = Some e"
  shows "is_trading_time_allowed dm now =
           (if time_le s e then time_le s now \<and> time_le now e
            else time_le s now \<or> time_le now e)"
  using assms by (simp add: is_trading_time_allowed_def)

theorem C9_closed_window_witness:
  "is_trading_time_allowed (time_filter_settings ''22:00'' ''05:00'') (hm 23 30) = True
   \<and> is_trading_time_allowed (time_filter_settings ''22:00'' ''05:00'') (hm 12 0) = False
   \<and> is_trading_time_allowed (time_filter_settings ''22:00'' ''05:00'') (hm 5 0) = True"
proof -
  let ?dm = "time_filter_settings ''22:00'' ''05:00''"
  have en: "get_setting_bool ?dm ''time_filter_enabled'' False"
    by (simp add: time_filter_settings_get)
  have st: "strptime_HM (get_setting_str ?dm ''trade_start_time'' ''00:00'') = Some (hm 22 0)"
    by (simp only: time_filter_settings_get strptime_examples)
  have et: "strptime_HM (get_setting_str ?dm ''trade_end_time'' ''23:59'') = Some (hm 5 0)"
    by (simp only: time_filter_settings_get strptime_examples)
  note w = C9_closed_window [OF en st et]
  show ?thesis
    by (simp only: w) (simp add: time_le_def hm_def)
qed

text \<open>
  C10: when the filter is enabled and a configured start or end time does not parse
  (the library raises), the gate returns \<open>True\<close>: the time filter fails open.
\<close>

theorem C10_time_filter_fails_open:
  assumes "strptime_HM (get_setting_str dm ''trade_start_time'' ''00:00'') = None
           \<or> strptime_HM (get_setting_str dm ''trade_end_time'' ''23:59'') = None"
  shows "is_trading_time_allowed dm now = True"
  using assms by (auto simp: is_trading_time_allowed_def split: option.splits)

theorem C10_time_filter_fails_open_witness:
  "get_setting_bool (time_filter_settings ''25:00'' ''05:00'') ''time_filter_enabled'' False
   \<and> strptime_HM (get_setting_str (time_filter_settings ''25:00'' ''05:00'') ''trade_start_time'' ''00:00'') = None
   \<and> is_trading_time_allowed (time_filter_settings ''25:00'' ''05:00'') (hm 12 0) = True"
proof -
  let ?dm = "time_filter_settings ''25:00'' ''05:00''"
  have en: "get_setting_bool ?dm ''time_filter_enabled'' False"
    by (simp add: time_filter_settings_get)
  have st: "strptime_HM (get_setting_str ?dm ''trade_start_time'' ''00:00'') = None"
    by (simp only: time_filter_settings_get strptime_examples)
  from st have "is_trading_time_allowed ?dm (hm 12 0) = True"
    by (intro C10_time_filter_fails_open disjI1)
  with en st show ?thesis by simp
qed

section \<open>Properties of close\_all\_trades\<close>

lemma close_position_counts:
  "close_position v (c, f, ms) p = (c', f', ms') \<Longrightarrow>
     c' + f' = Suc (c + f) \<and> length ms' = Suc (length ms)"
  by (auto simp: close_position_def Let_def split: option.splits if_splits)

lemma foldl_close_position_counts:
  "foldl (close_position v) (c, f, ms) ps = (c', f', ms') \<Longrightarrow>
     c' + f' = c + f + length ps \<and> length ms' = length ms + length ps"
proof (induction ps arbitrary: c f ms)
  case Nil
  then show ?case by simp
next
  case (Cons p ps)
  obtain c1 f1 ms1 where step: "close_position v (c, f, ms) p = (c1, f1, ms1)"
    by (cases "close_position v (c, f, ms) p") auto
  with Cons.prems have "foldl (close_position v) (c1, f1, ms1) ps = (c', f', ms')"
    by simp
  from Cons.IH [OF this] close_position_counts [OF step] show ?case
    by simp
qed

lemma close_loop_counts:
  "close_loop v ps = (c, f, ms) \<Longrightarrow> c + f = length ps \<and> length ms = length ps"
  using foldl_close_position_counts [of v 0 0 "[]" ps c f ms]
  by (simp add: close_loop_def)

text \<open>
  C6: on a connected manager with at least one matching open position, every position
  is counted once, as closed or as failed (and gets one summary message); the call
  reports success exactly when no position failed; and the returned message starts
  with the summary of the closed and failed counts, whatever the outcome.
\<close>

theorem C6_close_all_summary:
  assumes "is_connected mgr"
    and "get_open_positions mgr v magic \<noteq> []"
    and "close_loop v (get_open_positions mgr v magic) = (closed_count, failed_count, msgs)"
  shows "closed_count + failed_count = length (get_open_positions mgr v magic)
         \<and> length msgs = length (get_open_positions mgr v magic)
         \<and> (fst (fst (close_all_trades mgr v magic)) \<longleftrightarrow> failed_count = 0)
         \<and> prefix (summary_line magic closed_count failed_count)
                  (snd (fst (close_all_trades mgr v magic)))"
  using assms close_loop_counts [OF assms(3)]
  by (simp add: close_all_trades_def Let_def)

theorem C6_close_all_summary_witness:
  "is_connected mgr_on
   \<and> get_open_positions mgr_on close_venue (Some 234000) = [pos_a, pos_b]
   \<and> close_loop close_venue [pos_a, pos_b]
       = (1, 1, [''Pos 101(XAUUSD): Closed.'', ''Pos 102(BTCUSD): Price error.''])
   \<and> fst (fst (close_all_trades mgr_on close_venue (Some 234000))) = False
   \<and> prefix ''Close All Summary (Magic: 234000): Closed 1, Failed 1.''
        (snd (fst (close_all_trades mgr_on close_venue (Some 234000))))"
proof -
  have con: "is_connected mgr_on"
    by (simp add: is_connected_def mgr_on_def)
  have ps: "get_open_positions mgr_on close_venue (Some 234000) = [pos_a, pos_b]"
    by (simp add: get_open_positions_def con close_venue_def pos_a_def pos_b_def pos_c_def)
  have loop: "close_loop close_venue [pos_a, pos_b]
       = (1, 1, [''Pos 101(XAUUSD): Closed.'', ''Pos 102(BTCUSD): Price error.''])"
    by (simp add: close_loop_def close_position_def close_venue_def pos_a_def pos_b_def
          ORDER_TYPE_BUY_def ORDER_TYPE_SELL_def TRADE_RETCODE_DONE_def pos_label_def
          str_int_def str_nat.simps digit_char_def)
  have line: "summary_line (Some 234000) 1 1
       = ''Close All Summary (Magic: 234000): Closed 1, Failed 1.''"
    by (simp add: summary_line_def magic_text_def str_int_def str_nat.simps digit_char_def)
  have ne: "get_open_positions mgr_on close_venue (Some 234000) \<noteq> []"
    by (simp add: ps)
  from loop have loop': "close_loop close_venue (get_open_positions mgr_on close_venue (Some 234000))
       = (1, 1, [''Pos 101(XAUUSD): Closed.'', ''Pos 102(BTCUSD): Price error.''])"
    by (simp only: ps)
  note w = C6_close_all_summary [OF con ne loop']
  from w con ps loop line show ?thesis by simp
qed

section \<open>Properties of connect\<close>












section \<open>Properties of the position sizing\<close>

lemma lit_0_01_pos: "0 < lit_0_01"
  by code_simp

lemma lot_volume_min_pos: "0 < lot_volume_min si"
  using lit_0_01_pos by (simp add: lot_volume_min_def)

lemma adjust_lot_lower_bound: "lot_volume_min si \<le> adjust_lot si x"
  using lot_volume_min_pos [of si] by (simp add: adjust_lot_def Let_def)

text \<open>
  The quotient of the lot by the step is a quotient of floats. For the raw lot of an
  account of 230 at a risk of 1 percent over a stop-loss value of 20, and the step
  0.01, the quotient lies below 11.5 (in exact arithmetic it would be the tie 11.5),
  and the lot is 0.11.
\<close>

lemma adjust_lot_float_quotient:
  "float_truediv (float_truediv (float_truediv (float_mul 230 1) 100) (float_mul 20 1)) lit_0_01
     < 23 / 2
   \<and> adjust_lot (symbol_of lit_0_01 100 lit_0_01)
         (float_truediv (float_truediv (float_mul 230 1) 100) (float_mul 20 1))
       = float_of (11 / 100)"
  by code_simp

text \<open>
  C2: with a positive risk percent and a positive stop-loss distance the returned volume
  should not exceed the maximum volume of the symbol. The raw lot is clamped to the
  maximum before it is rounded to the step, and after the rounding only the minimum is
  checked again: with minimum 0.5, step 0.5 and maximum 1.875 the clamped lot 1.875
  is rounded to 4 steps, and the function returns 2.0.
\<close>

theorem C2_lot_exceeds_volume_max:
  "calculate_lot_size_advanced (Some mgr_on) (sizing_venue (symbol_of (1 / 2) (15 / 8) (1 / 2)))
       ''XAUUSD'' 1 1 = 2
   \<and> volume_max (symbol_of (1 / 2) (15 / 8) (1 / 2)) = Some (15 / 8)
   \<and> (15 / 8 :: rat) < 2"
proof -
  have "calculate_lot_size_advanced (Some mgr_on) (sizing_venue (symbol_of (1 / 2) (15 / 8) (1 / 2)))
       ''XAUUSD'' 1 1 = 2"
    by code_simp
  then show ?thesis by (simp add: symbol_of_def)
qed

text \<open>
  C3 (as stated): with a stop-loss distance of zero the function should return the
  minimum volume of the symbol. For a symbol whose minimum volume is 0.001 the
  function returns 0.01: the fallback is \<^verbatim>\<open>round(max(volume_min, 0.01), digits)\<close>.
\<close>

theorem C3_min_lot_counterexample:
  "volume_min (symbol_of lit_0_001 100 lit_0_001) = Some lit_0_001
   \<and> calculate_lot_size_advanced (Some mgr_on) (sizing_venue (symbol_of lit_0_001 100 lit_0_001))
       ''BTCUSD'' 1 0 = lit_0_01
   \<and> calculate_lot_size_advanced (Some mgr_on) (sizing_venue (symbol_of lit_0_001 100 lit_0_001))
       ''BTCUSD'' 1 0 \<noteq> lit_0_001"
proof -
  have "calculate_lot_size_advanced (Some mgr_on) (sizing_venue (symbol_of lit_0_001 100 lit_0_001))
       ''BTCUSD'' 1 0 = lit_0_01"
    by code_simp
  moreover have "lit_0_01 \<noteq> lit_0_001"
    by code_simp
  ultimately show ?thesis by (simp add: symbol_of_def)
qed

lemma min_lot_fallback_exact:
  "volume_min si = Some vm \<Longrightarrow> 0 < vm \<Longrightarrow> min_lot_fallback (Some si) = vm"
  by (simp add: min_lot_fallback_def)

lemma min_lot_exact:
  assumes "volume_min si = Some vm" and "lit_0_01 \<le> vm"
    and "py_round_n vm (volume_digits_precision si) = vm"
  shows "min_lot si = vm"
proof -
  from assms(1,2) lit_0_01_pos have "lot_volume_min si = vm"
    by (simp add: lot_volume_min_def getattr_def)
  with assms(2) have "max (lot_volume_min si) lit_0_01 = vm"
    by (simp add: max_def)
  with assms(3) show ?thesis
    by (simp only: min_lot_def)
qed

lemma lot_fallback_exits:
  assumes "is_connected mgr" and "0 < risk_percent"
    and "get_account_info mgr v = Some acc" and "get_symbol_info mgr v symbol = Some si"
    and "sl \<le> 0 \<or> getattr (trade_contract_size si) 0 = 0 \<or> getattr (point si) 0 = 0"
  shows "calculate_lot_size_advanced (Some mgr) v symbol risk_percent sl = min_lot si"
  using assms by (auto simp: calculate_lot_size_advanced_def Let_def)

lemma lot_early_exits:
  assumes "is_connected mgr" and "get_symbol_info mgr v symbol = Some si"
    and "risk_percent \<le> 0 \<or> get_account_info mgr v = None"
  shows "calculate_lot_size_advanced (Some mgr) v symbol risk_percent sl = min_lot_fallback (Some si)"
  using assms by (auto simp: calculate_lot_size_advanced_def)

text \<open>
  C3 (amended): on a connected manager that obtains the symbol, a stop-loss distance
  that is not positive, or a contract size or point size that is zero or missing,
  makes the function return a value instead of failing. With a positive risk percent
  and an account snapshot the value is the minimum volume (0.01 when that is missing or
  not positive), raised to at least 0.01 and rounded to the volume precision. With a
  risk percent that is not positive, or without an account snapshot, the value is the
  minimum volume itself, not rounded, when it is present and positive, and 0.01
  otherwise. In both cases, whenever the minimum volume is at least 0.01 and unchanged
  by the rounding to the volume precision, the value is exactly the minimum volume.
\<close>

theorem C3_min_lot_fallback:
  assumes "is_connected mgr" and "get_symbol_info mgr v symbol = Some si"
    and "sl \<le> 0 \<or> getattr (trade_contract_size si) 0 = 0 \<or> getattr (point si) 0 = 0"
  shows "(0 < risk_percent \<and> get_account_info mgr v \<noteq> None \<longrightarrow>
            calculate_lot_size_advanced (Some mgr) v symbol risk_percent sl
              = py_round_n (max (lot_volume_min si) lit_0_01) (volume_digits_precision si))
         \<and> (risk_percent \<le> 0 \<or> get_account_info mgr v = None \<longrightarrow>
            calculate_lot_size_advanced (Some mgr) v symbol risk_percent sl
              = (case volume_min si of
                   Some present \<Rightarrow> if 0 < present then present else lit_0_01
                 | None \<Rightarrow> lit_0_01))
         \<and> (volume_min si = Some vm \<and> lit_0_01 \<le> vm
              \<and> py_round_n vm (volume_digits_precision si) = vm \<longrightarrow>
            calculate_lot_size_advanced (Some mgr) v symbol risk_percent sl = vm)"
proof (intro conjI impI)
  assume "0 < risk_percent \<and> get_account_info mgr v \<noteq> None"
  then obtain acc where "0 < risk_percent" "get_account_info mgr v = Some acc" by auto
  from lot_fallback_exits [OF assms(1) this assms(2,3)]
  show "calculate_lot_size_advanced (Some mgr) v symbol risk_percent sl
          = py_round_n (max (lot_volume_min si) lit_0_01) (volume_digits_precision si)"
    by (simp add: min_lot_def)
next
  assume "risk_percent \<le> 0 \<or> get_account_info mgr v = None"
  from lot_early_exits [OF assms(1,2) this]
  show "calculate_lot_size_advanced (Some mgr) v symbol risk_percent sl
          = (case volume_min si of
               Some present \<Rightarrow> if 0 < present then present else lit_0_01
             | None \<Rightarrow> lit_0_01)"
    by (simp add: min_lot_fallback_def)
next
  assume h: "volume_min si = Some vm \<and> lit_0_01 \<le> vm
              \<and> py_round_n vm (volume_digits_precision si) = vm"
  with lit_0_01_pos have pos: "0 < vm" by simp
  show "calculate_lot_size_advanced (Some mgr) v symbol risk_percent sl = vm"
  proof (cases "0 < risk_percent \<and> get_account_info mgr v \<noteq> None")
    case True
    then obtain acc where "0 < risk_percent" "get_account_info mgr v = Some acc" by auto
    from lot_fallback_exits [OF assms(1) this assms(2,3)] h show ?thesis
      by (simp add: min_lot_exact)
  next
    case False
    then have "risk_percent \<le> 0 \<or> get_account_info mgr v = None" by auto
    from lot_early_exits [OF assms(1,2) this] h pos show ?thesis
      by (simp add: min_lot_fallback_exact)
  qed
qed

theorem C3_min_lot_fallback_witness:
  "is_connected mgr_on
   \<and> get_symbol_info mgr_on (sizing_venue (symbol_of lit_0_01 100 lit_0_01)) ''XAUUSD''
       = Some (symbol_of lit_0_01 100 lit_0_01)
   \<and> get_account_info mgr_on (sizing_venue (symbol_of lit_0_01 100 lit_0_01)) = Some account_usd
   \<and> calculate_lot_size_advanced (Some mgr_on) (sizing_venue (symbol_of lit_0_01 100 lit_0_01))
       ''XAUUSD'' 1 0 = lit_0_01
   \<and> calculate_lot_size_advanced (Some mgr_on) (sizing_venue (symbol_of lit_0_01 100 lit_0_01))
       ''XAUUSD'' 1 (- 5) = lit_0_01
   \<and> get_symbol_info mgr_on (sizing_venue (symbol_of lit_0_001 100 lit_0_001)) ''BTCUSD''
       = Some (symbol_of lit_0_001 100 lit_0_001)
   \<and> calculate_lot_size_advanced (Some mgr_on) (sizing_venue (symbol_of lit_0_001 100 lit_0_001))
       ''BTCUSD'' 1 0 = py_round_n lit_0_01 3
   \<and> calculate_lot_size_advanced (Some mgr_on) (sizing_venue (symbol_of lit_0_001 100 lit_0_001))
       ''BTCUSD'' 0 0 = lit_0_001"
proof -
  let ?si = "symbol_of lit_0_01 100 lit_0_01"
  let ?small = "symbol_of lit_0_001 100 lit_0_001"
  have con: "is_connected mgr_on"
    by (simp add: is_connected_def mgr_on_def)
  have si: "get_symbol_info mgr_on (sizing_venue ?si) ''XAUUSD'' = Some ?si"
    by (simp add: get_symbol_info_def con sizing_venue_def)
  have small: "get_symbol_info mgr_on (sizing_venue ?small) ''BTCUSD'' = Some ?small"
    by (simp add: get_symbol_info_def con sizing_venue_def)
  have acc: "get_account_info mgr_on (sizing_venue ?si) = Some account_usd"
    by (simp add: get_account_info_def con sizing_venue_def)
  have acc_small: "get_account_info mgr_on (sizing_venue ?small) \<noteq> None"
    by (simp add: get_account_info_def con sizing_venue_def)
  have vm: "volume_min ?si = Some lit_0_01"
    by (simp add: symbol_of_def)
  have vm_small: "volume_min ?small = Some lit_0_001"
    by (simp add: symbol_of_def)
  have digits: "volume_digits_precision ?si = 2"
    by code_simp
  have stable: "py_round_n lit_0_01 (volume_digits_precision ?si) = lit_0_01"
    by (simp only: digits) code_simp
  have digits_small: "volume_digits_precision ?small = 3"
    by code_simp
  have raised: "max (lot_volume_min ?small) lit_0_01 = lit_0_01"
    by code_simp
  have pos_small: "0 < lit_0_001"
    by code_simp
  have sl0: "(0::rat) \<le> 0 \<or> getattr (trade_contract_size ?si) 0 = 0 \<or> getattr (point ?si) 0 = 0"
    by simp
  have sl5: "(- 5::rat) \<le> 0 \<or> getattr (trade_contract_size ?si) 0 = 0 \<or> getattr (point ?si) 0 = 0"
    by simp
  have sl0_small:
    "(0::rat) \<le> 0 \<or> getattr (trade_contract_size ?small) 0 = 0 \<or> getattr (point ?small) 0 = 0"
    by simp
  from C3_min_lot_fallback [OF con si sl0, of 1 lit_0_01] vm stable
  have a: "calculate_lot_size_advanced (Some mgr_on) (sizing_venue ?si) ''XAUUSD'' 1 0 = lit_0_01"
    by simp
  from C3_min_lot_fallback [OF con si sl5, of 1 lit_0_01] vm stable
  have b: "calculate_lot_size_advanced (Some mgr_on) (sizing_venue ?si) ''XAUUSD'' 1 (- 5) = lit_0_01"
    by simp
  from C3_min_lot_fallback [OF con small sl0_small, of 1 0] acc_small
  have "calculate_lot_size_advanced (Some mgr_on) (sizing_venue ?small) ''BTCUSD'' 1 0
          = py_round_n (max (lot_volume_min ?small) lit_0_01) (volume_digits_precision ?small)"
    by simp
  then have c: "calculate_lot_size_advanced (Some mgr_on) (sizing_venue ?small) ''BTCUSD'' 1 0
          = py_round_n lit_0_01 3"
    by (simp only: raised digits_small)
  from C3_min_lot_fallback [OF con small sl0_small, of 0 0] vm_small pos_small
  have d: "calculate_lot_size_advanced (Some mgr_on) (sizing_venue ?small) ''BTCUSD'' 0 0 = lit_0_001"
    by simp
  from con si acc a b small c d show ?thesis by simp
qed

section \<open>Properties of the execution of a signal\<close>

lemma update_if_keyed_last_trade_time [simp]:
  "last_trade_time (update_if_keyed a sd ex note) = last_trade_time a"
  by (simp add: update_if_keyed_def)

lemma update_if_given_last_trade_time [simp]:
  "last_trade_time (update_if_given a sdo note) = last_trade_time a"
  by (simp add: update_if_given_def split: option.splits)

lemma process_result_cases:
  "process_result a env is_auto sd symbol sent = (res, a') \<Longrightarrow>
     (fst res \<and> (\<exists>r. sent = (True, Result r) \<and> 0 < order r \<and> res = (True, Result r)
         \<and> last_trade_time a' = (last_trade_time a)(symbol \<mapsto> now_utc_executed env)
         \<and> a' = (update_if_keyed (a\<lparr>last_trade_time := (last_trade_time a)(symbol \<mapsto> now_utc_executed env)\<rparr>) sd True
                    (source_log_prefix is_auto @ '': Executed. Order ID: '' @ str_int (order r)))
                  \<lparr>saved_signals := df_signals (update_if_keyed (a\<lparr>last_trade_time := (last_trade_time a)(symbol \<mapsto> now_utc_executed env)\<rparr>) sd True
                    (source_log_prefix is_auto @ '': Executed. Order ID: '' @ str_int (order r)))\<rparr>))
     \<or> (\<not> fst res \<and> (\<exists>m. res = (False, Message m)
            \<and> a' = update_if_keyed a sd False (source_log_prefix is_auto @ '': Failed - '' @ m)))"
  by (auto simp: process_result_def Let_def split: prod.splits bool.splits outcome.splits if_splits)

lemma submit_order_trace:
  "submit_order a env mgr is_auto sd symbol ot lot tr = (res, a', tr') \<Longrightarrow>
     (tr' = tr \<and> \<not> fst res) \<or> tr' = tr @ [Submit]"
  by (auto simp: submit_order_def Let_def split: option.splits if_splits prod.splits)

lemma execute_after_interval_trace:
  "execute_after_interval a env mgr is_auto sd symbol ot tr = (res, a', tr') \<Longrightarrow>
     \<exists>sfx. tr' = tr @ sfx \<and> prefix sfx [SpreadGate, Sizing, Submit]"
  by (auto simp: execute_after_interval_def Let_def split: option.splits if_splits
           dest!: submit_order_trace)

lemma execute_resolved_signal_trace:
  "execute_resolved_signal a env mgr is_auto sd ov tr = (res, a', tr') \<Longrightarrow>
     \<exists>sfx. tr' = tr @ sfx \<and> prefix sfx [ValidityGate, IntervalGate, SpreadGate, Sizing, Submit]"
  by (auto simp: execute_resolved_signal_def Let_def split: option.splits if_splits
           dest!: execute_after_interval_trace)

lemma execute_trace_prefix:
  "execute_trade_from_signal_data a env sdo ov is_auto = (res, a', tr) \<Longrightarrow> prefix tr gate_order"
  by (auto simp: execute_trade_from_signal_data_def gate_order_def Let_def
           split: option.splits if_splits sum.splits
           dest!: execute_resolved_signal_trace)

lemma execute_time_blocked:
  "time_gate_verdict a env is_auto = Some r \<Longrightarrow>
   execute_trade_from_signal_data a env sdo ov is_auto
     = ((False, Message r), update_if_given a sdo r, [TimeGate])"
  by (auto simp: time_gate_verdict_def execute_trade_from_signal_data_def Let_def split: if_splits)

lemma execute_news_blocked:
  "time_gate_verdict a env is_auto = None \<Longrightarrow> news_gate_verdict a is_auto = Some r \<Longrightarrow>
   execute_trade_from_signal_data a env sdo ov is_auto
     = ((False, Message r), update_if_given a sdo r, [TimeGate, NewsGate])"
  by (auto simp: time_gate_verdict_def news_gate_verdict_def execute_trade_from_signal_data_def
        Let_def split: if_splits)

lemma execute_connection_blocked:
  "time_gate_verdict a env is_auto = None \<Longrightarrow> news_gate_verdict a is_auto = None \<Longrightarrow>
   connection_gate_verdict a is_auto = Some r \<Longrightarrow>
   execute_trade_from_signal_data a env sdo ov is_auto
     = ((False, Message r), update_if_given a sdo r, [TimeGate, NewsGate, ConnectionGate])"
  by (auto simp: time_gate_verdict_def news_gate_verdict_def connection_gate_verdict_def
        mt5_connected_def execute_trade_from_signal_data_def Let_def
        split: if_splits option.splits)

lemma execute_entry_passed:
  "time_gate_verdict a env is_auto = None \<Longrightarrow> news_gate_verdict a is_auto = None \<Longrightarrow>
   connection_gate_verdict a is_auto = None \<Longrightarrow>
   \<exists>mgr. app_mt5_manager a = Some mgr \<and> is_connected mgr
     \<and> execute_trade_from_signal_data a env sdo ov is_auto
         = (case resolve_signal_data a env sdo of
              Inl text \<Rightarrow> ((False, Message text), a, [TimeGate, NewsGate, ConnectionGate])
            | Inr sd \<Rightarrow> execute_resolved_signal a env mgr is_auto sd ov
                         [TimeGate, NewsGate, ConnectionGate])"
  by (auto simp: time_gate_verdict_def news_gate_verdict_def connection_gate_verdict_def
        mt5_connected_def execute_trade_from_signal_data_def Let_def
        split: if_splits option.splits)

lemma resolved_validity_blocked:
  "validity_gate_verdict sd ov is_auto = Some r \<Longrightarrow>
   execute_resolved_signal a env mgr is_auto sd ov tr
     = ((False, Message r), update_if_keyed a sd False r, tr @ [ValidityGate])"
  by (auto simp: validity_gate_verdict_def execute_resolved_signal_def Let_def split: if_splits)

lemma resolved_interval_blocked:
  "validity_gate_verdict sd ov is_auto = None \<Longrightarrow>
   interval_gate_verdict a env sd is_auto = Some r \<Longrightarrow>
   execute_resolved_signal a env mgr is_auto sd ov tr
     = ((False, Message r), update_if_keyed a sd False r, tr @ [ValidityGate, IntervalGate])"
  by (auto simp: validity_gate_verdict_def interval_gate_verdict_def execute_resolved_signal_def
        Let_def split: if_splits)

lemma resolved_interval_passed:
  "validity_gate_verdict sd ov is_auto = None \<Longrightarrow>
   interval_gate_verdict a env sd is_auto = None \<Longrightarrow>
   execute_resolved_signal a env mgr is_auto sd ov tr
     = execute_after_interval a env mgr is_auto sd (symbol_text (sig_symbol sd))
         (final_order_type_str sd ov) (tr @ [ValidityGate, IntervalGate])"
  by (auto simp: validity_gate_verdict_def interval_gate_verdict_def execute_resolved_signal_def
        Let_def split: if_splits)

lemma after_interval_spread_blocked:
  "app_mt5_manager a = Some mgr \<Longrightarrow>
   get_symbol_info mgr (venue env) (symbol_text (sig_symbol sd)) = Some si \<Longrightarrow>
   spread_gate_verdict a env sd is_auto = Some r \<Longrightarrow>
   execute_after_interval a env mgr is_auto sd (symbol_text (sig_symbol sd)) ot tr
     = ((False, Message r), update_if_keyed a sd False r, tr @ [SpreadGate])"
  by (auto simp: spread_gate_verdict_def execute_after_interval_def Let_def
        split: if_splits option.splits)

lemma after_interval_spread_passed:
  "app_mt5_manager a = Some mgr \<Longrightarrow>
   get_symbol_info mgr (venue env) (symbol_text (sig_symbol sd)) = Some si \<Longrightarrow>
   spread_gate_verdict a env sd is_auto = None \<Longrightarrow>
   execute_after_interval a env mgr is_auto sd (symbol_text (sig_symbol sd)) ot tr
     = submit_order a env mgr is_auto sd (symbol_text (sig_symbol sd)) ot
         (lot_for_order mgr (venue env) (app_data_manager a) (symbol_text (sig_symbol sd)) sd si)
         (tr @ [SpreadGate, Sizing])"
  by (auto simp: spread_gate_verdict_def execute_after_interval_def Let_def
        split: if_splits option.splits)

lemma after_interval_no_symbol_info:
  "get_symbol_info mgr (venue env) symbol = None \<Longrightarrow>
   snd (snd (execute_after_interval a env mgr is_auto sd symbol ot tr)) = tr"
  by (simp add: execute_after_interval_def Let_def)

lemma after_interval_sizing:
  "execute_after_interval a env mgr is_auto sd (symbol_text (sig_symbol sd)) ot tr = (res, a', tr') \<Longrightarrow>
   app_mt5_manager a = Some mgr \<Longrightarrow> Sizing \<notin> set tr \<Longrightarrow> Sizing \<in> set tr' \<Longrightarrow>
   spread_gate_verdict a env sd is_auto = None"
  by (auto simp: spread_gate_verdict_def execute_after_interval_def Let_def
        split: if_splits option.splits)

lemma update_keeps_keys:
  "map signal_key (update_signal_status_in_df df t s ex note) = map signal_key df"
  by (cases t) (simp_all add: update_signal_status_in_df_def signal_key_def)

lemma update_marks_rows:
  assumes "row \<in> set (update_signal_status_in_df df (Some tm) (Some sy) ex note)"
    and "signal_key row = (Some tm, Some sy)"
  shows "sig_notes row = note \<and> sig_executed row = ex"
  using assms by (auto simp: update_signal_status_in_df_def signal_key_def split: if_splits)

lemma update_if_given_keys:
  "map signal_key (df_signals (update_if_given a sdo note)) = map signal_key (df_signals a)"
  by (cases sdo) (simp_all add: update_if_given_def update_keeps_keys)

lemma update_if_keyed_keys:
  "map signal_key (df_signals (update_if_keyed a sd ex note)) = map signal_key (df_signals a)"
  by (simp add: update_if_keyed_def update_keeps_keys)

lemma keyedD: "keyed sd \<Longrightarrow> \<exists>tm sy. sig_time sd = Some tm \<and> sig_symbol sd = Some sy"
  by (cases "sig_time sd"; cases "sig_symbol sd") (simp_all add: keyed_def truthy_def)

lemma update_if_given_marks:
  assumes "keyed sd" and "row \<in> set (df_signals (update_if_given a (Some sd) note))"
    and "signal_key row = signal_key sd"
  shows "sig_notes row = note \<and> \<not> sig_executed row"
proof -
  from keyedD [OF assms(1)] obtain tm sy where k: "sig_time sd = Some tm" "sig_symbol sd = Some sy"
    by blast
  with assms(2,3) update_marks_rows [of row "df_signals a" tm sy False "note"] show ?thesis
    by (simp add: update_if_given_def signal_key_def)
qed

lemma update_if_keyed_marks:
  assumes "keyed sd" and "row \<in> set (df_signals (update_if_keyed a sd ex note))"
    and "signal_key row = signal_key sd"
  shows "sig_notes row = note \<and> sig_executed row = ex"
proof -
  from keyedD [OF assms(1)] obtain tm sy where k: "sig_time sd = Some tm" "sig_symbol sd = Some sy"
    by blast
  with assms update_marks_rows [of row "df_signals a" tm sy ex "note"] show ?thesis
    by (simp add: update_if_keyed_def signal_key_def keyed_def)
qed

lemma first_failing_guard_pipeline:
  "first_failing (guard_pipeline a env sd ov is_auto) [] =
     (case time_gate_verdict a env is_auto of
        Some r \<Rightarrow> Some ([TimeGate], r)
      | None \<Rightarrow>
     (case news_gate_verdict a is_auto of
        Some r \<Rightarrow> Some ([TimeGate, NewsGate], r)
      | None \<Rightarrow>
     (case connection_gate_verdict a is_auto of
        Some r \<Rightarrow> Some ([TimeGate, NewsGate, ConnectionGate], r)
      | None \<Rightarrow>
     (case validity_gate_verdict sd ov is_auto of
        Some r \<Rightarrow> Some ([TimeGate, NewsGate, ConnectionGate, ValidityGate], r)
      | None \<Rightarrow>
     (case interval_gate_verdict a env sd is_auto of
        Some r \<Rightarrow> Some ([TimeGate, NewsGate, ConnectionGate, ValidityGate, IntervalGate], r)
      | None \<Rightarrow>
     (case spread_gate_verdict a env sd is_auto of
        Some r \<Rightarrow> Some ([TimeGate, NewsGate, ConnectionGate, ValidityGate, IntervalGate, SpreadGate], r)
      | None \<Rightarrow> None))))))"
  by (simp add: guard_pipeline_def split: option.splits)

lemma prefix_gate_order_submit:
  "prefix tr gate_order \<Longrightarrow> Submit \<in> set tr \<Longrightarrow> Sizing \<in> set tr"
  by (auto simp: gate_order_def prefix_Cons)


lemma resolve_given:
  "resolve_signal_data a env signal_data = Inr sd \<Longrightarrow> signal_data \<noteq> None \<Longrightarrow> signal_data = Some sd"
  by (auto simp: resolve_signal_data_def)

lemma entry_block_facts:
  assumes "execute_trade_from_signal_data a env signal_data ov is_auto
             = ((False, Message r), update_if_given a signal_data r, gs)"
    and "execute_trade_from_signal_data a env signal_data ov is_auto = (res, a', tr)"
    and "resolve_signal_data a env signal_data = Inr sd"
    and "Sizing \<notin> set gs" and "Submit \<notin> set gs"
    and "last gs \<notin> {ValidityGate, IntervalGate, SpreadGate}"
  shows "res = (False, Message r) \<and> tr = gs \<and> Sizing \<notin> set tr \<and> Submit \<notin> set tr
         \<and> map signal_key (df_signals a') = map signal_key (df_signals a)
         \<and> (keyed sd \<and> (signal_data \<noteq> None
                \<or> last gs \<in> {ValidityGate, IntervalGate, SpreadGate}) \<longrightarrow>
              (\<forall>row \<in> set (df_signals a'). signal_key row = signal_key sd \<longrightarrow>
                 sig_notes row = r \<and> \<not> sig_executed row))"
proof -
  from assms(1,2) have eq: "res = (False, Message r)" "a' = update_if_given a signal_data r" "tr = gs"
    by simp_all
  have "\<forall>row \<in> set (df_signals a'). signal_key row = signal_key sd \<longrightarrow>
          sig_notes row = r \<and> \<not> sig_executed row"
    if "keyed sd" and "signal_data \<noteq> None"
    using resolve_given [OF assms(3) that(2)] that(1) eq(2)
    by (auto dest: update_if_given_marks)
  with eq assms(4-6) show ?thesis
    by (auto simp: update_if_given_keys)
qed

lemma signal_block_facts:
  assumes "execute_trade_from_signal_data a env signal_data ov is_auto
             = ((False, Message r), update_if_keyed a sd False r, gs)"
    and "execute_trade_from_signal_data a env signal_data ov is_auto = (res, a', tr)"
    and "Sizing \<notin> set gs" and "Submit \<notin> set gs"
  shows "res = (False, Message r) \<and> tr = gs \<and> Sizing \<notin> set tr \<and> Submit \<notin> set tr
         \<and> map signal_key (df_signals a') = map signal_key (df_signals a)
         \<and> (keyed sd \<and> (signal_data \<noteq> None
                \<or> last gs \<in> {ValidityGate, IntervalGate, SpreadGate}) \<longrightarrow>
              (\<forall>row \<in> set (df_signals a'). signal_key row = signal_key sd \<longrightarrow>
                 sig_notes row = r \<and> \<not> sig_executed row))"
proof -
  from assms(1,2) have eq: "res = (False, Message r)" "a' = update_if_keyed a sd False r" "tr = gs"
    by simp_all
  have "\<forall>row \<in> set (df_signals a'). signal_key row = signal_key sd \<longrightarrow>
          sig_notes row = r \<and> \<not> sig_executed row"
    if "keyed sd"
    using that eq(2) by (auto dest: update_if_keyed_marks)
  with eq assms(3,4) show ?thesis
    by (auto simp: update_if_keyed_keys)
qed

lemma guard_blocked:
  assumes run: "execute_trade_from_signal_data a env signal_data ov is_auto = (res, a', tr)"
    and sd: "resolve_signal_data a env signal_data = Inr sd"
    and ff: "first_failing (guard_pipeline a env sd ov is_auto) [] = Some (gs, reason)"
    and known: "last gs = SpreadGate \<longrightarrow> symbol_info_known a env sd"
  shows "res = (False, Message reason) \<and> tr = gs \<and> Sizing \<notin> set tr \<and> Submit \<notin> set tr
         \<and> map signal_key (df_signals a') = map signal_key (df_signals a)
         \<and> (keyed sd \<and> (signal_data \<noteq> None
                \<or> last gs \<in> {ValidityGate, IntervalGate, SpreadGate}) \<longrightarrow>
              (\<forall>row \<in> set (df_signals a'). signal_key row = signal_key sd \<longrightarrow>
                 sig_notes row = reason \<and> \<not> sig_executed row))"
proof -
  note ff' = ff [unfolded first_failing_guard_pipeline]
  show ?thesis
  proof (cases "time_gate_verdict a env is_auto")
    case (Some r)
    with ff' have g: "gs = [TimeGate]" "reason = r" by simp_all
    from entry_block_facts [OF execute_time_blocked [OF Some] run sd] g show ?thesis by simp
  next
    case tv: None
    show ?thesis
    proof (cases "news_gate_verdict a is_auto")
      case (Some r)
      with ff' tv have g: "gs = [TimeGate, NewsGate]" "reason = r" by simp_all
      from entry_block_facts [OF execute_news_blocked [OF tv Some] run sd] g show ?thesis by simp
    next
      case nv: None
      show ?thesis
      proof (cases "connection_gate_verdict a is_auto")
        case (Some r)
        with ff' tv nv have g: "gs = [TimeGate, NewsGate, ConnectionGate]" "reason = r" by simp_all
        from entry_block_facts [OF execute_connection_blocked [OF tv nv Some] run sd] g
        show ?thesis by simp
      next
        case cv: None
        from execute_entry_passed [OF tv nv cv, of signal_data ov] sd
        obtain mgr where mgr: "app_mt5_manager a = Some mgr" "is_connected mgr"
          and ex: "execute_trade_from_signal_data a env signal_data ov is_auto
                     = execute_resolved_signal a env mgr is_auto sd ov
                         [TimeGate, NewsGate, ConnectionGate]"
          by auto
        show ?thesis
        proof (cases "validity_gate_verdict sd ov is_auto")
          case (Some r)
          with ff' tv nv cv
          have g: "gs = [TimeGate, NewsGate, ConnectionGate, ValidityGate]" "reason = r"
            by simp_all
          from ex resolved_validity_blocked [OF Some, of a env mgr "[TimeGate, NewsGate, ConnectionGate]"]
          have "execute_trade_from_signal_data a env signal_data ov is_auto
                  = ((False, Message r), update_if_keyed a sd False r,
                     [TimeGate, NewsGate, ConnectionGate, ValidityGate])"
            by simp
          from signal_block_facts [OF this run] g show ?thesis by simp
        next
          case vv: None
          show ?thesis
          proof (cases "interval_gate_verdict a env sd is_auto")
            case (Some r)
            with ff' tv nv cv vv
            have g: "gs = [TimeGate, NewsGate, ConnectionGate, ValidityGate, IntervalGate]"
              "reason = r"
              by simp_all
            from ex resolved_interval_blocked [OF vv Some, of mgr "[TimeGate, NewsGate, ConnectionGate]"]
            have "execute_trade_from_signal_data a env signal_data ov is_auto
                    = ((False, Message r), update_if_keyed a sd False r,
                       [TimeGate, NewsGate, ConnectionGate, ValidityGate, IntervalGate])"
              by simp
            from signal_block_facts [OF this run] g show ?thesis by simp
          next
            case iv: None
            show ?thesis
            proof (cases "spread_gate_verdict a env sd is_auto")
              case (Some r)
              with ff' tv nv cv vv iv
              have g: "gs = [TimeGate, NewsGate, ConnectionGate, ValidityGate, IntervalGate, SpreadGate]"
                "reason = r"
                by simp_all
              with known mgr obtain si where
                si: "get_symbol_info mgr (venue env) (symbol_text (sig_symbol sd)) = Some si"
                by (auto simp: symbol_info_known_def)
              from ex resolved_interval_passed [OF vv iv, of mgr "[TimeGate, NewsGate, ConnectionGate]"]
                after_interval_spread_blocked [OF mgr(1) si Some,
                  of "final_order_type_str sd ov"
                     "[TimeGate, NewsGate, ConnectionGate, ValidityGate, IntervalGate]"]
              have "execute_trade_from_signal_data a env signal_data ov is_auto
                      = ((False, Message r), update_if_keyed a sd False r,
                         [TimeGate, NewsGate, ConnectionGate, ValidityGate, IntervalGate, SpreadGate])"
                by simp
              from signal_block_facts [OF this run] g show ?thesis by simp
            next
              case None
              with ff' tv nv cv vv iv show ?thesis by simp
            qed
          qed
        qed
      qed
    qed
  qed
qed


lemma first_failing_None:
  "first_failing (guard_pipeline a env sd ov is_auto) [] = None \<Longrightarrow>
     time_gate_verdict a env is_auto = None \<and> news_gate_verdict a is_auto = None
     \<and> connection_gate_verdict a is_auto = None \<and> validity_gate_verdict sd ov is_auto = None
     \<and> interval_gate_verdict a env sd is_auto = None \<and> spread_gate_verdict a env sd is_auto = None"
  by (simp add: first_failing_guard_pipeline split: option.splits)

lemma first_failing_at_spread:
  "first_failing (guard_pipeline a env sd ov is_auto) [] = Some (gs, reason) \<Longrightarrow>
   last gs = SpreadGate \<Longrightarrow>
     time_gate_verdict a env is_auto = None \<and> news_gate_verdict a is_auto = None
     \<and> connection_gate_verdict a is_auto = None \<and> validity_gate_verdict sd ov is_auto = None
     \<and> interval_gate_verdict a env sd is_auto = None"
  by (auto simp: first_failing_guard_pipeline split: option.splits)

lemma entry_and_signal_gates_passed:
  assumes sd: "resolve_signal_data a env signal_data = Inr sd"
    and "time_gate_verdict a env is_auto = None" and "news_gate_verdict a is_auto = None"
    and "connection_gate_verdict a is_auto = None" and "validity_gate_verdict sd ov is_auto = None"
    and "interval_gate_verdict a env sd is_auto = None"
  shows "\<exists>mgr. app_mt5_manager a = Some mgr \<and> is_connected mgr
           \<and> execute_trade_from_signal_data a env signal_data ov is_auto
               = execute_after_interval a env mgr is_auto sd (symbol_text (sig_symbol sd))
                   (final_order_type_str sd ov)
                   [TimeGate, NewsGate, ConnectionGate, ValidityGate, IntervalGate]"
proof -
  from execute_entry_passed [OF assms(2-4), of signal_data ov] sd
  obtain mgr where mgr: "app_mt5_manager a = Some mgr" "is_connected mgr"
    and ex: "execute_trade_from_signal_data a env signal_data ov is_auto
               = execute_resolved_signal a env mgr is_auto sd ov
                   [TimeGate, NewsGate, ConnectionGate]"
    by auto
  from ex resolved_interval_passed [OF assms(5,6), of mgr "[TimeGate, NewsGate, ConnectionGate]"] mgr
  show ?thesis by simp
qed

lemma guard_passed:
  assumes run: "execute_trade_from_signal_data a env signal_data ov is_auto = (res, a', tr)"
    and sd: "resolve_signal_data a env signal_data = Inr sd"
    and ff: "first_failing (guard_pipeline a env sd ov is_auto) [] = None"
    and known: "symbol_info_known a env sd"
  shows "prefix [TimeGate, NewsGate, ConnectionGate, ValidityGate, IntervalGate, SpreadGate, Sizing] tr"
proof -
  note v = first_failing_None [OF ff]
  from entry_and_signal_gates_passed [OF sd, of is_auto ov] v
  obtain mgr where mgr: "app_mt5_manager a = Some mgr"
    and ex: "execute_trade_from_signal_data a env signal_data ov is_auto
               = execute_after_interval a env mgr is_auto sd (symbol_text (sig_symbol sd))
                   (final_order_type_str sd ov)
                   [TimeGate, NewsGate, ConnectionGate, ValidityGate, IntervalGate]"
    by auto
  from known mgr obtain si where
    si: "get_symbol_info mgr (venue env) (symbol_text (sig_symbol sd)) = Some si"
    by (auto simp: symbol_info_known_def)
  from v have sv: "spread_gate_verdict a env sd is_auto = None" by simp
  from ex run after_interval_spread_passed [OF mgr si sv, of "final_order_type_str sd ov"
         "[TimeGate, NewsGate, ConnectionGate, ValidityGate, IntervalGate]"]
  have "submit_order a env mgr is_auto sd (symbol_text (sig_symbol sd)) (final_order_type_str sd ov)
          (lot_for_order mgr (venue env) (app_data_manager a) (symbol_text (sig_symbol sd)) sd si)
          ([TimeGate, NewsGate, ConnectionGate, ValidityGate, IntervalGate] @ [SpreadGate, Sizing])
        = (res, a', tr)"
    by simp
  from submit_order_trace [OF this] show ?thesis
    by auto
qed

lemma sizing_needs_pass:
  assumes run: "execute_trade_from_signal_data a env signal_data ov is_auto = (res, a', tr)"
    and sd: "resolve_signal_data a env signal_data = Inr sd"
    and sz: "Sizing \<in> set tr"
  shows "first_failing (guard_pipeline a env sd ov is_auto) [] = None"
proof (cases "first_failing (guard_pipeline a env sd ov is_auto) []")
  case None
  then show ?thesis .
next
  case (Some p)
  obtain gs reason where p: "p = (gs, reason)" by (cases p)
  with Some have ff: "first_failing (guard_pipeline a env sd ov is_auto) [] = Some (gs, reason)"
    by simp
  show ?thesis
  proof (cases "last gs = SpreadGate \<longrightarrow> symbol_info_known a env sd")
    case True
    from guard_blocked [OF run sd ff True] sz show ?thesis by simp
  next
    case False
    then have lg: "last gs = SpreadGate" and unk: "\<not> symbol_info_known a env sd" by simp_all
    note v = first_failing_at_spread [OF ff lg]
    from entry_and_signal_gates_passed [OF sd, of is_auto ov] v
    obtain mgr where mgr: "app_mt5_manager a = Some mgr"
      and ex: "execute_trade_from_signal_data a env signal_data ov is_auto
                 = execute_after_interval a env mgr is_auto sd (symbol_text (sig_symbol sd))
                     (final_order_type_str sd ov)
                     [TimeGate, NewsGate, ConnectionGate, ValidityGate, IntervalGate]"
      by auto
    from unk mgr have "get_symbol_info mgr (venue env) (symbol_text (sig_symbol sd)) = None"
      by (simp add: symbol_info_known_def)
    note no = after_interval_no_symbol_info [OF this, of a is_auto sd "final_order_type_str sd ov"
           "[TimeGate, NewsGate, ConnectionGate, ValidityGate, IntervalGate]"]
    from ex run have "execute_after_interval a env mgr is_auto sd (symbol_text (sig_symbol sd))
                     (final_order_type_str sd ov)
                     [TimeGate, NewsGate, ConnectionGate, ValidityGate, IntervalGate] = (res, a', tr)"
      by simp
    with no have "tr = [TimeGate, NewsGate, ConnectionGate, ValidityGate, IntervalGate]" by simp
    with sz show ?thesis by simp
  qed
qed

text \<open>
  C1 (amended): the steps of every attempt form an initial segment of the fixed order
  time, news, connection, validity, interval, spread, sizing, submission. For the
  signal of the attempt (the one passed in or, for a manual attempt, the selected
  row of the table), the first gate of the chain that blocks ends the attempt: the
  call returns \<open>False\<close> with the reason of that gate, the gates up to it are the only
  steps that ran, there is neither sizing nor submission, and no ledger row is added
  or removed. The reason is written as the note, with \<open>executed\<close> false, of every
  ledger row with the time and symbol of the signal when the signal has a time and a
  non-empty symbol and either the caller passed the signal in (the automatic path) or
  the blocking gate is one of validity, interval and spread. When no gate blocks and
  the venue knows the symbol, the sizing runs; the sizing runs only if no gate
  blocks, and the submission only after the sizing.
\<close>

theorem C1_guard_pipeline:
  assumes "execute_trade_from_signal_data a env signal_data ov is_auto = (res, a', tr)"
    and "resolve_signal_data a env signal_data = Inr sd"
  shows "prefix tr gate_order
    \<and> (\<forall>gs reason.
          first_failing (guard_pipeline a env sd ov is_auto) [] = Some (gs, reason)
          \<and> (last gs = SpreadGate \<longrightarrow> symbol_info_known a env sd) \<longrightarrow>
            res = (False, Message reason) \<and> tr = gs \<and> Sizing \<notin> set tr \<and> Submit \<notin> set tr
            \<and> map signal_key (df_signals a') = map signal_key (df_signals a)
            \<and> (keyed sd \<and> (signal_data \<noteq> None
                   \<or> last gs \<in> {ValidityGate, IntervalGate, SpreadGate}) \<longrightarrow>
                 (\<forall>row \<in> set (df_signals a'). signal_key row = signal_key sd \<longrightarrow>
                    sig_notes row = reason \<and> \<not> sig_executed row)))
    \<and> (first_failing (guard_pipeline a env sd ov is_auto) [] = None
          \<and> symbol_info_known a env sd \<longrightarrow>
        prefix [TimeGate, NewsGate, ConnectionGate, ValidityGate, IntervalGate, SpreadGate, Sizing] tr)
    \<and> (Sizing \<in> set tr \<longrightarrow> first_failing (guard_pipeline a env sd ov is_auto) [] = None)
    \<and> (Submit \<in> set tr \<longrightarrow> Sizing \<in> set tr)"
proof (intro conjI allI impI)
  show "prefix tr gate_order"
    by (rule execute_trace_prefix [OF assms(1)])
  then show "Sizing \<in> set tr" if "Submit \<in> set tr"
    using that by (rule prefix_gate_order_submit)
  show "first_failing (guard_pipeline a env sd ov is_auto) [] = None" if "Sizing \<in> set tr"
    using that by (rule sizing_needs_pass [OF assms])
  show "prefix [TimeGate, NewsGate, ConnectionGate, ValidityGate, IntervalGate, SpreadGate, Sizing] tr"
    if "first_failing (guard_pipeline a env sd ov is_auto) [] = None \<and> symbol_info_known a env sd"
    using that guard_passed [OF assms] by blast
next
  fix gs reason
  assume h: "first_failing (guard_pipeline a env sd ov is_auto) [] = Some (gs, reason)
             \<and> (last gs = SpreadGate \<longrightarrow> symbol_info_known a env sd)"
  then have ff: "first_failing (guard_pipeline a env sd ov is_auto) [] = Some (gs, reason)"
    and kn: "last gs = SpreadGate \<longrightarrow> symbol_info_known a env sd" by simp_all
  note b = guard_blocked [OF assms ff kn]
  from b show "res = (False, Message reason)" by blast
  from b show "tr = gs" by blast
  from b show "Sizing \<notin> set tr" by blast
  from b show "Submit \<notin> set tr" by blast
  from b show "map signal_key (df_signals a') = map signal_key (df_signals a)" by blast
  assume "keyed sd \<and> (signal_data \<noteq> None \<or> last gs \<in> {ValidityGate, IntervalGate, SpreadGate})"
  with b show "\<forall>row \<in> set (df_signals a'). signal_key row = signal_key sd \<longrightarrow>
                 sig_notes row = reason \<and> \<not> sig_executed row"
    by blast
qed

text \<open>
  C1 (as stated): a blocking gate should write its reason into the note of the matching
  signal on every attempt, manual or automatic. A manual attempt is called without a
  signal and reads the selected row of the table only after the first three gates; when
  the time gate blocks it, the call returns the reason and the selected signal keeps
  its note.
\<close>

theorem C1_manual_note_counterexample:
  "resolve_signal_data blocked_app calm_env None = Inr example_signal
   \<and> fst (execute_trade_from_signal_data blocked_app calm_env None (Some ''buy'') False)
       = (False, Message ''ManualTrade: Blocked by time filter'')
   \<and> df_signals (fst (snd (execute_trade_from_signal_data blocked_app calm_env None (Some ''buy'') False)))
       = [example_signal]
   \<and> sig_notes example_signal \<noteq> ''ManualTrade: Blocked by time filter''"
proof -
  have a: "resolve_signal_data blocked_app calm_env None = Inr example_signal"
    by code_simp
  have b: "fst (execute_trade_from_signal_data blocked_app calm_env None (Some ''buy'') False)
       = (False, Message ''ManualTrade: Blocked by time filter'')"
    by code_simp
  have c: "df_signals (fst (snd (execute_trade_from_signal_data blocked_app calm_env None (Some ''buy'') False)))
       = [example_signal]"
    by code_simp
  have d: "sig_notes example_signal \<noteq> ''ManualTrade: Blocked by time filter''"
    by (simp add: example_signal_def)
  from a b c d show ?thesis by blast
qed

theorem C1_guard_pipeline_witness:
  "fst (execute_trade_from_signal_data blocked_app calm_env (Some example_signal) None True)
       = (False, Message ''AutoTrade: Blocked by time filter'')
   \<and> snd (snd (execute_trade_from_signal_data blocked_app calm_env (Some example_signal) None True))
       = [TimeGate]
   \<and> map sig_notes (df_signals (fst (snd (execute_trade_from_signal_data blocked_app calm_env
                                           (Some example_signal) None True))))
       = [''AutoTrade: Blocked by time filter'']
   \<and> prefix [TimeGate, NewsGate, ConnectionGate, ValidityGate, IntervalGate, SpreadGate, Sizing]
        (snd (snd (execute_trade_from_signal_data open_app calm_env (Some example_signal) None True)))"
proof -
  obtain res a' tr where
    run: "execute_trade_from_signal_data blocked_app calm_env (Some example_signal) None True = (res, a', tr)"
    by (cases "execute_trade_from_signal_data blocked_app calm_env (Some example_signal) None True") auto
  have sd: "resolve_signal_data a env (Some example_signal) = Inr example_signal" for a env
    by (simp add: resolve_signal_data_def)
  have ff: "first_failing (guard_pipeline blocked_app calm_env example_signal None True) []
              = Some ([TimeGate], ''AutoTrade: Blocked by time filter'')"
    by code_simp
  have k: "keyed example_signal"
    by code_simp
  from C1_guard_pipeline [OF run sd] ff k
  have blocked: "res = (False, Message ''AutoTrade: Blocked by time filter'') \<and> tr = [TimeGate]
    \<and> map signal_key (df_signals a') = map signal_key (df_signals blocked_app)
    \<and> (\<forall>row \<in> set (df_signals a'). signal_key row = signal_key example_signal \<longrightarrow>
          sig_notes row = ''AutoTrade: Blocked by time filter'' \<and> \<not> sig_executed row)"
    by simp
  have "map signal_key (df_signals blocked_app) = [signal_key example_signal]"
    by (simp add: blocked_app_def example_app_def)
  with blocked obtain row where "df_signals a' = [row]" "signal_key row = signal_key example_signal"
    by (cases "df_signals a'") auto
  with blocked have noted: "map sig_notes (df_signals a') = [''AutoTrade: Blocked by time filter'']"
    by simp
  obtain res2 a2 tr2 where
    run2: "execute_trade_from_signal_data open_app calm_env (Some example_signal) None True = (res2, a2, tr2)"
    by (cases "execute_trade_from_signal_data open_app calm_env (Some example_signal) None True") auto
  have ff2: "first_failing (guard_pipeline open_app calm_env example_signal None True) [] = None"
    by code_simp
  have kn: "symbol_info_known open_app calm_env example_signal"
    by code_simp
  from C1_guard_pipeline [OF run2 sd] ff2 kn
  have passed: "prefix [TimeGate, NewsGate, ConnectionGate, ValidityGate, IntervalGate, SpreadGate, Sizing] tr2"
    by simp
  from blocked noted passed show ?thesis
    by (simp add: run run2)
qed

lemma process_result_ltt:
  "process_result a env is_auto sd symbol sent = (res, a') \<Longrightarrow>
     (fst res \<longrightarrow> last_trade_time a' = (last_trade_time a)(symbol \<mapsto> now_utc_executed env))
     \<and> (\<not> fst res \<longrightarrow> last_trade_time a' = last_trade_time a)"
  by (drule process_result_cases) auto

lemma submit_order_ltt:
  "submit_order a env mgr is_auto sd symbol ot lot tr = (res, a', tr') \<Longrightarrow>
     (fst res \<longrightarrow> last_trade_time a' = (last_trade_time a)(symbol \<mapsto> now_utc_executed env))
     \<and> (\<not> fst res \<longrightarrow> last_trade_time a' = last_trade_time a)"
  by (auto simp: submit_order_def Let_def split: option.splits if_splits prod.splits
           dest!: process_result_ltt)

lemma execute_after_interval_ltt:
  "execute_after_interval a env mgr is_auto sd symbol ot tr = (res, a', tr') \<Longrightarrow>
     (fst res \<longrightarrow> last_trade_time a' = (last_trade_time a)(symbol \<mapsto> now_utc_executed env))
     \<and> (\<not> fst res \<longrightarrow> last_trade_time a' = last_trade_time a)"
  by (auto simp: execute_after_interval_def Let_def split: option.splits if_splits
           dest!: submit_order_ltt)

lemma execute_resolved_signal_ltt:
  "execute_resolved_signal a env mgr is_auto sd ov tr = (res, a', tr') \<Longrightarrow>
     (fst res \<longrightarrow> last_trade_time a'
        = (last_trade_time a)(symbol_text (sig_symbol sd) \<mapsto> now_utc_executed env))
     \<and> (\<not> fst res \<longrightarrow> last_trade_time a' = last_trade_time a)"
  by (auto simp: execute_resolved_signal_def Let_def split: option.splits if_splits
           dest!: execute_after_interval_ltt)

lemma execute_ltt:
  "execute_trade_from_signal_data a env signal_data ov is_auto = (res, a', tr) \<Longrightarrow>
     (fst res \<longrightarrow> (\<exists>sd. resolve_signal_data a env signal_data = Inr sd
        \<and> last_trade_time a'
            = (last_trade_time a)(symbol_text (sig_symbol sd) \<mapsto> now_utc_executed env)))
     \<and> (\<not> fst res \<longrightarrow> last_trade_time a' = last_trade_time a)"
  by (auto simp: execute_trade_from_signal_data_def Let_def split: option.splits if_splits sum.splits
           dest!: execute_resolved_signal_ltt)


lemma min_interval_wait_known:
  assumes "last_trade_time a S = Some last_time"
    and "0 < min_trade_interval_minutes (app_data_manager a) S"
  shows "min_interval_wait a env S =
           (if now_utc_interval env - last_time < minutes (min_trade_interval_minutes (app_data_manager a) S)
            then Some ((minutes (min_trade_interval_minutes (app_data_manager a) S)
                          - (now_utc_interval env - last_time)) div 1000000)
            else None)"
  using assms by (simp add: min_interval_wait_def Let_def)

lemma interval_blocked_run:
  assumes run: "execute_trade_from_signal_data a env signal_data ov is_auto = (res, a', tr)"
    and sd: "resolve_signal_data a env signal_data = Inr sd"
    and earlier: "time_gate_verdict a env is_auto = None" "news_gate_verdict a is_auto = None"
      "connection_gate_verdict a is_auto = None" "validity_gate_verdict sd ov is_auto = None"
    and iv: "interval_gate_verdict a env sd is_auto = Some r"
  shows "res = (False, Message r)
         \<and> tr = [TimeGate, NewsGate, ConnectionGate, ValidityGate, IntervalGate]"
proof -
  have ff: "first_failing (guard_pipeline a env sd ov is_auto) []
              = Some ([TimeGate, NewsGate, ConnectionGate, ValidityGate, IntervalGate], r)"
    using earlier iv by (simp add: first_failing_guard_pipeline)
  from guard_blocked [OF run sd ff] show ?thesis by simp
qed

lemma interval_passed_run:
  assumes run: "execute_trade_from_signal_data a env signal_data ov is_auto = (res, a', tr)"
    and sd: "resolve_signal_data a env signal_data = Inr sd"
    and earlier: "time_gate_verdict a env is_auto = None" "news_gate_verdict a is_auto = None"
      "connection_gate_verdict a is_auto = None" "validity_gate_verdict sd ov is_auto = None"
    and iv: "interval_gate_verdict a env sd is_auto = None"
  shows "prefix [TimeGate, NewsGate, ConnectionGate, ValidityGate, IntervalGate] tr
         \<and> (spread_gate_verdict a env sd is_auto = None \<and> symbol_info_known a env sd \<longrightarrow>
              Sizing \<in> set tr)"
proof -
  from entry_and_signal_gates_passed [OF sd earlier iv] run
  obtain mgr where
    "execute_after_interval a env mgr is_auto sd (symbol_text (sig_symbol sd))
       (final_order_type_str sd ov)
       [TimeGate, NewsGate, ConnectionGate, ValidityGate, IntervalGate] = (res, a', tr)"
    by auto
  from execute_after_interval_trace [OF this]
  have p: "prefix [TimeGate, NewsGate, ConnectionGate, ValidityGate, IntervalGate] tr"
    by auto
  have "Sizing \<in> set tr"
    if "spread_gate_verdict a env sd is_auto = None" and kn: "symbol_info_known a env sd"
  proof -
    from earlier iv that(1)
    have "first_failing (guard_pipeline a env sd ov is_auto) [] = None"
      by (simp add: first_failing_guard_pipeline)
    from guard_passed [OF run sd this kn] show ?thesis
      by (auto simp: prefix_def)
  qed
  with p show ?thesis by blast
qed

text \<open>
  C5: the map of last trade times changes only when an attempt succeeds, and then
  only at the symbol of the signal, which gets the time of the success; a blocked or
  failed attempt leaves it as it was. For a signal on a symbol \<open>S\<close> that passes the
  earlier gates, with a recorded trade on \<open>S\<close> and a configured interval above zero:
  less than the interval after the recorded trade the attempt is blocked at the
  interval gate and the reason reports the remaining whole seconds as minutes and
  seconds; once the interval has elapsed the interval gate passes, and the signal is
  sized when the spread gate passes too and the venue knows the symbol.
\<close>

theorem C5_reentry_interval:
  assumes "execute_trade_from_signal_data a env signal_data ov is_auto = (res, a', tr)"
  shows "(fst res \<longrightarrow> (\<exists>sd. resolve_signal_data a env signal_data = Inr sd
            \<and> last_trade_time a'
                = (last_trade_time a)(symbol_text (sig_symbol sd) \<mapsto> now_utc_executed env)))
    \<and> (\<not> fst res \<longrightarrow> last_trade_time a' = last_trade_time a)
    \<and> (\<forall>sd S last_time.
          resolve_signal_data a env signal_data = Inr sd \<and> sig_symbol sd = Some S
          \<and> time_gate_verdict a env is_auto = None \<and> news_gate_verdict a is_auto = None
          \<and> connection_gate_verdict a is_auto = None \<and> validity_gate_verdict sd ov is_auto = None
          \<and> last_trade_time a S = Some last_time
          \<and> 0 < min_trade_interval_minutes (app_data_manager a) S \<longrightarrow>
            (now_utc_interval env - last_time
               < minutes (min_trade_interval_minutes (app_data_manager a) S) \<longrightarrow>
               res = (False, Message (min_interval_note is_auto (app_data_manager a) S
                        ((minutes (min_trade_interval_minutes (app_data_manager a) S)
                            - (now_utc_interval env - last_time)) div 1000000)))
               \<and> tr = [TimeGate, NewsGate, ConnectionGate, ValidityGate, IntervalGate]
               \<and> last_trade_time a' = last_trade_time a)
            \<and> (minutes (min_trade_interval_minutes (app_data_manager a) S)
                 \<le> now_utc_interval env - last_time \<longrightarrow>
               interval_gate_verdict a env sd is_auto = None
               \<and> prefix [TimeGate, NewsGate, ConnectionGate, ValidityGate, IntervalGate] tr
               \<and> (spread_gate_verdict a env sd is_auto = None \<and> symbol_info_known a env sd \<longrightarrow>
                    Sizing \<in> set tr)))"
proof (intro conjI allI impI)
  note ltt = execute_ltt [OF assms]
  from ltt show "\<exists>sd. resolve_signal_data a env signal_data = Inr sd
            \<and> last_trade_time a'
                = (last_trade_time a)(symbol_text (sig_symbol sd) \<mapsto> now_utc_executed env)"
    if "fst res" using that by blast
  from ltt show "last_trade_time a' = last_trade_time a" if "\<not> fst res"
    using that by blast
next
  fix sd S last_time
  assume h: "resolve_signal_data a env signal_data = Inr sd \<and> sig_symbol sd = Some S
          \<and> time_gate_verdict a env is_auto = None \<and> news_gate_verdict a is_auto = None
          \<and> connection_gate_verdict a is_auto = None \<and> validity_gate_verdict sd ov is_auto = None
          \<and> last_trade_time a S = Some last_time
          \<and> 0 < min_trade_interval_minutes (app_data_manager a) S"
  then have sd: "resolve_signal_data a env signal_data = Inr sd"
    and S: "symbol_text (sig_symbol sd) = S"
    and earlier: "time_gate_verdict a env is_auto = None" "news_gate_verdict a is_auto = None"
      "connection_gate_verdict a is_auto = None" "validity_gate_verdict sd ov is_auto = None"
    and last: "last_trade_time a S = Some last_time"
    and m: "0 < min_trade_interval_minutes (app_data_manager a) S"
    by (simp_all add: symbol_text_def)
  note w = min_interval_wait_known [OF last m, of env]
  {
    assume short: "now_utc_interval env - last_time
               < minutes (min_trade_interval_minutes (app_data_manager a) S)"
    with w S have iv: "interval_gate_verdict a env sd is_auto
        = Some (min_interval_note is_auto (app_data_manager a) S
                  ((minutes (min_trade_interval_minutes (app_data_manager a) S)
                      - (now_utc_interval env - last_time)) div 1000000))"
      by (simp add: interval_gate_verdict_def)
    note b = interval_blocked_run [OF assms sd earlier iv]
    from b show "res = (False, Message (min_interval_note is_auto (app_data_manager a) S
                        ((minutes (min_trade_interval_minutes (app_data_manager a) S)
                            - (now_utc_interval env - last_time)) div 1000000)))"
      by blast
    from b show "tr = [TimeGate, NewsGate, ConnectionGate, ValidityGate, IntervalGate]"
      by blast
    from b execute_ltt [OF assms] show "last_trade_time a' = last_trade_time a"
      by simp
  }
  {
    assume long: "minutes (min_trade_interval_minutes (app_data_manager a) S)
                 \<le> now_utc_interval env - last_time"
    with w S have iv: "interval_gate_verdict a env sd is_auto = None"
      by (simp add: interval_gate_verdict_def)
    note p = interval_passed_run [OF assms sd earlier iv]
    from iv show "interval_gate_verdict a env sd is_auto = None" .
    from p show "prefix [TimeGate, NewsGate, ConnectionGate, ValidityGate, IntervalGate] tr"
      by blast
    from p show "Sizing \<in> set tr"
      if "spread_gate_verdict a env sd is_auto = None \<and> symbol_info_known a env sd"
      using that by blast
  }
qed


theorem C5_reentry_interval_witness:
  "fst (fst (execute_trade_from_signal_data open_app calm_env (Some example_signal) None True))
   \<and> last_trade_time (fst (snd (execute_trade_from_signal_data open_app calm_env
                                   (Some example_signal) None True))) ''XAUUSD''
       = Some 1700000003000000
   \<and> fst (execute_trade_from_signal_data traded_app (later_env 300) (Some example_signal) None True)
       = (False, Message ''AutoTrade: Min interval for XAUUSD (15m) not met. Wait 10m 0s.'')
   \<and> last_trade_time (fst (snd (execute_trade_from_signal_data traded_app (later_env 300)
                                   (Some example_signal) None True)))
       = last_trade_time traded_app
   \<and> Sizing \<in> set (snd (snd (execute_trade_from_signal_data traded_app (later_env 900)
                                  (Some example_signal) None True)))"
proof -
  have sd: "resolve_signal_data a env (Some example_signal) = Inr example_signal" for a env
    by (simp add: resolve_signal_data_def)
  have S: "sig_symbol example_signal = Some ''XAUUSD''"
    by (simp add: example_signal_def)
  have st: "symbol_text (sig_symbol example_signal) = ''XAUUSD''"
    by (simp add: S symbol_text_def)
  \<comment> \<open>a first attempt succeeds and records the time of the trade\<close>
  obtain res1 a1 tr1 where
    run1: "execute_trade_from_signal_data open_app calm_env (Some example_signal) None True = (res1, a1, tr1)"
    by (cases "execute_trade_from_signal_data open_app calm_env (Some example_signal) None True") auto
  have ok1: "fst (fst (execute_trade_from_signal_data open_app calm_env (Some example_signal) None True))"
    by code_simp
  with run1 have r1: "fst res1" by simp
  have now1: "now_utc_executed calm_env = 1700000003000000"
    by code_simp
  from C5_reentry_interval [OF run1] r1 sd [of open_app calm_env] st now1
  have first: "last_trade_time a1 ''XAUUSD'' = Some 1700000003000000"
    by auto
  \<comment> \<open>five minutes later the gate blocks, fifteen minutes later it passes\<close>
  have last: "last_trade_time traded_app ''XAUUSD'' = Some 1700000003000000"
    by (simp add: traded_app_def)
  have m: "min_trade_interval_minutes (app_data_manager traded_app) ''XAUUSD'' = 15"
    by code_simp
  have mins: "minutes 15 = 900000000"
    by (simp add: minutes_def)
  have now_l: "now_utc_interval (later_env s) = 1700000003000000 + s * 1000000" for s
    by (simp add: later_env_def example_env_def)
  have v: "time_gate_verdict traded_app (later_env s) True = None"
    "news_gate_verdict traded_app True = None"
    "connection_gate_verdict traded_app True = None"
    "validity_gate_verdict example_signal None True = None" for s
    by (code_simp, code_simp, code_simp, code_simp)
  obtain res2 a2 tr2 where
    run2: "execute_trade_from_signal_data traded_app (later_env 300) (Some example_signal) None True
             = (res2, a2, tr2)"
    by (cases "execute_trade_from_signal_data traded_app (later_env 300) (Some example_signal) None True") auto
  have note2: "min_interval_note True (app_data_manager traded_app) ''XAUUSD'' 600
                 = ''AutoTrade: Min interval for XAUUSD (15m) not met. Wait 10m 0s.''"
    by code_simp
  from C5_reentry_interval [OF run2] sd [of traded_app "later_env 300"] S v last m
  have "now_utc_interval (later_env 300) - 1700000003000000 < minutes 15 \<longrightarrow>
          res2 = (False, Message (min_interval_note True (app_data_manager traded_app) ''XAUUSD''
                    ((minutes 15 - (now_utc_interval (later_env 300) - 1700000003000000)) div 1000000)))
          \<and> last_trade_time a2 = last_trade_time traded_app"
    by simp
  then have second: "res2 = (False, Message ''AutoTrade: Min interval for XAUUSD (15m) not met. Wait 10m 0s.'')
      \<and> last_trade_time a2 = last_trade_time traded_app"
    by (simp add: now_l mins note2)
  obtain res3 a3 tr3 where
    run3: "execute_trade_from_signal_data traded_app (later_env 900) (Some example_signal) None True
             = (res3, a3, tr3)"
    by (cases "execute_trade_from_signal_data traded_app (later_env 900) (Some example_signal) None True") auto
  have sv: "spread_gate_verdict traded_app (later_env 900) example_signal True = None"
    by code_simp
  have kn: "symbol_info_known traded_app (later_env 900) example_signal"
    by code_simp
  from C5_reentry_interval [OF run3] sd [of traded_app "later_env 900"] S v last m
  have "minutes 15 \<le> now_utc_interval (later_env 900) - 1700000003000000 \<longrightarrow>
          (spread_gate_verdict traded_app (later_env 900) example_signal True = None
             \<and> symbol_info_known traded_app (later_env 900) example_signal \<longrightarrow> Sizing \<in> set tr3)"
    by simp
  with sv kn have third: "Sizing \<in> set tr3"
    by (simp add: now_l mins)
  from ok1 first second third show ?thesis
    by (simp add: run1 run2 run3)
qed

lemma send_order_success:
  "fst (fst (send_order mgr v fs symbol ot volume price)) \<Longrightarrow>
     \<exists>r. order_send v = Some r \<and> fst (send_order mgr v fs symbol ot volume price) = (True, Result r)
          \<and> (retcode r = TRADE_RETCODE_DONE \<or> retcode r = TRADE_RETCODE_PLACED)"
  by (auto simp: send_order_def Let_def split: option.splits if_splits)

lemma send_order_preflight:
  assumes "preflight_ok mgr v symbol ot price"
  shows "fst (send_order mgr v fs symbol ot volume price) =
         (case order_send v of
            None \<Rightarrow> (False, Message (''Order send failed: ''
                         @ get_retcode_description (fst (last_error v))
                         @ '' ('' @ snd (last_error v) @ '')''))
          | Some r \<Rightarrow>
              if retcode r = TRADE_RETCODE_DONE \<or> retcode r = TRADE_RETCODE_PLACED
              then (True, Result r)
              else (False, Message (''Order send failed: '' @ result_comment r
                                      @ '' (Code: '' @ str_int (retcode r) @ '' - ''
                                      @ get_retcode_description (retcode r) @ '')'')))"
  using assms
  by (auto simp: preflight_ok_def send_order_def Let_def split: option.splits if_splits)

lemma process_result_success:
  assumes "process_result a env is_auto sd symbol sent = (res, a')" and "fst res"
  shows "\<exists>r. sent = (True, Result r) \<and> res = (True, Result r) \<and> 0 < order r
           \<and> last_trade_time a' = (last_trade_time a)(symbol \<mapsto> now_utc_executed env)
           \<and> saved_signals a' = df_signals a'
           \<and> (keyed sd \<longrightarrow>
                (\<forall>row \<in> set (df_signals a'). signal_key row = signal_key sd \<longrightarrow>
                   sig_executed row
                   \<and> sig_notes row = source_log_prefix is_auto @ '': Executed. Order ID: ''
                                       @ str_int (order r)))"
proof -
  from process_result_cases [OF assms(1)] assms(2)
  obtain r where r: "sent = (True, Result r)" "0 < order r" "res = (True, Result r)"
    "last_trade_time a' = (last_trade_time a)(symbol \<mapsto> now_utc_executed env)"
    and a': "a' = (update_if_keyed (a\<lparr>last_trade_time := (last_trade_time a)(symbol \<mapsto> now_utc_executed env)\<rparr>) sd True
                    (source_log_prefix is_auto @ '': Executed. Order ID: '' @ str_int (order r)))
                  \<lparr>saved_signals := df_signals (update_if_keyed (a\<lparr>last_trade_time := (last_trade_time a)(symbol \<mapsto> now_utc_executed env)\<rparr>) sd True
                    (source_log_prefix is_auto @ '': Executed. Order ID: '' @ str_int (order r)))\<rparr>"
    by auto
  from a' have "saved_signals a' = df_signals a'" by simp
  moreover from a' have
    "keyed sd \<longrightarrow>
       (\<forall>row \<in> set (df_signals a'). signal_key row = signal_key sd \<longrightarrow>
          sig_executed row
          \<and> sig_notes row = source_log_prefix is_auto @ '': Executed. Order ID: '' @ str_int (order r))"
    by (auto dest: update_if_keyed_marks)
  ultimately show ?thesis using r by blast
qed

lemma process_result_no_order:
  assumes "order r \<le> 0"
  shows "fst (fst (process_result a env is_auto sd symbol (True, Result r))) = False
         \<and> last_trade_time (snd (process_result a env is_auto sd symbol (True, Result r)))
             = last_trade_time a
         \<and> saved_signals (snd (process_result a env is_auto sd symbol (True, Result r)))
             = saved_signals a
         \<and> (\<forall>row \<in> set (df_signals (snd (process_result a env is_auto sd symbol (True, Result r)))).
               keyed sd \<and> signal_key row = signal_key sd \<longrightarrow> \<not> sig_executed row)"
  using assms
  by (auto simp: process_result_def Let_def update_if_keyed_def dest: update_if_keyed_marks)


lemma submit_order_success:
  assumes run: "submit_order a env mgr is_auto sd symbol ot lot tr = (res, a', tr')" and ok: "fst res"
  shows "\<exists>r. res = (True, Result r) \<and> order_send (venue env) = Some r
           \<and> (retcode r = TRADE_RETCODE_DONE \<or> retcode r = TRADE_RETCODE_PLACED) \<and> 0 < order r
           \<and> last_trade_time a' = (last_trade_time a)(symbol \<mapsto> now_utc_executed env)
           \<and> saved_signals a' = df_signals a'
           \<and> (keyed sd \<longrightarrow>
                (\<forall>row \<in> set (df_signals a'). signal_key row = signal_key sd \<longrightarrow>
                   sig_executed row
                   \<and> sig_notes row = source_log_prefix is_auto @ '': Executed. Order ID: ''
                                       @ str_int (order r)))"
proof -
  obtain sent mgr' where so: "send_order mgr (venue env) (float_str env) symbol ot lot None = (sent, mgr')"
    by (cases "send_order mgr (venue env) (float_str env) symbol ot lot None") auto
  from run ok so have pr: "process_result (a\<lparr>app_mt5_manager := Some mgr'\<rparr>) env is_auto sd symbol sent
                             = (res, a')"
    by (auto simp: submit_order_def Let_def split: option.splits if_splits prod.splits)
  from process_result_success [OF pr ok] obtain r where
    r: "sent = (True, Result r)" "res = (True, Result r)" "0 < order r"
      "last_trade_time a' = (last_trade_time a)(symbol \<mapsto> now_utc_executed env)"
      "saved_signals a' = df_signals a'"
      "keyed sd \<longrightarrow>
         (\<forall>row \<in> set (df_signals a'). signal_key row = signal_key sd \<longrightarrow>
            sig_executed row
            \<and> sig_notes row = source_log_prefix is_auto @ '': Executed. Order ID: ''
                                @ str_int (order r))"
    by auto
  from so r(1) have "fst (fst (send_order mgr (venue env) (float_str env) symbol ot lot None))"
    by simp
  from send_order_success [OF this] so r(1)
  have "order_send (venue env) = Some r
        \<and> (retcode r = TRADE_RETCODE_DONE \<or> retcode r = TRADE_RETCODE_PLACED)"
    by auto
  with r show ?thesis by blast
qed

lemma execute_after_interval_success:
  assumes "execute_after_interval a env mgr is_auto sd symbol ot tr = (res, a', tr')" and "fst res"
  shows "\<exists>r. res = (True, Result r) \<and> order_send (venue env) = Some r
           \<and> (retcode r = TRADE_RETCODE_DONE \<or> retcode r = TRADE_RETCODE_PLACED) \<and> 0 < order r
           \<and> last_trade_time a' = (last_trade_time a)(symbol \<mapsto> now_utc_executed env)
           \<and> saved_signals a' = df_signals a'
           \<and> (keyed sd \<longrightarrow>
                (\<forall>row \<in> set (df_signals a'). signal_key row = signal_key sd \<longrightarrow>
                   sig_executed row
                   \<and> sig_notes row = source_log_prefix is_auto @ '': Executed. Order ID: ''
                                       @ str_int (order r)))"
proof -
  from assms obtain lot tr0 where
    "submit_order a env mgr is_auto sd symbol ot lot tr0 = (res, a', tr')"
    by (auto simp: execute_after_interval_def Let_def split: option.splits if_splits)
  from submit_order_success [OF this assms(2)] show ?thesis .
qed

lemma execute_resolved_signal_success:
  assumes "execute_resolved_signal a env mgr is_auto sd ov tr = (res, a', tr')" and "fst res"
  shows "\<exists>r. res = (True, Result r) \<and> order_send (venue env) = Some r
           \<and> (retcode r = TRADE_RETCODE_DONE \<or> retcode r = TRADE_RETCODE_PLACED) \<and> 0 < order r
           \<and> last_trade_time a'
               = (last_trade_time a)(symbol_text (sig_symbol sd) \<mapsto> now_utc_executed env)
           \<and> saved_signals a' = df_signals a'
           \<and> (keyed sd \<longrightarrow>
                (\<forall>row \<in> set (df_signals a'). signal_key row = signal_key sd \<longrightarrow>
                   sig_executed row
                   \<and> sig_notes row = source_log_prefix is_auto @ '': Executed. Order ID: ''
                                       @ str_int (order r)))"
proof -
  from assms obtain ot tr0 where
    "execute_after_interval a env mgr is_auto sd (symbol_text (sig_symbol sd)) ot tr0 = (res, a', tr')"
    by (auto simp: execute_resolved_signal_def Let_def split: option.splits if_splits)
  from execute_after_interval_success [OF this assms(2)] show ?thesis .
qed

lemma execute_success:
  assumes "execute_trade_from_signal_data a env signal_data ov is_auto = (res, a', tr)" and "fst res"
  shows "\<exists>sd r. resolve_signal_data a env signal_data = Inr sd
           \<and> res = (True, Result r) \<and> order_send (venue env) = Some r
           \<and> (retcode r = TRADE_RETCODE_DONE \<or> retcode r = TRADE_RETCODE_PLACED) \<and> 0 < order r
           \<and> last_trade_time a'
               = (last_trade_time a)(symbol_text (sig_symbol sd) \<mapsto> now_utc_executed env)
           \<and> saved_signals a' = df_signals a'
           \<and> (keyed sd \<longrightarrow>
                (\<forall>row \<in> set (df_signals a'). signal_key row = signal_key sd \<longrightarrow>
                   sig_executed row
                   \<and> sig_notes row = source_log_prefix is_auto @ '': Executed. Order ID: ''
                                       @ str_int (order r)))"
proof -
  from assms obtain mgr sd where sd: "resolve_signal_data a env signal_data = Inr sd"
    and "execute_resolved_signal a env mgr is_auto sd ov [TimeGate, NewsGate, ConnectionGate]
           = (res, a', tr)"
    by (auto simp: execute_trade_from_signal_data_def Let_def split: option.splits if_splits sum.splits)
  from execute_resolved_signal_success [OF this(2) assms(2)] sd show ?thesis by blast
qed


text \<open>
  C8 (as stated): a result code "done" or "placed" should be a success that records
  the trade time of the symbol and marks the signal as executed. The venue answers
  "done" with order number 0: \<^verbatim>\<open>send_order\<close> reports success, and the attempt
  then returns \<open>False\<close>, records no trade time and leaves the signal not executed,
  because step 13 also requires a positive order number.
\<close>

theorem C8_done_without_order_counterexample:
  "retcode (accepted 0) = TRADE_RETCODE_DONE
   \<and> order_send (venue zero_order_env) = Some (accepted 0)
   \<and> fst (send_order mgr_on (venue zero_order_env) (float_str zero_order_env) ''XAUUSD'' ''buy'' 100 None)
       = (True, Result (accepted 0))
   \<and> Submit \<in> set (snd (snd (execute_trade_from_signal_data open_app zero_order_env
                                  (Some example_signal) None True)))
   \<and> fst (fst (execute_trade_from_signal_data open_app zero_order_env
                   (Some example_signal) None True)) = False
   \<and> last_trade_time (fst (snd (execute_trade_from_signal_data open_app zero_order_env
                                   (Some example_signal) None True))) ''XAUUSD'' = None
   \<and> map sig_executed (df_signals (fst (snd (execute_trade_from_signal_data open_app zero_order_env
                                                (Some example_signal) None True)))) = [False]"
proof -
  have a: "retcode (accepted 0) = TRADE_RETCODE_DONE" by code_simp
  have b: "order_send (venue zero_order_env) = Some (accepted 0)" by code_simp
  have c: "fst (send_order mgr_on (venue zero_order_env) (float_str zero_order_env) ''XAUUSD'' ''buy'' 100 None)
       = (True, Result (accepted 0))" by code_simp
  have d: "Submit \<in> set (snd (snd (execute_trade_from_signal_data open_app zero_order_env
                                  (Some example_signal) None True)))" by code_simp
  have e: "fst (fst (execute_trade_from_signal_data open_app zero_order_env
                   (Some example_signal) None True)) = False" by code_simp
  have f: "last_trade_time (fst (snd (execute_trade_from_signal_data open_app zero_order_env
                                   (Some example_signal) None True))) ''XAUUSD'' = None" by code_simp
  have g: "map sig_executed (df_signals (fst (snd (execute_trade_from_signal_data open_app zero_order_env
                                                (Some example_signal) None True)))) = [False]" by code_simp
  from a b c d e f g show ?thesis by blast
qed

lemma lower_buy_sell: "lower ''buy'' = ''buy''" "lower ''sell'' = ''sell''"
  by (simp_all add: lower_def lower_char_def)

lemma process_result_accepts:
  assumes "0 < order r"
  shows "fst (process_result a env is_auto sd symbol (True, Result r)) = (True, Result r)
         \<and> last_trade_time (snd (process_result a env is_auto sd symbol (True, Result r)))
             = (last_trade_time a)(symbol \<mapsto> now_utc_executed env)
         \<and> saved_signals (snd (process_result a env is_auto sd symbol (True, Result r)))
             = df_signals (snd (process_result a env is_auto sd symbol (True, Result r)))
         \<and> (keyed sd \<longrightarrow>
              (\<forall>row \<in> set (df_signals (snd (process_result a env is_auto sd symbol (True, Result r)))).
                 signal_key row = signal_key sd \<longrightarrow>
                   sig_executed row
                   \<and> sig_notes row = source_log_prefix is_auto @ '': Executed. Order ID: ''
                                       @ str_int (order r)))"
proof -
  obtain res a' where pr: "process_result a env is_auto sd symbol (True, Result r) = (res, a')"
    by (cases "process_result a env is_auto sd symbol (True, Result r)") auto
  with assms have "fst res"
    by (auto simp: process_result_def Let_def)
  from process_result_success [OF pr this] show ?thesis
    by (auto simp: pr)
qed

lemma submit_order_accepts:
  assumes pf: "preflight_ok mgr (venue env) symbol ot None"
    and ot: "ot = ''buy'' \<or> ot = ''sell''"
    and conf: "is_auto \<or> confirm_yes env"
    and os: "order_send (venue env) = Some r"
    and rc: "retcode r = TRADE_RETCODE_DONE \<or> retcode r = TRADE_RETCODE_PLACED"
    and ord: "0 < order r"
  shows "\<exists>a'. submit_order a env mgr is_auto sd symbol ot lot tr = ((True, Result r), a', tr @ [Submit])
           \<and> last_trade_time a' = (last_trade_time a)(symbol \<mapsto> now_utc_executed env)
           \<and> saved_signals a' = df_signals a'
           \<and> (keyed sd \<longrightarrow>
                (\<forall>row \<in> set (df_signals a'). signal_key row = signal_key sd \<longrightarrow>
                   sig_executed row
                   \<and> sig_notes row = source_log_prefix is_auto @ '': Executed. Order ID: ''
                                       @ str_int (order r)))"
proof -
  from pf obtain tk where con: "is_connected mgr" and tk: "symbol_info_tick (venue env) symbol = Some tk"
    and price: "0 < (if lower ot = ''buy'' then ask tk else bid tk)"
    by (auto simp: preflight_ok_def split: option.splits)
  from con tk have gt: "get_tick mgr (venue env) symbol = Some tk"
    by (simp add: get_tick_def)
  from ot have low: "lower ot = ot"
    by (auto simp: lower_buy_sell)
  from price low have market: "0 < (if ot = ''buy'' then ask tk else bid tk)"
    by simp
  then have final: "\<not> (case sig_close sd of
                       Some p \<Rightarrow> if p \<le> 0 then (if ot = ''buy'' then ask tk else bid tk) else p
                     | None \<Rightarrow> (if ot = ''buy'' then ask tk else bid tk)) \<le> 0"
    by (auto split: option.splits)
  obtain sent mgr' where so: "send_order mgr (venue env) (float_str env) symbol ot lot None = (sent, mgr')"
    by (cases "send_order mgr (venue env) (float_str env) symbol ot lot None") auto
  from send_order_preflight [OF pf, of "float_str env" lot] os rc so
  have sent: "sent = (True, Result r)"
    by auto
  let ?a = "a\<lparr>app_mt5_manager := Some mgr'\<rparr>"
  obtain res a' where pr: "process_result ?a env is_auto sd symbol (True, Result r) = (res, a')"
    by (cases "process_result ?a env is_auto sd symbol (True, Result r)") auto
  from gt final conf so sent pr
  have run: "submit_order a env mgr is_auto sd symbol ot lot tr = (res, a', tr @ [Submit])"
    by (simp add: submit_order_def Let_def)
  from process_result_accepts [OF ord, of ?a env is_auto sd symbol] pr
  have "res = (True, Result r)"
    and "last_trade_time a' = (last_trade_time a)(symbol \<mapsto> now_utc_executed env)"
    and "saved_signals a' = df_signals a'"
    and "keyed sd \<longrightarrow>
           (\<forall>row \<in> set (df_signals a'). signal_key row = signal_key sd \<longrightarrow>
              sig_executed row
              \<and> sig_notes row = source_log_prefix is_auto @ '': Executed. Order ID: ''
                                  @ str_int (order r))"
    by simp_all
  with run show ?thesis by blast
qed

lemma execute_accepts:
  assumes sd: "resolve_signal_data a env signal_data = Inr sd"
    and ff: "first_failing (guard_pipeline a env sd ov is_auto) [] = None"
    and known: "symbol_info_known a env sd"
    and mgr: "app_mt5_manager a = Some mgr"
    and pf: "preflight_ok mgr (venue env) (symbol_text (sig_symbol sd)) (final_order_type_str sd ov) None"
    and conf: "is_auto \<or> confirm_yes env"
    and os: "order_send (venue env) = Some r"
    and rc: "retcode r = TRADE_RETCODE_DONE \<or> retcode r = TRADE_RETCODE_PLACED"
    and ord: "0 < order r"
  shows "\<exists>a'. execute_trade_from_signal_data a env signal_data ov is_auto
                 = ((True, Result r), a',
                    [TimeGate, NewsGate, ConnectionGate, ValidityGate, IntervalGate, SpreadGate,
                     Sizing, Submit])
           \<and> last_trade_time a'
               = (last_trade_time a)(symbol_text (sig_symbol sd) \<mapsto> now_utc_executed env)
           \<and> saved_signals a' = df_signals a'
           \<and> (keyed sd \<longrightarrow>
                (\<forall>row \<in> set (df_signals a'). signal_key row = signal_key sd \<longrightarrow>
                   sig_executed row
                   \<and> sig_notes row = source_log_prefix is_auto @ '': Executed. Order ID: ''
                                       @ str_int (order r)))"
proof -
  note v = first_failing_None [OF ff]
  from entry_and_signal_gates_passed [OF sd, of is_auto ov] v mgr
  have ex: "execute_trade_from_signal_data a env signal_data ov is_auto
               = execute_after_interval a env mgr is_auto sd (symbol_text (sig_symbol sd))
                   (final_order_type_str sd ov)
                   [TimeGate, NewsGate, ConnectionGate, ValidityGate, IntervalGate]"
    by auto
  from known mgr obtain si where
    si: "get_symbol_info mgr (venue env) (symbol_text (sig_symbol sd)) = Some si"
    by (auto simp: symbol_info_known_def)
  from v have sv: "spread_gate_verdict a env sd is_auto = None" by simp
  from v have ot: "final_order_type_str sd ov = ''buy'' \<or> final_order_type_str sd ov = ''sell''"
    by (auto simp: validity_gate_verdict_def split: if_splits)
  note sub = after_interval_spread_passed [OF mgr si sv, of "final_order_type_str sd ov"
         "[TimeGate, NewsGate, ConnectionGate, ValidityGate, IntervalGate]"]
  from submit_order_accepts [OF pf ot conf os rc ord, of a sd
         "lot_for_order mgr (venue env) (app_data_manager a) (symbol_text (sig_symbol sd)) sd si"
         "[TimeGate, NewsGate, ConnectionGate, ValidityGate, IntervalGate] @ [SpreadGate, Sizing]"]
  show ?thesis
    by (simp add: ex sub)
qed

text \<open>
  C8 (amended): once the request has passed the checks before submission,
  \<^verbatim>\<open>send_order\<close> succeeds exactly when the venue answers with the result code "done"
  or "placed"; an absent answer is a failure whose text carries the last error of the
  venue; any other result code is a failure whose text carries the description of
  the code from the table. An attempt succeeds only with such an answer and a
  positive order number, and then the trade time of the symbol is set to the time of
  the success, the ledger row of the signal is marked executed, and the ledger is
  saved; an answer "done" or "placed" whose order number is not positive makes the
  attempt fail and records no trade time. Conversely, a successful submission whose
  order number is positive is always recorded so: the handling of the result returns
  it as the success and makes the three updates; and an attempt that passes every
  gate, knows the symbol, passes the checks before submission, is automatic or
  confirmed, and is answered "done" or "placed" with a positive order number,
  returns that answer as its success and makes the three updates.
\<close>

theorem C8_order_resolution:
  "(preflight_ok mgr v symbol ot price \<longrightarrow>
      (fst (fst (send_order mgr v fs symbol ot volume price))
         \<longleftrightarrow> (\<exists>r. order_send v = Some r
                   \<and> (retcode r = TRADE_RETCODE_DONE \<or> retcode r = TRADE_RETCODE_PLACED)))
      \<and> (order_send v = None \<longrightarrow>
            fst (send_order mgr v fs symbol ot volume price)
              = (False, Message (''Order send failed: ''
                                   @ get_retcode_description (fst (last_error v))
                                   @ '' ('' @ snd (last_error v) @ '')'')))
      \<and> (\<forall>r. order_send v = Some r \<and> retcode r \<noteq> TRADE_RETCODE_DONE
                \<and> retcode r \<noteq> TRADE_RETCODE_PLACED \<longrightarrow>
            fst (send_order mgr v fs symbol ot volume price)
              = (False, Message (''Order send failed: '' @ result_comment r
                                   @ '' (Code: '' @ str_int (retcode r) @ '' - ''
                                   @ get_retcode_description (retcode r) @ '')''))))
   \<and> (fst (fst (send_order mgr v fs symbol ot volume price)) \<longrightarrow>
        (\<exists>r. order_send v = Some r
              \<and> (retcode r = TRADE_RETCODE_DONE \<or> retcode r = TRADE_RETCODE_PLACED)))
   \<and> (execute_trade_from_signal_data a env signal_data ov is_auto = (res, a', tr) \<and> fst res \<longrightarrow>
        (\<exists>sd r. resolve_signal_data a env signal_data = Inr sd
           \<and> res = (True, Result r) \<and> order_send (venue env) = Some r
           \<and> (retcode r = TRADE_RETCODE_DONE \<or> retcode r = TRADE_RETCODE_PLACED) \<and> 0 < order r
           \<and> last_trade_time a'
               = (last_trade_time a)(symbol_text (sig_symbol sd) \<mapsto> now_utc_executed env)
           \<and> saved_signals a' = df_signals a'
           \<and> (keyed sd \<longrightarrow>
                (\<forall>row \<in> set (df_signals a'). signal_key row = signal_key sd \<longrightarrow>
                   sig_executed row
                   \<and> sig_notes row = source_log_prefix is_auto @ '': Executed. Order ID: ''
                                       @ str_int (order r)))))
   \<and> (\<forall>r. order r \<le> 0 \<longrightarrow>
         fst (fst (process_result a env is_auto sd0 symbol (True, Result r))) = False
         \<and> last_trade_time (snd (process_result a env is_auto sd0 symbol (True, Result r)))
             = last_trade_time a)
   \<and> (\<forall>r. 0 < order r \<longrightarrow>
         fst (process_result a env is_auto sd0 symbol (True, Result r)) = (True, Result r)
         \<and> last_trade_time (snd (process_result a env is_auto sd0 symbol (True, Result r)))
             = (last_trade_time a)(symbol \<mapsto> now_utc_executed env)
         \<and> saved_signals (snd (process_result a env is_auto sd0 symbol (True, Result r)))
             = df_signals (snd (process_result a env is_auto sd0 symbol (True, Result r)))
         \<and> (keyed sd0 \<longrightarrow>
              (\<forall>row \<in> set (df_signals (snd (process_result a env is_auto sd0 symbol
                                                  (True, Result r)))).
                 signal_key row = signal_key sd0 \<longrightarrow>
                   sig_executed row
                   \<and> sig_notes row = source_log_prefix is_auto @ '': Executed. Order ID: ''
                                       @ str_int (order r))))
   \<and> (resolve_signal_data a env signal_data = Inr sd1
        \<and> first_failing (guard_pipeline a env sd1 ov is_auto) [] = None
        \<and> symbol_info_known a env sd1
        \<and> app_mt5_manager a = Some mgr1
        \<and> preflight_ok mgr1 (venue env) (symbol_text (sig_symbol sd1))
              (final_order_type_str sd1 ov) None
        \<and> (is_auto \<or> confirm_yes env)
        \<and> order_send (venue env) = Some r1
        \<and> (retcode r1 = TRADE_RETCODE_DONE \<or> retcode r1 = TRADE_RETCODE_PLACED)
        \<and> 0 < order r1 \<longrightarrow>
        fst (execute_trade_from_signal_data a env signal_data ov is_auto) = (True, Result r1)
        \<and> last_trade_time (fst (snd (execute_trade_from_signal_data a env signal_data ov is_auto)))
            = (last_trade_time a)(symbol_text (sig_symbol sd1) \<mapsto> now_utc_executed env)
        \<and> saved_signals (fst (snd (execute_trade_from_signal_data a env signal_data ov is_auto)))
            = df_signals (fst (snd (execute_trade_from_signal_data a env signal_data ov is_auto)))
        \<and> (keyed sd1 \<longrightarrow>
             (\<forall>row \<in> set (df_signals (fst (snd (execute_trade_from_signal_data a env signal_data
                                                        ov is_auto)))).
                signal_key row = signal_key sd1 \<longrightarrow>
                  sig_executed row
                  \<and> sig_notes row = source_log_prefix is_auto @ '': Executed. Order ID: ''
                                      @ str_int (order r1))))"
proof (intro conjI impI allI)
  assume pf: "preflight_ok mgr v symbol ot price"
  note so = send_order_preflight [OF pf, of fs volume]
  show "fst (fst (send_order mgr v fs symbol ot volume price))
         \<longleftrightarrow> (\<exists>r. order_send v = Some r
                   \<and> (retcode r = TRADE_RETCODE_DONE \<or> retcode r = TRADE_RETCODE_PLACED))"
    by (simp add: so split: option.splits)
  show "fst (send_order mgr v fs symbol ot volume price)
              = (False, Message (''Order send failed: ''
                                   @ get_retcode_description (fst (last_error v))
                                   @ '' ('' @ snd (last_error v) @ '')''))"
    if "order_send v = None"
    using that by (simp add: so)
  show "fst (send_order mgr v fs symbol ot volume price)
              = (False, Message (''Order send failed: '' @ result_comment r
                                   @ '' (Code: '' @ str_int (retcode r) @ '' - ''
                                   @ get_retcode_description (retcode r) @ '')''))"
    if "order_send v = Some r \<and> retcode r \<noteq> TRADE_RETCODE_DONE
                \<and> retcode r \<noteq> TRADE_RETCODE_PLACED" for r
    using that by (simp add: so)
next
  assume "fst (fst (send_order mgr v fs symbol ot volume price))"
  from send_order_success [OF this]
  show "\<exists>r. order_send v = Some r
              \<and> (retcode r = TRADE_RETCODE_DONE \<or> retcode r = TRADE_RETCODE_PLACED)"
    by blast
next
  assume "execute_trade_from_signal_data a env signal_data ov is_auto = (res, a', tr) \<and> fst res"
  then have run: "execute_trade_from_signal_data a env signal_data ov is_auto = (res, a', tr)"
    and ok: "fst res" by simp_all
  from execute_success [OF run ok]
  show "\<exists>sd r. resolve_signal_data a env signal_data = Inr sd
           \<and> res = (True, Result r) \<and> order_send (venue env) = Some r
           \<and> (retcode r = TRADE_RETCODE_DONE \<or> retcode r = TRADE_RETCODE_PLACED) \<and> 0 < order r
           \<and> last_trade_time a'
               = (last_trade_time a)(symbol_text (sig_symbol sd) \<mapsto> now_utc_executed env)
           \<and> saved_signals a' = df_signals a'
           \<and> (keyed sd \<longrightarrow>
                (\<forall>row \<in> set (df_signals a'). signal_key row = signal_key sd \<longrightarrow>
                   sig_executed row
                   \<and> sig_notes row = source_log_prefix is_auto @ '': Executed. Order ID: ''
                                       @ str_int (order r)))" .
next
  fix r :: order_result
  assume "order r \<le> 0"
  from process_result_no_order [OF this, of a env is_auto sd0 symbol]
  show "fst (fst (process_result a env is_auto sd0 symbol (True, Result r))) = False"
    and "last_trade_time (snd (process_result a env is_auto sd0 symbol (True, Result r)))
             = last_trade_time a"
    by blast+
next
  fix r :: order_result
  assume "0 < order r"
  note acc = process_result_accepts [OF this, of a env is_auto sd0 symbol]
  from acc show "fst (process_result a env is_auto sd0 symbol (True, Result r)) = (True, Result r)"
    by blast
  from acc show "last_trade_time (snd (process_result a env is_auto sd0 symbol (True, Result r)))
             = (last_trade_time a)(symbol \<mapsto> now_utc_executed env)"
    by blast
  from acc show "saved_signals (snd (process_result a env is_auto sd0 symbol (True, Result r)))
             = df_signals (snd (process_result a env is_auto sd0 symbol (True, Result r)))"
    by blast
  from acc show "\<forall>row \<in> set (df_signals (snd (process_result a env is_auto sd0 symbol
                                                  (True, Result r)))).
                 signal_key row = signal_key sd0 \<longrightarrow>
                   sig_executed row
                   \<and> sig_notes row = source_log_prefix is_auto @ '': Executed. Order ID: ''
                                       @ str_int (order r)"
    if "keyed sd0"
    using that by blast
next
  assume h: "resolve_signal_data a env signal_data = Inr sd1
        \<and> first_failing (guard_pipeline a env sd1 ov is_auto) [] = None
        \<and> symbol_info_known a env sd1
        \<and> app_mt5_manager a = Some mgr1
        \<and> preflight_ok mgr1 (venue env) (symbol_text (sig_symbol sd1))
              (final_order_type_str sd1 ov) None
        \<and> (is_auto \<or> confirm_yes env)
        \<and> order_send (venue env) = Some r1
        \<and> (retcode r1 = TRADE_RETCODE_DONE \<or> retcode r1 = TRADE_RETCODE_PLACED)
        \<and> 0 < order r1"
  then have "resolve_signal_data a env signal_data = Inr sd1"
    and "first_failing (guard_pipeline a env sd1 ov is_auto) [] = None"
    and "symbol_info_known a env sd1"
    and "app_mt5_manager a = Some mgr1"
    and "preflight_ok mgr1 (venue env) (symbol_text (sig_symbol sd1))
              (final_order_type_str sd1 ov) None"
    and "is_auto \<or> confirm_yes env"
    and "order_send (venue env) = Some r1"
    and "retcode r1 = TRADE_RETCODE_DONE \<or> retcode r1 = TRADE_RETCODE_PLACED"
    and "0 < order r1"
    by simp_all
  from execute_accepts [OF this]
  obtain a1 where run: "execute_trade_from_signal_data a env signal_data ov is_auto
                 = ((True, Result r1), a1,
                    [TimeGate, NewsGate, ConnectionGate, ValidityGate, IntervalGate, SpreadGate,
                     Sizing, Submit])"
    and ltt: "last_trade_time a1
               = (last_trade_time a)(symbol_text (sig_symbol sd1) \<mapsto> now_utc_executed env)"
    and saved: "saved_signals a1 = df_signals a1"
    and rows: "keyed sd1 \<longrightarrow>
                (\<forall>row \<in> set (df_signals a1). signal_key row = signal_key sd1 \<longrightarrow>
                   sig_executed row
                   \<and> sig_notes row = source_log_prefix is_auto @ '': Executed. Order ID: ''
                                       @ str_int (order r1))"
    by blast
  from run show "fst (execute_trade_from_signal_data a env signal_data ov is_auto) = (True, Result r1)"
    by simp
  from run ltt
  show "last_trade_time (fst (snd (execute_trade_from_signal_data a env signal_data ov is_auto)))
            = (last_trade_time a)(symbol_text (sig_symbol sd1) \<mapsto> now_utc_executed env)"
    by simp
  from run saved
  show "saved_signals (fst (snd (execute_trade_from_signal_data a env signal_data ov is_auto)))
            = df_signals (fst (snd (execute_trade_from_signal_data a env signal_data ov is_auto)))"
    by simp
  from run rows
  show "\<forall>row \<in> set (df_signals (fst (snd (execute_trade_from_signal_data a env signal_data
                                                        ov is_auto)))).
                signal_key row = signal_key sd1 \<longrightarrow>
                  sig_executed row
                  \<and> sig_notes row = source_log_prefix is_auto @ '': Executed. Order ID: ''
                                      @ str_int (order r1)"
    if "keyed sd1"
    using that by simp
qed


theorem C8_order_resolution_witness:
  "preflight_ok mgr_on (trading_venue (Some (accepted 555))) ''XAUUSD'' ''buy'' None
   \<and> fst (fst (send_order mgr_on (trading_venue (Some (accepted 555))) (\<lambda>_. ''0.0'')
                  ''XAUUSD'' ''buy'' 100 None))
   \<and> fst (send_order mgr_on (trading_venue None) (\<lambda>_. ''0.0'') ''XAUUSD'' ''buy'' 100 None)
       = (False, Message ''Order send failed: Unknown retcode: 1 (Success)'')
   \<and> fst (send_order mgr_on (trading_venue (Some rejected)) (\<lambda>_. ''0.0'') ''XAUUSD'' ''buy'' 100 None)
       = (False, Message ''Order send failed: No money (Code: 10019 - Not enough money)'')
   \<and> fst (process_result open_app calm_env True example_signal ''XAUUSD'' (True, Result (accepted 1)))
       = (True, Result (accepted 1))
   \<and> last_trade_time (fst (snd (execute_trade_from_signal_data open_app calm_env
                                   (Some example_signal) None True))) ''XAUUSD''
       = Some 1700000003000000
   \<and> map sig_executed (df_signals (fst (snd (execute_trade_from_signal_data open_app calm_env
                                                (Some example_signal) None True)))) = [True]
   \<and> saved_signals (fst (snd (execute_trade_from_signal_data open_app calm_env
                                 (Some example_signal) None True)))
       = df_signals (fst (snd (execute_trade_from_signal_data open_app calm_env
                                 (Some example_signal) None True)))"
proof -
  let ?fs = "\<lambda>_::rat. ''0.0''"
  have pf1: "preflight_ok mgr_on (trading_venue (Some (accepted 555))) ''XAUUSD'' ''buy'' None"
    by code_simp
  have pf2: "preflight_ok mgr_on (trading_venue None) ''XAUUSD'' ''buy'' None"
    by code_simp
  have pf3: "preflight_ok mgr_on (trading_venue (Some rejected)) ''XAUUSD'' ''buy'' None"
    by code_simp
  have os: "order_send (trading_venue answer) = answer" for answer
    by (simp add: trading_venue_def)
  have le: "last_error (trading_venue answer) = (1, ''Success'')" for answer
    by (simp add: trading_venue_def)
  have acc: "retcode (accepted 555) = TRADE_RETCODE_DONE"
    by (simp add: accepted_def TRADE_RETCODE_DONE_def)
  have rej: "retcode rejected = 10019" "result_comment rejected = ''No money''"
    by (simp_all add: rejected_def)
  have rej': "order_send (trading_venue (Some rejected)) = Some rejected
              \<and> retcode rejected \<noteq> TRADE_RETCODE_DONE \<and> retcode rejected \<noteq> TRADE_RETCODE_PLACED"
    by (simp add: os rej TRADE_RETCODE_DONE_def TRADE_RETCODE_PLACED_def)
  have d1: "get_retcode_description 1 = ''Unknown retcode: 1''"
    by (simp add: get_retcode_description_def retcode_table_def TRADE_RETCODE_PLACED_def
          str_int_def str_nat.simps digit_char_def)
  have d3: "get_retcode_description 10019 = ''Not enough money''"
    by (simp add: get_retcode_description_def retcode_table_def TRADE_RETCODE_PLACED_def)
  have d4: "str_int 10019 = ''10019''"
    by (simp add: str_int_def str_nat.simps digit_char_def)
  note t1 = C8_order_resolution [of mgr_on "trading_venue (Some (accepted 555))" "''XAUUSD''"
              "''buy''" None ?fs 100, THEN conjunct1, THEN mp, OF pf1, THEN conjunct1]
  have a: "fst (fst (send_order mgr_on (trading_venue (Some (accepted 555))) ?fs ''XAUUSD'' ''buy'' 100 None))"
    unfolding t1 using os acc by blast
  note t2 = C8_order_resolution [of mgr_on "trading_venue None" "''XAUUSD''"
              "''buy''" None ?fs 100, THEN conjunct1, THEN mp, OF pf2, THEN conjunct2,
              THEN conjunct1, THEN mp, OF os]
  have b: "fst (send_order mgr_on (trading_venue None) ?fs ''XAUUSD'' ''buy'' 100 None)
       = (False, Message ''Order send failed: Unknown retcode: 1 (Success)'')"
    by (simp only: t2 le fst_conv snd_conv d1) simp
  note t3 = C8_order_resolution [of mgr_on "trading_venue (Some rejected)" "''XAUUSD''"
              "''buy''" None ?fs 100, THEN conjunct1, THEN mp, OF pf3, THEN conjunct2,
              THEN conjunct2, THEN spec, THEN mp, OF rej']
  have c: "fst (send_order mgr_on (trading_venue (Some rejected)) ?fs ''XAUUSD'' ''buy'' 100 None)
       = (False, Message ''Order send failed: No money (Code: 10019 - Not enough money)'')"
    by (simp only: t3 rej d3 d4) simp
  obtain res a' tr where
    run: "execute_trade_from_signal_data open_app calm_env (Some example_signal) None True = (res, a', tr)"
    by (cases "execute_trade_from_signal_data open_app calm_env (Some example_signal) None True") auto
  have sd: "resolve_signal_data open_app calm_env (Some example_signal) = Inr example_signal"
    by (simp add: resolve_signal_data_def)
  have gates: "first_failing (guard_pipeline open_app calm_env example_signal None True) [] = None"
    by code_simp
  have known: "symbol_info_known open_app calm_env example_signal"
    by code_simp
  have om: "app_mt5_manager open_app = Some mgr_on"
    by (simp add: open_app_def example_app_def)
  have pf4: "preflight_ok mgr_on (venue calm_env) (symbol_text (sig_symbol example_signal))
               (final_order_type_str example_signal None) None"
    by code_simp
  have os4: "order_send (venue calm_env) = Some (accepted 555)"
    by code_simp
  have acc4: "retcode (accepted 555) = TRADE_RETCODE_DONE \<or> retcode (accepted 555) = TRADE_RETCODE_PLACED"
    by (simp add: accepted_def TRADE_RETCODE_DONE_def)
  have pos4: "0 < order (accepted 555)"
    by (simp add: accepted_def)
  have one: "0 < order (accepted 1)"
    by (simp add: accepted_def)
  have hyp: "resolve_signal_data open_app calm_env (Some example_signal) = Inr example_signal
        \<and> first_failing (guard_pipeline open_app calm_env example_signal None True) [] = None
        \<and> symbol_info_known open_app calm_env example_signal
        \<and> app_mt5_manager open_app = Some mgr_on
        \<and> preflight_ok mgr_on (venue calm_env) (symbol_text (sig_symbol example_signal))
              (final_order_type_str example_signal None) None
        \<and> (True \<or> confirm_yes calm_env)
        \<and> order_send (venue calm_env) = Some (accepted 555)
        \<and> (retcode (accepted 555) = TRADE_RETCODE_DONE
             \<or> retcode (accepted 555) = TRADE_RETCODE_PLACED)
        \<and> 0 < order (accepted 555)"
    using sd gates known om pf4 os4 acc4 pos4 by simp
  note t5 = C8_order_resolution [of mgr_on "trading_venue None" "''XAUUSD''" "''buy''" None ?fs 100
              open_app calm_env "Some example_signal" None True res a' tr example_signal
              example_signal mgr_on "accepted 555",
              THEN conjunct2, THEN conjunct2, THEN conjunct2, THEN conjunct2, THEN conjunct1,
              THEN spec, THEN mp, OF one, THEN conjunct1]
  note t6 = C8_order_resolution [of mgr_on "trading_venue None" "''XAUUSD''" "''buy''" None ?fs 100
              open_app calm_env "Some example_signal" None True res a' tr example_signal
              example_signal mgr_on "accepted 555",
              THEN conjunct2, THEN conjunct2, THEN conjunct2, THEN conjunct2, THEN conjunct2,
              THEN mp, OF hyp, THEN conjunct1]
  from t6 run have okr: "fst res" by simp
  have k: "keyed example_signal" by code_simp
  have st: "symbol_text (sig_symbol example_signal) = ''XAUUSD''" by code_simp
  have now: "now_utc_executed calm_env = 1700000003000000" by code_simp
  have keys: "map signal_key (df_signals a') = [signal_key example_signal]"
  proof -
    have "map signal_key (df_signals (fst (snd (execute_trade_from_signal_data open_app calm_env
                                                 (Some example_signal) None True))))
            = [signal_key example_signal]"
      by code_simp
    with run show ?thesis by simp
  qed
  note t4 = C8_order_resolution [of mgr_on "trading_venue None" "''XAUUSD''" "''buy''" None ?fs 100
              open_app calm_env "Some example_signal" None True res a' tr,
              THEN conjunct2, THEN conjunct2, THEN conjunct1, THEN mp, OF conjI, OF run okr]
  from t4 sd
  obtain r where e: "last_trade_time a'
               = (last_trade_time open_app)(symbol_text (sig_symbol example_signal) \<mapsto> now_utc_executed calm_env)"
      "saved_signals a' = df_signals a'"
      "keyed example_signal \<longrightarrow>
         (\<forall>row \<in> set (df_signals a'). signal_key row = signal_key example_signal \<longrightarrow> sig_executed row)"
    by auto
  from e(1) st now have l: "last_trade_time a' ''XAUUSD'' = Some 1700000003000000"
    by simp
  from keys obtain row where rows: "df_signals a' = [row]" "signal_key row = signal_key example_signal"
    by (cases "df_signals a'") auto
  with e(3) k have ex: "map sig_executed (df_signals a') = [True]"
    by simp
  from pf1 a b c t5 l ex e(2) show ?thesis
    by (simp add: run)
qed

section \<open>Properties of the auto-trade lock\<close>

lemma in_flight_unchanged:
  "p \<noteq> InFlight \<Longrightarrow> f t \<noteq> InFlight \<Longrightarrow> (f(t := p)) u = InFlight \<longleftrightarrow> f u = InFlight"
  by auto

lemma step_keeps_exclusion:
  assumes "step s s'"
    and "AUTO_TRADE_LOCK s \<longleftrightarrow> (\<exists>t. point_of s t = InFlight)"
    and "\<forall>t u. point_of s t = InFlight \<and> point_of s u = InFlight \<longrightarrow> t = u"
  shows "(AUTO_TRADE_LOCK s' \<longleftrightarrow> (\<exists>t. point_of s' t = InFlight))
         \<and> (\<forall>t u. point_of s' t = InFlight \<and> point_of s' u = InFlight \<longrightarrow> t = u)"
  using assms(1)
proof (cases rule: step.cases)
  case (skip t)
  then have "point_of s' u = InFlight \<longleftrightarrow> point_of s u = InFlight" for u
    by (simp add: in_flight_unchanged del: fun_upd_apply)
  with skip assms(2,3) show ?thesis by simp
next
  case (pass t)
  then have "point_of s' u = InFlight \<longleftrightarrow> point_of s u = InFlight" for u
    by (simp add: in_flight_unchanged del: fun_upd_apply)
  with pass assms(2,3) show ?thesis by simp
next
  case (enter t)
  with assms(2,3) show ?thesis by (auto split: if_splits)
next
  case (leave t)
  with assms(2,3) show ?thesis by (auto split: if_splits)
next
  case (manual_enter t)
  then have "point_of s' u = InFlight \<longleftrightarrow> point_of s u = InFlight" for u
    by (simp add: in_flight_unchanged del: fun_upd_apply)
  with manual_enter assms(2,3) show ?thesis by simp
next
  case (manual_leave t)
  then have "point_of s' u = InFlight \<longleftrightarrow> point_of s u = InFlight" for u
    by (simp add: in_flight_unchanged del: fun_upd_apply)
  with manual_leave assms(2,3) show ?thesis by simp
qed

lemma reachable_exclusion:
  "reachable s \<Longrightarrow>
     (AUTO_TRADE_LOCK s \<longleftrightarrow> (\<exists>t. point_of s t = InFlight))
     \<and> (\<forall>t u. point_of s t = InFlight \<and> point_of s u = InFlight \<longrightarrow> t = u)"
proof (induction rule: reachable.induct)
  case (reach_start s)
  then show ?case
    by (auto simp: initial_def) (metis call_point.distinct)+
next
  case (reach_step s s')
  then show ?case
    using step_keeps_exclusion [of s s'] by blast
qed

lemma arrived_while_locked:
  assumes "point_of s t = Arrived" and "AUTO_TRADE_LOCK s"
  shows "step s (s\<lparr>point_of := (point_of s)(t := Rejected)\<rparr>)
         \<and> (\<forall>s'. step s s' \<and> point_of s' t \<noteq> point_of s t \<longrightarrow> point_of s' t = Rejected)"
proof
  from assms show "step s (s\<lparr>point_of := (point_of s)(t := Rejected)\<rparr>)"
    by (rule step.skip)
  show "\<forall>s'. step s s' \<and> point_of s' t \<noteq> point_of s t \<longrightarrow> point_of s' t = Rejected"
  proof (intro allI impI)
    fix s'
    assume "step s s' \<and> point_of s' t \<noteq> point_of s t"
    then have st: "step s s'" and ch: "point_of s' t \<noteq> point_of s t" by simp_all
    from st ch assms show "point_of s' t = Rejected"
      by (cases rule: step.cases) (auto split: if_splits)
  qed
qed

lemma manual_ignores_lock:
  assumes "step s s'" and "point_of s t = ManualArrived \<or> point_of s t = ManualInFlight"
    and "point_of s' t \<noteq> point_of s t"
  shows "AUTO_TRADE_LOCK s' = AUTO_TRADE_LOCK s"
  using assms by (cases rule: step.cases) (auto split: if_splits)

lemma auto_execute_locked:
  assumes "get_setting_bool (app_data_manager a) ''auto_trade_enabled'' False"
    and "mt5_connected a" and "confident a sd"
  shows "auto_execute_model_signal_if_conditions_met a env True sd
           = (set_note a sd lock_active_note, [])"
    and "auto_execute_model_signal_if_conditions_met a env False sd
           = (fst (snd (execute_trade_from_signal_data a env (Some sd) None True)),
              snd (snd (execute_trade_from_signal_data a env (Some sd) None True)))"
  using assms
  by (simp_all add: auto_execute_model_signal_if_conditions_met_def split: prod.splits)

lemma set_note_rows:
  assumes "sig_time sd \<noteq> None" and "sig_symbol sd \<noteq> None"
    and "row \<in> set (df_signals (set_note a sd reason))" and "signal_key row = signal_key sd"
  shows "sig_notes row = reason \<and> \<not> sig_executed row"
proof -
  from assms(1,2) obtain tm sy where "sig_time sd = Some tm" "sig_symbol sd = Some sy" by auto
  with assms(3,4) update_marks_rows [of row "df_signals a" tm sy False reason] show ?thesis
    by (simp add: set_note_def signal_key_def)
qed

lemma set_note_rest:
  "last_trade_time (set_note a sd reason) = last_trade_time a
   \<and> saved_signals (set_note a sd reason) = saved_signals a
   \<and> app_mt5_manager (set_note a sd reason) = app_mt5_manager a
   \<and> map signal_key (df_signals (set_note a sd reason)) = map signal_key (df_signals a)"
  by (simp add: set_note_def update_keeps_keys)


text \<open>
  C4: in every reachable state of the concurrent calls at most one automatic attempt
  is inside the \<^verbatim>\<open>with AUTO_TRADE_LOCK\<close> block, and the lock is held exactly while
  one is. An automatic call that tests the lock while it is held returns at once: it
  is enabled to move to the rejected point, and that is the only point it can move
  to. Such a call (auto trading enabled, venue connected, confidence at the
  threshold) runs no step of the execution, writes the lock-active note with
  \<open>executed\<close> false into the ledger rows of its signal, and changes nothing else; with the
  lock free it runs the execution of the signal. A manual call can start its attempt
  whatever the lock, never changes the lock, and its steps follow the same gate
  order.
\<close>

theorem C4_auto_trade_lock:
  "(reachable s \<and> point_of s t = InFlight \<and> point_of s u = InFlight \<longrightarrow> t = u)
   \<and> (reachable s \<longrightarrow> (AUTO_TRADE_LOCK s \<longleftrightarrow> (\<exists>w. point_of s w = InFlight)))
   \<and> (point_of s t = Arrived \<and> AUTO_TRADE_LOCK s \<longrightarrow>
        step s (s\<lparr>point_of := (point_of s)(t := Rejected)\<rparr>)
        \<and> (\<forall>s'. step s s' \<and> point_of s' t \<noteq> point_of s t \<longrightarrow> point_of s' t = Rejected))
   \<and> (get_setting_bool (app_data_manager a) ''auto_trade_enabled'' False
        \<and> mt5_connected a \<and> confident a sd \<longrightarrow>
        auto_execute_model_signal_if_conditions_met a env True sd
          = (set_note a sd lock_active_note, [])
        \<and> last_trade_time (set_note a sd lock_active_note) = last_trade_time a
        \<and> map signal_key (df_signals (set_note a sd lock_active_note))
            = map signal_key (df_signals a)
        \<and> (sig_time sd \<noteq> None \<and> sig_symbol sd \<noteq> None \<longrightarrow>
             (\<forall>row \<in> set (df_signals (set_note a sd lock_active_note)).
                signal_key row = signal_key sd \<longrightarrow>
                  sig_notes row = lock_active_note \<and> \<not> sig_executed row))
        \<and> auto_execute_model_signal_if_conditions_met a env False sd
            = (fst (snd (execute_trade_from_signal_data a env (Some sd) None True)),
               snd (snd (execute_trade_from_signal_data a env (Some sd) None True))))
   \<and> (point_of s t = ManualArrived \<longrightarrow>
        step s (s\<lparr>point_of := (point_of s)(t := ManualInFlight)\<rparr>))
   \<and> (\<forall>s'. step s s' \<and> (point_of s t = ManualArrived \<or> point_of s t = ManualInFlight)
             \<and> point_of s' t \<noteq> point_of s t \<longrightarrow> AUTO_TRADE_LOCK s' = AUTO_TRADE_LOCK s)
   \<and> prefix (snd (snd (execute_trade_from_signal_data a env signal_data ov False))) gate_order"
proof (intro conjI impI allI)
  assume "reachable s \<and> point_of s t = InFlight \<and> point_of s u = InFlight"
  with reachable_exclusion [of s] show "t = u" by blast
next
  assume "reachable s"
  with reachable_exclusion [of s] show "AUTO_TRADE_LOCK s \<longleftrightarrow> (\<exists>w. point_of s w = InFlight)"
    by blast
next
  assume h: "point_of s t = Arrived \<and> AUTO_TRADE_LOCK s"
  then have "point_of s t = Arrived" "AUTO_TRADE_LOCK s" by simp_all
  note r = arrived_while_locked [OF this]
  from r show "step s (s\<lparr>point_of := (point_of s)(t := Rejected)\<rparr>)" by blast
  fix s'
  assume "step s s' \<and> point_of s' t \<noteq> point_of s t"
  with r show "point_of s' t = Rejected" by blast
next
  assume h: "get_setting_bool (app_data_manager a) ''auto_trade_enabled'' False
        \<and> mt5_connected a \<and> confident a sd"
  then have c: "get_setting_bool (app_data_manager a) ''auto_trade_enabled'' False"
    "mt5_connected a" "confident a sd" by simp_all
  show "auto_execute_model_signal_if_conditions_met a env True sd
          = (set_note a sd lock_active_note, [])"
    by (rule auto_execute_locked(1) [OF c])
  show "auto_execute_model_signal_if_conditions_met a env False sd
            = (fst (snd (execute_trade_from_signal_data a env (Some sd) None True)),
               snd (snd (execute_trade_from_signal_data a env (Some sd) None True)))"
    by (rule auto_execute_locked(2) [OF c])
  show "last_trade_time (set_note a sd lock_active_note) = last_trade_time a"
    by (simp add: set_note_rest)
  show "map signal_key (df_signals (set_note a sd lock_active_note))
            = map signal_key (df_signals a)"
    by (simp add: set_note_rest)
  show "\<forall>row \<in> set (df_signals (set_note a sd lock_active_note)).
                signal_key row = signal_key sd \<longrightarrow>
                  sig_notes row = lock_active_note \<and> \<not> sig_executed row"
    if "sig_time sd \<noteq> None \<and> sig_symbol sd \<noteq> None"
    using that set_note_rows [of sd _ a lock_active_note] by blast
next
  assume "point_of s t = ManualArrived"
  then show "step s (s\<lparr>point_of := (point_of s)(t := ManualInFlight)\<rparr>)"
    by (rule step.manual_enter)
next
  fix s'
  assume "step s s' \<and> (point_of s t = ManualArrived \<or> point_of s t = ManualInFlight)
             \<and> point_of s' t \<noteq> point_of s t"
  then show "AUTO_TRADE_LOCK s' = AUTO_TRADE_LOCK s"
    using manual_ignores_lock [of s s' t] by blast
next
  show "prefix (snd (snd (execute_trade_from_signal_data a env signal_data ov False))) gate_order"
    using execute_trace_prefix [of a env signal_data ov False] by (metis prod.collapse)
qed

lemma reachable_first_in_flight: "reachable first_in_flight"
proof -
  have r0: "reachable calls_at_start"
    by (rule reachable.reach_start) (simp add: initial_def calls_at_start_def)
  let ?s1 = "calls_at_start\<lparr>point_of := (point_of calls_at_start)(0 := Checked)\<rparr>"
  have "step calls_at_start ?s1"
    by (rule step.pass) (simp_all add: calls_at_start_def)
  with r0 have r1: "reachable ?s1" by (rule reachable.reach_step)
  have "step ?s1 (?s1\<lparr>AUTO_TRADE_LOCK := True, point_of := (point_of ?s1)(0 := InFlight)\<rparr>)"
    by (rule step.enter) (simp_all add: calls_at_start_def)
  with r1 have "reachable (?s1\<lparr>AUTO_TRADE_LOCK := True, point_of := (point_of ?s1)(0 := InFlight)\<rparr>)"
    by (rule reachable.reach_step)
  moreover have "?s1\<lparr>AUTO_TRADE_LOCK := True, point_of := (point_of ?s1)(0 := InFlight)\<rparr> = first_in_flight"
    by (simp add: calls_at_start_def first_in_flight_def fun_eq_iff)
  ultimately show ?thesis by simp
qed

theorem C4_auto_trade_lock_witness:
  "reachable first_in_flight \<and> AUTO_TRADE_LOCK first_in_flight
   \<and> point_of first_in_flight 0 = InFlight \<and> point_of first_in_flight 1 = Arrived
   \<and> point_of first_in_flight 2 = ManualArrived
   \<and> step first_in_flight (first_in_flight\<lparr>point_of := (point_of first_in_flight)(1 := Rejected)\<rparr>)
   \<and> \<not> step first_in_flight (first_in_flight\<lparr>point_of := (point_of first_in_flight)(1 := Checked)\<rparr>)
   \<and> step first_in_flight
        (first_in_flight\<lparr>point_of := (point_of first_in_flight)(2 := ManualInFlight)\<rparr>)
   \<and> snd (auto_execute_model_signal_if_conditions_met auto_app calm_env True example_signal) = []
   \<and> map sig_notes (df_signals (fst (auto_execute_model_signal_if_conditions_met auto_app calm_env
                                        True example_signal)))
       = [lock_active_note]"
proof -
  have p: "AUTO_TRADE_LOCK first_in_flight" "point_of first_in_flight 0 = InFlight"
    "point_of first_in_flight 1 = Arrived" "point_of first_in_flight 2 = ManualArrived"
    by (simp_all add: first_in_flight_def)
  note r = reachable_first_in_flight
  note T = C4_auto_trade_lock [of first_in_flight 1 0 auto_app example_signal calm_env None None]
  from T p have rej: "step first_in_flight
      (first_in_flight\<lparr>point_of := (point_of first_in_flight)(1 := Rejected)\<rparr>)"
    by blast
  from T p have only: "\<forall>s'. step first_in_flight s' \<and> point_of s' 1 \<noteq> point_of first_in_flight 1
                        \<longrightarrow> point_of s' 1 = Rejected"
    by blast
  have nochk: "\<not> step first_in_flight
      (first_in_flight\<lparr>point_of := (point_of first_in_flight)(1 := Checked)\<rparr>)"
  proof
    assume "step first_in_flight
      (first_in_flight\<lparr>point_of := (point_of first_in_flight)(1 := Checked)\<rparr>)"
    with only p(3) show False by (auto simp: fun_upd_apply)
  qed
  note T2 = C4_auto_trade_lock [of first_in_flight 2 0 auto_app example_signal calm_env None None]
  from T2 p have man: "step first_in_flight
      (first_in_flight\<lparr>point_of := (point_of first_in_flight)(2 := ManualInFlight)\<rparr>)"
    by blast
  have c: "get_setting_bool (app_data_manager auto_app) ''auto_trade_enabled'' False
        \<and> mt5_connected auto_app \<and> confident auto_app example_signal"
    by code_simp
  from T c have ae: "auto_execute_model_signal_if_conditions_met auto_app calm_env True example_signal
          = (set_note auto_app example_signal lock_active_note, [])"
    by blast
  have k: "sig_time example_signal \<noteq> None \<and> sig_symbol example_signal \<noteq> None"
    by (simp add: example_signal_def)
  from T c k have rows: "\<forall>row \<in> set (df_signals (set_note auto_app example_signal lock_active_note)).
                signal_key row = signal_key example_signal \<longrightarrow>
                  sig_notes row = lock_active_note \<and> \<not> sig_executed row"
    by blast
  from T c have keys: "map signal_key (df_signals (set_note auto_app example_signal lock_active_note))
            = map signal_key (df_signals auto_app)"
    by blast
  have "map signal_key (df_signals auto_app) = [signal_key example_signal]"
    by (simp add: auto_app_def example_app_def)
  with keys obtain row where
    "df_signals (set_note auto_app example_signal lock_active_note) = [row]"
    "signal_key row = signal_key example_signal"
    by (cases "df_signals (set_note auto_app example_signal lock_active_note)") auto
  with rows have "map sig_notes (df_signals (set_note auto_app example_signal lock_active_note))
                    = [lock_active_note]"
    by simp
  with r p rej nochk man ae show ?thesis by simp
qed

end
